theory Spec2Isabelle
  imports Main
begin

section \<open>Python values and library behaviour used by the two scripts\<close>

text \<open>
  The repository holds two Python scripts: \<^verbatim>\<open>Jenkins_agent_manager.py\<close> (the installer)
  and \<^verbatim>\<open>test.py\<close> (installer plus monitor loop). Both are embedded as state-passing
  functions over a \<open>world\<close> that records, in order, every externally visible effect
  (log records, external commands, sleeps, file-system changes, SMTP operations).
  Exceptions are values of type \<open>exn\<close>; a function that can raise returns \<open>exn + 'a\<close>.
  A Python \<open>str\<close> is a \<open>string\<close> whose characters are read as code points below 256.
\<close>

abbreviation NL :: string where "NL \<equiv> [CHR 0x0A]"
abbreviation DQ :: string where "DQ \<equiv> [CHR 0x22]"
abbreviation SQ :: string where "SQ \<equiv> [CHR 0x27]"

text \<open>\<open>str(n)\<close> for integers.\<close>

fun str_nat :: "nat \<Rightarrow> string" where
  "str_nat n =
     (if n < 10 then [''0123456789'' ! n]
      else str_nat (n div 10) @ [''0123456789'' ! (n mod 10)])"

declare str_nat.simps [simp del]

definition str_int :: "int \<Rightarrow> string" where
  "str_int i = (if i < 0 then ''-'' @ str_nat (nat (- i)) else str_nat (nat i))"

text \<open>\<open>repr(s)\<close> for a \<open>str\<close> and \<open>str(xs)\<close> for a list of \<open>str\<close>, as an f-string renders a
  command vector.\<close>

definition hex2 :: "nat \<Rightarrow> string" where
  "hex2 n = [''0123456789abcdef'' ! (n div 16), ''0123456789abcdef'' ! (n mod 16)]"

definition repr_char :: "char \<Rightarrow> char \<Rightarrow> string" where
  "repr_char q c =
     (let n = (of_char c :: nat) in
      if c = q \<or> c = CHR 0x5C then [CHR 0x5C, c]
      else if c = CHR 0x09 then [CHR 0x5C, CHR ''t'']
      else if c = CHR 0x0A then [CHR 0x5C, CHR ''n'']
      else if c = CHR 0x0D then [CHR 0x5C, CHR ''r'']
      else if n < 32 \<or> (127 \<le> n \<and> n \<le> 160) \<or> n = 173
        then [CHR 0x5C, CHR ''x''] @ hex2 n
      else [c])"

definition repr_str :: "string \<Rightarrow> string" where
  "repr_str s =
     (let q = (if CHR 0x27 \<in> set s \<and> CHR 0x22 \<notin> set s then CHR 0x22 else CHR 0x27)
      in [q] @ concat (map (repr_char q) s) @ [q])"

fun join :: "string \<Rightarrow> string list \<Rightarrow> string" where
  "join sep [] = []"
| "join sep [x] = x"
| "join sep (x # y # ys) = x @ sep @ join sep (y # ys)"

definition str_list :: "string list \<Rightarrow> string" where
  "str_list xs = ''['' @ join '', '' (map repr_str xs) @ '']''"

text \<open>\<open>s.lower()\<close> on code points below 256.\<close>

definition lower_char :: "char \<Rightarrow> char" where
  "lower_char c =
     (let n = (of_char c :: nat) in
      if (65 \<le> n \<and> n \<le> 90) \<or> (192 \<le> n \<and> n \<le> 222 \<and> n \<noteq> 215)
      then char_of (n + 32) else c)"

definition lower :: "string \<Rightarrow> string" where
  "lower s = map lower_char s"

text \<open>\<open>s.strip()\<close>: the characters Python's \<open>str.isspace\<close> accepts below 256.\<close>

definition isspace :: "char \<Rightarrow> bool" where
  "isspace c =
     (let n = (of_char c :: nat) in
      (9 \<le> n \<and> n \<le> 13) \<or> (28 \<le> n \<and> n \<le> 32) \<or> n = 133 \<or> n = 160)"

definition strip :: "string \<Rightarrow> string" where
  "strip s = rev (dropWhile isspace (rev (dropWhile isspace s)))"

text \<open>\<open>needle in hay\<close> for strings.\<close>

fun starts_with :: "string \<Rightarrow> string \<Rightarrow> bool" where
  "starts_with [] hay = True"
| "starts_with (n # ns) [] = False"
| "starts_with (n # ns) (c # cs) = (n = c \<and> starts_with ns cs)"

fun contains :: "string \<Rightarrow> string \<Rightarrow> bool" where
  "contains needle [] = (needle = [])"
| "contains needle (c # cs) = (starts_with needle (c # cs) \<or> contains needle cs)"

text \<open>Truthiness of an optional string (\<open>not v\<close> holds for \<open>None\<close> and for \<open>""\<close>).\<close>

definition falsy :: "string option \<Rightarrow> bool" where
  "falsy v = (case v of None \<Rightarrow> True | Some s \<Rightarrow> s = [])"

subsection \<open>Exceptions\<close>

datatype exn =
    ValueError string
  | RuntimeError string
  | PyException string
  | NameError string
  | TypeError string
  | KeyError string
  | OSError string
  | SMTPException string
  | CalledProcessError nat "string list" string string
  | SystemExit int

text \<open>\<open>except Exception\<close> catches everything but \<open>SystemExit\<close> (a \<open>BaseException\<close>).\<close>

fun is_Exception :: "exn \<Rightarrow> bool" where
  "is_Exception (SystemExit c) = False"
| "is_Exception e = True"

text \<open>\<open>str(e)\<close>. A \<open>CalledProcessError\<close> with a non-negative return code renders its command
  vector through \<open>str(list)\<close>.\<close>

fun str_exn :: "exn \<Rightarrow> string" where
  "str_exn (ValueError m) = m"
| "str_exn (RuntimeError m) = m"
| "str_exn (PyException m) = m"
| "str_exn (NameError n) = ''name '' @ SQ @ n @ SQ @ '' is not defined''"
| "str_exn (TypeError m) = m"
| "str_exn (KeyError k) = repr_str k"
| "str_exn (OSError m) = m"
| "str_exn (SMTPException m) = m"
| "str_exn (CalledProcessError rc cmd out err) =
     ''Command '' @ SQ @ str_list cmd @ SQ @ '' returned non-zero exit status '' @ str_nat rc @ ''.''"
| "str_exn (SystemExit c) = str_int c"

text \<open>
  How a run of a script stands: an exception left it, \<open>main\<close> returned, or the monitor loop
  is still running (it has no exit of its own). The exit status of the interpreter is the
  code of a \<open>SystemExit\<close>, 1 for any other uncaught exception and 0 after a normal return.
\<close>

datatype outcome = Raised exn | Returned | Running

fun exit_code :: "outcome \<Rightarrow> int option" where
  "exit_code (Raised (SystemExit c)) = Some c"
| "exit_code (Raised e) = Some 1"
| "exit_code Returned = Some 0"
| "exit_code Running = None"

subsection \<open>The host and the effect trace\<close>

datatype level = DEBUG | INFO | WARNING | ERROR | CRITICAL

datatype smtp_op = Connect | StartTLS | Login | SendMail | Quit

datatype event =
    Log level string
  | Run "string list"
  | Sleep nat
  | MakeDirs string
  | Chmod string nat
  | WriteFile string string
  | Smtp smtp_op

text \<open>What one \<open>subprocess.run\<close> call does: the process exits with a status and captured
  output, or it cannot be started (\<open>FileNotFoundError\<close>, \<open>PermissionError\<close>).\<close>

datatype proc = Exited nat string string | NotStarted string

datatype completed = Completed (returncode: nat) (stdout: string) (stderr: string)

text \<open>
  Everything the scripts read from their surroundings. \<open>procs h n\<close> is the outcome of the
  \<open>n\<close>-th \<open>subprocess.run\<close> call of the run, \<open>smtp h n op\<close> the error (if any) with which the
  SMTP operation \<open>op\<close> of the \<open>n\<close>-th alert fails, \<open>fs_fault h p\<close> the error (if any) that a
  file-system change at path \<open>p\<close> raises. The \<open>os.path\<close> functions are host-dependent and
  are taken as they come.
\<close>

record host =
  system :: string
  environ :: "string \<Rightarrow> string option"
  procs :: "nat \<Rightarrow> proc"
  smtp :: "nat \<Rightarrow> smtp_op \<Rightarrow> string option"
  fs_fault :: "string \<Rightarrow> string option"
  path_exists :: "string \<Rightarrow> bool"
  path_join :: "string list \<Rightarrow> string"
  dirname :: "string \<Rightarrow> string"
  home :: string
  getcwd :: string
  getlogin :: string

record world =
  events :: "event list"
  nrun :: nat
  nsend :: nat

definition emit :: "event \<Rightarrow> world \<Rightarrow> world" where
  "emit e w = w\<lparr>events := events w @ [e]\<rparr>"

definition logging :: "level \<Rightarrow> string \<Rightarrow> world \<Rightarrow> world" where
  "logging l m w = emit (Log l m) w"

definition time_sleep :: "nat \<Rightarrow> world \<Rightarrow> world" where
  "time_sleep d w = emit (Sleep d) w"

text \<open>\<open>subprocess.run(command, check=True, ...)\<close>: a non-zero exit status raises
  \<open>CalledProcessError\<close>.\<close>

definition subprocess_run :: "host \<Rightarrow> string list \<Rightarrow> world \<Rightarrow> (exn + completed) \<times> world" where
  "subprocess_run h command w =
     (let w' = (emit (Run command) w)\<lparr>nrun := Suc (nrun w)\<rparr> in
      case procs h (nrun w) of
        NotStarted m \<Rightarrow> (Inl (OSError m), w')
      | Exited rc out err \<Rightarrow>
          if rc \<noteq> 0 then (Inl (CalledProcessError rc command out err), w')
          else (Inr (Completed rc out err), w'))"

text \<open>A file-system change: recorded when it succeeds, an \<open>OSError\<close> otherwise.\<close>

definition fs_change :: "host \<Rightarrow> string \<Rightarrow> event \<Rightarrow> world \<Rightarrow> (exn + unit) \<times> world" where
  "fs_change h path e w =
     (case fs_fault h path of
        Some m \<Rightarrow> (Inl (OSError m), w)
      | None \<Rightarrow> (Inr (), emit e w))"

section \<open>test.py: the retry-protected runner\<close>

text \<open>
  The body of \<open>for attempt in range(retries)\<close>: \<open>None\<close> when the loop runs to its end,
  \<open>Some r\<close> when it is left by \<open>return\<close> or by an exception other than
  \<open>CalledProcessError\<close>.
\<close>

fun retry_loop ::
  "host \<Rightarrow> string list \<Rightarrow> string \<Rightarrow> int \<Rightarrow> nat \<Rightarrow> int list \<Rightarrow> world
    \<Rightarrow> (exn + completed) option \<times> world" where
  "retry_loop h command error_message retries delay [] w = (None, w)"
| "retry_loop h command error_message retries delay (attempt # rest) w =
     (case subprocess_run h command w of
        (Inr result, w1) \<Rightarrow> (Some (Inr result), w1)
      | (Inl (CalledProcessError rc cmd out err), w1) \<Rightarrow>
          retry_loop h command error_message retries delay rest
            (time_sleep delay
              (logging ERROR
                (error_message @ '': '' @ str_exn (CalledProcessError rc cmd out err)
                  @ ''. Attempt '' @ str_int (attempt + 1) @ ''/'' @ str_int retries) w1))
      | (Inl e, w1) \<Rightarrow> (Some (Inl e), w1))"

definition run_command_with_retry ::
  "host \<Rightarrow> string list \<Rightarrow> string \<Rightarrow> int \<Rightarrow> nat \<Rightarrow> world \<Rightarrow> (exn + completed) \<times> world" where
  "run_command_with_retry h command error_message retries delay w =
     (case retry_loop h command error_message retries delay [0..retries - 1] w of
        (Some r, w1) \<Rightarrow> (r, w1)
      | (None, w1) \<Rightarrow>
          (Inl (RuntimeError error_message),
           logging CRITICAL
             (''Command failed after '' @ str_int retries @ '' attempts: '' @ str_list command) w1))"

text \<open>Every call site leaves \<open>retries=3, delay=5\<close> at their defaults.\<close>

definition run_retry :: "host \<Rightarrow> string list \<Rightarrow> string \<Rightarrow> world \<Rightarrow> (exn + completed) \<times> world" where
  "run_retry h command error_message w = run_command_with_retry h command error_message 3 5 w"

section \<open>Configuration\<close>

text \<open>
  The parsed \<^verbatim>\<open>config.json\<close>. \<open>AGENT_DETAILS\<close> is a dictionary keyed by platform name
  (an association list, looked up with \<open>map_of\<close>); every entry carries both of its keys.
\<close>

record agent =
  AGENT_NAME :: string
  AGENT_WORKDIR :: string

record alert_settings =
  EMAIL :: string
  SMTP_SERVER :: string
  SMTP_PORT :: nat
  SMTP_USERNAME :: string

record config =
  JENKINS_SERVER_URL :: string
  AGENT_DETAILS :: "(string \<times> agent) list"
  ALERT_SETTINGS :: alert_settings
  MONITORING_INTERVAL :: nat
  DEBUG_MODE :: bool

section \<open>test.py: configuration, download and installation\<close>

text \<open>\<open>validate_configuration\<close> of test.py: the required keys are fields of \<open>config\<close>, so only
  the SMTP password check can fail.\<close>

definition test_validate_configuration :: "host \<Rightarrow> config \<Rightarrow> world \<Rightarrow> (exn + unit) \<times> world" where
  "test_validate_configuration h cfg w =
     (if falsy (environ h ''SMTP_PASSWORD'')
      then (Inl (ValueError ''Missing SMTP_PASSWORD in .env''), w)
      else (Inr (), logging INFO ''Configuration validated successfully.'' w))"

text \<open>\<open>get_agent_details\<close>: subscripting the \<open>None\<close> that \<open>dict.get\<close> returns for a missing
  platform entry is a \<open>TypeError\<close>.\<close>

definition get_agent_details :: "host \<Rightarrow> config \<Rightarrow> exn + (string \<times> string \<times> string)" where
  "get_agent_details h cfg =
     (let system_platform = system h;
          agent_details = map_of (AGENT_DETAILS cfg) system_platform in
      case (if system_platform = ''Linux'' then
              (case agent_details of
                 None \<Rightarrow> Inl (TypeError (SQ @ ''NoneType'' @ SQ @ '' object is not subscriptable''))
               | Some a \<Rightarrow> Inr (AGENT_NAME a, environ h ''LINUX_AGENT_SECRET'', AGENT_WORKDIR a))
            else if system_platform = ''Windows'' then
              (case agent_details of
                 None \<Rightarrow> Inl (TypeError (SQ @ ''NoneType'' @ SQ @ '' object is not subscriptable''))
               | Some a \<Rightarrow> Inr (AGENT_NAME a, environ h ''WINDOWS_AGENT_SECRET'', AGENT_WORKDIR a))
            else Inl (PyException ''Unsupported platform. Only Windows and Linux are supported.''))
      of
        Inl e \<Rightarrow> Inl e
      | Inr (name, secret, workdir) \<Rightarrow>
          if falsy secret
          then Inl (ValueError (''Agent secret for '' @ system_platform @ '' not found in .env''))
          else Inr (name, the secret, workdir))"

definition test_download_jenkins_agent :: "host \<Rightarrow> config \<Rightarrow> world \<Rightarrow> (exn + string) \<times> world" where
  "test_download_jenkins_agent h cfg w =
     (let w1 = logging INFO ''Downloading Jenkins agent...'' w;
          agent_jar_path = ''agent.jar'';
          jar_download_url = JENKINS_SERVER_URL cfg @ ''/jnlpJars/agent.jar'' in
      case run_retry h [''curl'', ''-o'', agent_jar_path, jar_download_url]
             ''Failed to download Jenkins agent JAR'' w1 of
        (Inl e, w2) \<Rightarrow> (Inl e, w2)
      | (Inr _, w2) \<Rightarrow> (Inr agent_jar_path, w2))"

definition service_script :: "host \<Rightarrow> config \<Rightarrow> string \<Rightarrow> string \<Rightarrow> string \<Rightarrow> string \<Rightarrow> string" where
  "service_script h cfg agent_name agent_secret agent_workdir agent_jar_path =
     NL @ ''    [Unit]'' @ NL
     @ ''    Description=Jenkins Agent Service'' @ NL
     @ ''    After=network.target'' @ NL
     @ NL
     @ ''    [Service]'' @ NL
     @ ''    ExecStart=/usr/bin/java -jar '' @ getcwd h @ ''/'' @ agent_jar_path
       @ '' -jnlpUrl '' @ JENKINS_SERVER_URL cfg @ ''/computer/'' @ agent_name @ ''/slave-agent.jnlp''
       @ '' -secret '' @ agent_secret @ '' -workDir '' @ DQ @ agent_workdir @ DQ @ NL
     @ ''    Restart=always'' @ NL
     @ ''    User='' @ getlogin h @ NL
     @ NL
     @ ''    [Install]'' @ NL
     @ ''    WantedBy=multi-user.target'' @ NL
     @ ''    ''"

definition install_service_linux ::
  "host \<Rightarrow> config \<Rightarrow> string \<Rightarrow> string \<Rightarrow> string \<Rightarrow> string \<Rightarrow> world \<Rightarrow> (exn + unit) \<times> world" where
  "install_service_linux h cfg agent_name agent_secret agent_workdir agent_jar_path w =
     (let w1 = logging INFO ''Configuring Jenkins agent as a Linux service...'' w;
          service_path = ''/etc/systemd/system/'' @ agent_name @ ''.service'' in
      case fs_change h service_path
             (WriteFile service_path
               (service_script h cfg agent_name agent_secret agent_workdir agent_jar_path)) w1 of
        (Inl e, w2) \<Rightarrow> (Inl e, w2)
      | (Inr _, w2) \<Rightarrow>
      case run_retry h [''systemctl'', ''daemon-reload'']
             ''Failed to reload systemd configuration'' w2 of
        (Inl e, w3) \<Rightarrow> (Inl e, w3)
      | (Inr _, w3) \<Rightarrow>
      case run_retry h [''systemctl'', ''enable'', agent_name]
             (''Failed to enable service '' @ SQ @ agent_name @ SQ) w3 of
        (Inl e, w4) \<Rightarrow> (Inl e, w4)
      | (Inr _, w4) \<Rightarrow>
      case run_retry h [''systemctl'', ''start'', agent_name]
             (''Failed to start service '' @ SQ @ agent_name @ SQ) w4 of
        (Inl e, w5) \<Rightarrow> (Inl e, w5)
      | (Inr _, w5) \<Rightarrow>
          (Inr (), logging INFO ''Jenkins agent service installed and started on Linux.'' w5))"

definition create_service_cmd :: "host \<Rightarrow> config \<Rightarrow> string \<Rightarrow> string \<Rightarrow> string \<Rightarrow> string \<Rightarrow> string list" where
  "create_service_cmd h cfg service_name agent_secret agent_workdir agent_jar_path =
     [''sc.exe'', ''create'', service_name,
      ''binPath='',
      DQ @ ''java -jar '' @ path_join h [getcwd h, agent_jar_path]
        @ '' -jnlpUrl '' @ JENKINS_SERVER_URL cfg @ ''/computer/'' @ service_name @ ''/slave-agent.jnlp''
        @ '' -secret '' @ agent_secret @ '' -workDir '' @ agent_workdir @ DQ,
      ''DisplayName='', ''Jenkins Agent - '' @ service_name,
      ''start='', ''auto'']"

definition install_service_windows ::
  "host \<Rightarrow> config \<Rightarrow> string \<Rightarrow> string \<Rightarrow> string \<Rightarrow> string \<Rightarrow> world \<Rightarrow> (exn + unit) \<times> world" where
  "install_service_windows h cfg agent_name agent_secret agent_workdir agent_jar_path w =
     (let w1 = logging INFO ''Configuring Jenkins agent as a Windows service...'' w;
          service_name = agent_name in
      case run_retry h (create_service_cmd h cfg service_name agent_secret agent_workdir agent_jar_path)
             (''Failed to create Windows service '' @ SQ @ service_name @ SQ) w1 of
        (Inl e, w2) \<Rightarrow> (Inl e, w2)
      | (Inr _, w2) \<Rightarrow>
      case run_retry h [''sc.exe'', ''start'', service_name]
             (''Failed to start Windows service '' @ SQ @ service_name @ SQ) w2 of
        (Inl e, w3) \<Rightarrow> (Inl e, w3)
      | (Inr _, w3) \<Rightarrow>
          (Inr (), logging INFO (''Jenkins agent service '' @ SQ @ service_name @ SQ
                                  @ '' installed and started on Windows.'') w3))"

section \<open>test.py: alerting and monitoring\<close>

definition smtp_step :: "host \<Rightarrow> nat \<Rightarrow> smtp_op \<Rightarrow> world \<Rightarrow> (exn + unit) \<times> world" where
  "smtp_step h n op w =
     (case smtp h n op of
        Some m \<Rightarrow> (Inl (SMTPException m), emit (Smtp op) w)
      | None \<Rightarrow> (Inr (), emit (Smtp op) w))"

text \<open>The body of the \<open>with\<close> statement: \<open>starttls\<close>, \<open>login\<close>, \<open>sendmail\<close>.\<close>

definition smtp_body :: "host \<Rightarrow> nat \<Rightarrow> world \<Rightarrow> (exn + unit) \<times> world" where
  "smtp_body h n w =
     (case smtp_step h n StartTLS w of
        (Inl e, w1) \<Rightarrow> (Inl e, w1)
      | (Inr _, w1) \<Rightarrow>
      case smtp_step h n Login w1 of
        (Inl e, w2) \<Rightarrow> (Inl e, w2)
      | (Inr _, w2) \<Rightarrow> smtp_step h n SendMail w2)"

text \<open>\<open>with smtplib.SMTP(server, port) as server: ...\<close>: when the constructor raises, the
  body and the exit handler do not run; otherwise the exit handler sends \<open>QUIT\<close> after the
  body, and an exception it raises replaces the body's.\<close>

definition smtp_session :: "host \<Rightarrow> nat \<Rightarrow> world \<Rightarrow> (exn + unit) \<times> world" where
  "smtp_session h n w =
     (case smtp_step h n Connect w of
        (Inl e, w1) \<Rightarrow> (Inl e, w1)
      | (Inr _, w1) \<Rightarrow>
          (case smtp_body h n w1 of
             (r, w2) \<Rightarrow>
               (case smtp_step h n Quit w2 of
                  (Inl e, w3) \<Rightarrow> (Inl e, w3)
                | (Inr _, w3) \<Rightarrow> (r, w3))))"

definition send_alert_email :: "host \<Rightarrow> string \<Rightarrow> string \<Rightarrow> world \<Rightarrow> (exn + unit) \<times> world" where
  "send_alert_email h subject message w =
     (let w1 = (logging INFO (''Sending alert email with subject: '' @ subject) w)
                 \<lparr>nsend := Suc (nsend w)\<rparr> in
      case smtp_session h (nsend w) w1 of
        (Inr _, w2) \<Rightarrow> (Inr (), logging INFO ''Alert email sent successfully.'' w2)
      | (Inl e, w2) \<Rightarrow>
          if is_Exception e
          then (Inr (), logging ERROR (''Failed to send alert email: '' @ str_exn e) w2)
          else (Inl e, w2))"

text \<open>The status mapping of the loop body: \<open>is_active\<close> starts \<open>False\<close> and is set from the
  query's standard output on Linux and on Windows only.\<close>

definition is_active_of :: "string \<Rightarrow> string \<Rightarrow> bool" where
  "is_active_of system_platform out =
     (if system_platform = ''Linux'' then strip out = ''active''
      else if system_platform = ''Windows'' then contains ''RUNNING'' out
      else False)"

definition query_status :: "host \<Rightarrow> string \<Rightarrow> world \<Rightarrow> (exn + bool) \<times> world" where
  "query_status h agent_name w =
     (if system h = ''Linux'' then
        (case run_retry h [''systemctl'', ''is-active'', agent_name]
                (''Failed to check status for Linux service '' @ SQ @ agent_name @ SQ) w of
           (Inl e, w1) \<Rightarrow> (Inl e, w1)
         | (Inr result, w1) \<Rightarrow> (Inr (is_active_of (system h) (stdout result)), w1))
      else if system h = ''Windows'' then
        (case run_retry h [''sc.exe'', ''query'', agent_name]
                (''Failed to check status for Windows service '' @ SQ @ agent_name @ SQ) w of
           (Inl e, w1) \<Rightarrow> (Inl e, w1)
         | (Inr result, w1) \<Rightarrow> (Inr (is_active_of (system h) (stdout result)), w1))
      else (Inr False, w))"

text \<open>The \<open>try\<close> block of one loop iteration.\<close>

definition monitor_try :: "host \<Rightarrow> string \<Rightarrow> world \<Rightarrow> (exn + unit) \<times> world" where
  "monitor_try h agent_name w =
     (case query_status h agent_name w of
        (Inl e, w1) \<Rightarrow> (Inl e, w1)
      | (Inr is_active, w1) \<Rightarrow>
          if \<not> is_active then
            (let alert_message = ''ALERT: Jenkins agent service '' @ SQ @ agent_name @ SQ @ '' is down!''
             in send_alert_email h (''Jenkins Agent Alert: '' @ agent_name) alert_message
                  (logging WARNING alert_message w1))
          else (Inr (), w1))"

text \<open>
  The names bound in the module namespace of test.py (its imports, globals and functions):
  what a global name lookup inside \<open>signal_handler\<close> can find (\<open>sys\<close> is not a builtin name
  either).
\<close>

definition module_names :: "string list" where
  "module_names =
     [''os'', ''platform'', ''subprocess'', ''time'', ''psutil'', ''json'', ''smtplib'', ''logging'',
      ''MIMEText'', ''load_dotenv'', ''Path'', ''signal'', ''threading'',
      ''CONFIG_PATH'', ''config_file'', ''config'', ''JENKINS_SERVER_URL'', ''ALERT_EMAIL'',
      ''SMTP_SERVER'', ''SMTP_PORT'', ''SMTP_USERNAME'', ''SMTP_PASSWORD'', ''CHECK_INTERVAL'',
      ''DEBUG_MODE'', ''log_dir'', ''signal_handler'', ''validate_configuration'',
      ''get_agent_details'', ''run_command_with_retry'', ''download_jenkins_agent'',
      ''install_service_linux'', ''install_service_windows'', ''send_alert_email'',
      ''monitor_service'', ''main'']"

text \<open>\<open>signal_handler\<close> logs and evaluates \<open>sys.exit(0)\<close>; it always leaves by an exception:
  \<open>SystemExit(0)\<close> when the name \<open>sys\<close> is bound, \<open>NameError\<close> otherwise.\<close>

definition signal_handler :: "world \<Rightarrow> exn \<times> world" where
  "signal_handler w =
     (let w1 = logging INFO ''Received shutdown signal, cleaning up...'' w in
      if ''sys'' \<in> set module_names then (SystemExit 0, w1) else (NameError ''sys'', w1))"

text \<open>
  Where, within one iteration, a SIGINT or SIGTERM is delivered: as the \<open>try\<close> block is
  entered, or during \<open>time.sleep\<close> between two ticks. The handler runs in the main thread
  at that point, and what it raises is raised there.
\<close>

datatype sigpoint = InTry | InSleep

definition monitor_sleep :: "config \<Rightarrow> sigpoint option \<Rightarrow> world \<Rightarrow> outcome \<times> world" where
  "monitor_sleep cfg sig w =
     (let w1 = time_sleep (MONITORING_INTERVAL cfg) w in
      if sig = Some InSleep then (case signal_handler w1 of (e, w2) \<Rightarrow> (Raised e, w2))
      else (Running, w1))"

definition monitor_iteration ::
  "host \<Rightarrow> config \<Rightarrow> string \<Rightarrow> sigpoint option \<Rightarrow> world \<Rightarrow> outcome \<times> world" where
  "monitor_iteration h cfg agent_name sig w =
     (case (if sig = Some InTry then (case signal_handler w of (e, w') \<Rightarrow> (Inl e, w'))
            else monitor_try h agent_name w) of
        (Inl e, w1) \<Rightarrow>
          if is_Exception e
          then monitor_sleep cfg sig
                 (logging ERROR (''Unexpected error while monitoring '' @ SQ @ agent_name @ SQ
                                  @ '': '' @ str_exn e) w1)
          else (Raised e, w1)
      | (Inr _, w1) \<Rightarrow> monitor_sleep cfg sig w1)"

text \<open>
  \<open>while True\<close>: one iteration per element of the signal schedule. \<open>Running\<close> means the loop
  is still running when the schedule ends; \<open>Raised e\<close> that the exception \<open>e\<close> left the loop.
\<close>

fun monitor_loop ::
  "host \<Rightarrow> config \<Rightarrow> string \<Rightarrow> sigpoint option list \<Rightarrow> world \<Rightarrow> outcome \<times> world" where
  "monitor_loop h cfg agent_name [] w = (Running, w)"
| "monitor_loop h cfg agent_name (sig # sigs) w =
     (case monitor_iteration h cfg agent_name sig w of
        (Running, w1) \<Rightarrow> monitor_loop h cfg agent_name sigs w1
      | (r, w1) \<Rightarrow> (r, w1))"

definition monitor_service ::
  "host \<Rightarrow> config \<Rightarrow> string \<Rightarrow> sigpoint option list \<Rightarrow> world \<Rightarrow> outcome \<times> world" where
  "monitor_service h cfg agent_name sigs w =
     monitor_loop h cfg agent_name sigs
       (logging INFO (''Starting monitoring for service '' @ SQ @ agent_name @ SQ) w)"

text \<open>\<open>main\<close> of test.py. The last branch of the platform test logs and returns. What the
  module does when it is loaded (reading \<^verbatim>\<open>config.json\<close>, creating the log directory,
  registering \<open>signal_handler\<close> for SIGINT and SIGTERM) is taken as done.\<close>

definition test_main :: "host \<Rightarrow> config \<Rightarrow> sigpoint option list \<Rightarrow> world \<Rightarrow> outcome \<times> world" where
  "test_main h cfg sigs w =
     (case test_validate_configuration h cfg w of
        (Inl e, w1) \<Rightarrow> (Raised e, w1)
      | (Inr _, w1) \<Rightarrow>
      case get_agent_details h cfg of
        Inl e \<Rightarrow> (Raised e, w1)
      | Inr (agent_name, agent_secret, agent_workdir) \<Rightarrow>
      case test_download_jenkins_agent h cfg w1 of
        (Inl e, w2) \<Rightarrow> (Raised e, w2)
      | (Inr agent_jar_path, w2) \<Rightarrow>
          if system h = ''Linux'' then
            (case install_service_linux h cfg agent_name agent_secret agent_workdir agent_jar_path w2 of
               (Inl e, w3) \<Rightarrow> (Raised e, w3)
             | (Inr _, w3) \<Rightarrow> monitor_service h cfg agent_name sigs w3)
          else if system h = ''Windows'' then
            (case install_service_windows h cfg agent_name agent_secret agent_workdir agent_jar_path w2 of
               (Inl e, w3) \<Rightarrow> (Raised e, w3)
             | (Inr _, w3) \<Rightarrow> monitor_service h cfg agent_name sigs w3)
          else
            (Returned,
             logging ERROR ''Unsupported platform. This script only supports Windows and Linux.'' w2))"

section \<open>Jenkins_agent_manager.py: the installer\<close>

definition get_platform :: "host \<Rightarrow> string" where
  "get_platform h = lower (system h)"

text \<open>\<open>validate_configuration\<close> of the installer, on the typed configuration: a missing key
  and an entry without its two keys are excluded by the types; the emptiness checks and
  the platform-key check remain.\<close>

definition validate_configuration :: "config \<Rightarrow> world \<Rightarrow> (exn + unit) \<times> world" where
  "validate_configuration cfg w =
     (if JENKINS_SERVER_URL cfg = [] then
        (Inl (ValueError (''Configuration key '' @ SQ @ ''JENKINS_SERVER_URL'' @ SQ @ '' cannot be empty'')), w)
      else if AGENT_DETAILS cfg = [] then
        (Inl (ValueError (''Configuration key '' @ SQ @ ''AGENT_DETAILS'' @ SQ @ '' cannot be empty'')), w)
      else if map_of (AGENT_DETAILS cfg) ''LINUX'' = None \<and> map_of (AGENT_DETAILS cfg) ''WINDOWS'' = None then
        (Inl (ValueError (''AGENT_DETAILS must contain keys for both '' @ SQ @ ''Linux'' @ SQ
                          @ '' and '' @ SQ @ ''Windows'' @ SQ)), w)
      else (Inr (), logging INFO ''Configuration validated successfully.'' w))"

text \<open>\<open>run_command\<close>: with \<open>check=True\<close> a completed process has return code 0, so the
  \<open>returncode != 0\<close> test inside the \<open>try\<close> never fires; it is kept as written.\<close>

definition run_command :: "host \<Rightarrow> string list \<Rightarrow> string \<Rightarrow> world \<Rightarrow> (exn + unit) \<times> world" where
  "run_command h command error_message w =
     (case subprocess_run h command w of
        (Inr result, w1) \<Rightarrow>
          (let w2 = logging INFO (''Command output: '' @ stdout result) w1;
               w3 = logging INFO (''Command error output (if any): '' @ stderr result) w2 in
           if returncode result \<noteq> 0
           then (Inl (RuntimeError (error_message @ '': '' @ stderr result)), w3)
           else (Inr (), logging INFO ''Command completed successfully.'' w3))
      | (Inl (CalledProcessError rc cmd out err), w1) \<Rightarrow>
          (let w2 = logging ERROR (error_message @ '': '' @ str_exn (CalledProcessError rc cmd out err)) w1;
               w3 = logging ERROR (''Command output: '' @ out) w2;
               w4 = logging ERROR (''Command error output: '' @ err) w3 in
           (Inl (RuntimeError error_message), w4))
      | (Inl e, w1) \<Rightarrow> (Inl e, w1))"

text \<open>\<open>download_jenkins_agent\<close> of the installer: \<open>agent_jar_location\<close> is its platform test
  for \<open>agent_jar_path\<close> (with \<open>os.path.expanduser("~")\<close> as \<open>home\<close>); the mode \<open>0o755\<close> is 493.\<close>

definition agent_jar_location :: "host \<Rightarrow> string" where
  "agent_jar_location h =
     (if get_platform h = ''windows'' then path_join h [''D:'', ''jenkins'', ''agent'', ''agent.jar'']
      else path_join h [home h, ''jenkins'', ''agent.jar''])"

definition download_jenkins_agent :: "host \<Rightarrow> config \<Rightarrow> world \<Rightarrow> (exn + string) \<times> world" where
  "download_jenkins_agent h cfg w =
     (let w1 = logging INFO ''Downloading Agent jar...'' w;
          agent_jar_path = agent_jar_location h;
          jenkins_dir = dirname h agent_jar_path in
      case (if \<not> path_exists h jenkins_dir then fs_change h jenkins_dir (MakeDirs jenkins_dir) w1
            else (Inr (), w1)) of
        (Inl e, w2) \<Rightarrow> (Inl e, w2)
      | (Inr _, w2) \<Rightarrow>
      case (if get_platform h \<noteq> ''windows'' then fs_change h jenkins_dir (Chmod jenkins_dir 493) w2
            else (Inr (), w2)) of
        (Inl e, w3) \<Rightarrow> (Inl e, w3)
      | (Inr _, w3) \<Rightarrow>
      (let jar_download_url = JENKINS_SERVER_URL cfg @ ''/jnlpJars/agent.jar'' in
       case run_command h [''curl'', ''-o'', agent_jar_path, jar_download_url]
              ''Failed to download Jenkins agent jar'' w3 of
         (Inl e, w4) \<Rightarrow> (Inl e, w4)
       | (Inr _, w4) \<Rightarrow>
           (Inr agent_jar_path, logging INFO (''Jenkins agent jar downloaded to: '' @ agent_jar_path) w4)))"

definition service_file_content :: "string \<Rightarrow> string \<Rightarrow> string \<Rightarrow> string \<Rightarrow> string \<Rightarrow> string" where
  "service_file_content agent_jar_path url linux_agent_secret agent_name agent_workdir =
     NL @ ''    [Unit]'' @ NL
     @ ''    Description=Jenkins Agent'' @ NL
     @ ''    After=network.target'' @ NL
     @ NL
     @ ''    [Service]'' @ NL
     @ ''    ExecStart=/usr/bin/java -jar '' @ agent_jar_path @ '' -url '' @ url
       @ '' -secret '' @ linux_agent_secret @ '' -name '' @ DQ @ agent_name @ DQ
       @ '' -workDir '' @ DQ @ agent_workdir @ DQ @ NL
     @ ''    User=gopal'' @ NL
     @ ''    Restart=always'' @ NL
     @ NL
     @ ''    [Install]'' @ NL
     @ ''    WantedBy=multi-user.target'' @ NL
     @ ''    ''"

definition service_file_path :: string where
  "service_file_path = ''/etc/systemd/system/jenkins-agent.service''"

text \<open>The \<open>try\<close> block of \<open>configure_linux_service\<close>.\<close>

definition configure_linux_try :: "host \<Rightarrow> string \<Rightarrow> world \<Rightarrow> (exn + unit) \<times> world" where
  "configure_linux_try h content w =
     (let w1 = logging INFO ''Granting write permission to /etc/systemd/system/'' w in
      case subprocess_run h [''sudo'', ''chmod'', ''o+w'', ''/etc/systemd/system/''] w1 of
        (Inl e, w2) \<Rightarrow> (Inl e, w2)
      | (Inr _, w2) \<Rightarrow>
      case fs_change h service_file_path (WriteFile service_file_path content)
             (logging INFO ''Writing the service file.'' w2) of
        (Inl e, w3) \<Rightarrow> (Inl e, w3)
      | (Inr _, w3) \<Rightarrow>
      case subprocess_run h [''sudo'', ''chmod'', ''o-w'', ''/etc/systemd/system/'']
             (logging INFO ''Reverting write permission for /etc/systemd/system/''
               (logging INFO ''Service file written successfully.'' w3)) of
        (Inl e, w4) \<Rightarrow> (Inl e, w4)
      | (Inr _, w4) \<Rightarrow>
      case run_command h [''sudo'', ''systemctl'', ''daemon-reload'']
             ''Failed to reload systemd daemon'' w4 of
        (Inl e, w5) \<Rightarrow> (Inl e, w5)
      | (Inr _, w5) \<Rightarrow>
      case run_command h [''sudo'', ''systemctl'', ''enable'', ''jenkins-agent'']
             ''Failed to enable Jenkins agent service'' w5 of
        (Inl e, w6) \<Rightarrow> (Inl e, w6)
      | (Inr _, w6) \<Rightarrow>
          run_command h [''sudo'', ''systemctl'', ''start'', ''jenkins-agent'']
            ''Failed to start Jenkins agent service'' w6)"

definition configure_linux_service :: "host \<Rightarrow> string \<Rightarrow> config \<Rightarrow> world \<Rightarrow> (exn + unit) \<times> world" where
  "configure_linux_service h agent_jar_path cfg w =
     (let linux_agent_secret = environ h ''LINUX_AGENT_SECRET'' in
      if falsy linux_agent_secret then
        (Inl (ValueError ''LINUX_AGENT_SECRET is required in the .env file''),
         logging ERROR ''LINUX_AGENT_SECRET is not set in the .env file.'' w)
      else
        (case map_of (AGENT_DETAILS cfg) ''LINUX'' of
           None \<Rightarrow> (Inl (KeyError ''LINUX''), w)
         | Some a \<Rightarrow>
             (case configure_linux_try h
                     (service_file_content agent_jar_path (JENKINS_SERVER_URL cfg)
                        (the linux_agent_secret) (AGENT_NAME a) (AGENT_WORKDIR a)) w of
                (Inl (CalledProcessError rc cmd out err), w1) \<Rightarrow>
                  (Inr (), logging ERROR (''Failed to configure Jenkins agent service: ''
                                          @ str_exn (CalledProcessError rc cmd out err)) w1)
              | r \<Rightarrow> r)))"

definition sc_create_command :: "string \<Rightarrow> string \<Rightarrow> string \<Rightarrow> string \<Rightarrow> string \<Rightarrow> string \<Rightarrow> string list" where
  "sc_create_command java_path agent_jar_path url windows_agent_secret service_name agent_workdir =
     [''sc.exe'', ''create'', service_name,
      ''binPath= '' @ DQ @ java_path @ '' -jar '' @ agent_jar_path @ '' -url '' @ url
        @ '' -secret '' @ windows_agent_secret @ '' -name '' @ service_name
        @ '' -workDir '' @ agent_workdir @ DQ,
      ''start='', ''auto'']"

text \<open>\<open>os.path.join(os.getenv('JAVA_HOME'), ...)\<close> raises \<open>TypeError\<close> when the variable is
  unset.\<close>

definition configure_windows_service :: "host \<Rightarrow> string \<Rightarrow> config \<Rightarrow> world \<Rightarrow> (exn + unit) \<times> world" where
  "configure_windows_service h agent_jar_path cfg w =
     (let windows_agent_secret = environ h ''WINDOWS_AGENT_SECRET'' in
      if falsy windows_agent_secret then
        (Inl (ValueError ''WINDOWS_AGENT_SECRET is required in the .env file''),
         logging ERROR ''WINDOWS_AGENT_SECRET is not set in the .env file.'' w)
      else
        (case map_of (AGENT_DETAILS cfg) ''WINDOWS'' of
           None \<Rightarrow> (Inl (KeyError ''WINDOWS''), w)
         | Some a \<Rightarrow>
             (let service_name = AGENT_NAME a;
                  agent_workdir = AGENT_WORKDIR a in
              case environ h ''JAVA_HOME'' of
                None \<Rightarrow>
                  (Inl (TypeError ''expected str, bytes or os.PathLike object, not NoneType''), w)
              | Some java_home \<Rightarrow>
                  (let java_path = path_join h [java_home, ''bin'', ''java.exe''];
                       w1 = logging INFO (''Registering Jenkins agent as a Windows service with name ''
                                          @ SQ @ service_name @ SQ) w in
                   case run_command h
                          (sc_create_command java_path agent_jar_path (JENKINS_SERVER_URL cfg)
                             (the windows_agent_secret) service_name agent_workdir)
                          (''Failed to create Windows service '' @ SQ @ service_name @ SQ) w1 of
                     (Inl e, w2) \<Rightarrow> (Inl e, w2)
                   | (Inr _, w2) \<Rightarrow>
                       run_command h [''sc.exe'', ''start'', service_name]
                         (''Failed to start Windows service '' @ SQ @ service_name @ SQ) w2))))"

text \<open>\<open>main\<close> of the installer, from the loaded configuration on (logger set-up and the
  reading of \<^verbatim>\<open>.env\<close> and \<^verbatim>\<open>config.json\<close> are taken as done).\<close>

definition main :: "host \<Rightarrow> config \<Rightarrow> world \<Rightarrow> outcome \<times> world" where
  "main h cfg w =
     (case validate_configuration cfg w of
        (Inl e, w1) \<Rightarrow> (Raised e, w1)
      | (Inr _, w1) \<Rightarrow>
      case download_jenkins_agent h cfg w1 of
        (Inl e, w2) \<Rightarrow> (Raised e, w2)
      | (Inr agent_jar_path, w2) \<Rightarrow>
          if get_platform h = ''linux'' then
            (case configure_linux_service h agent_jar_path cfg w2 of
               (Inl e, w3) \<Rightarrow> (Raised e, w3)
             | (Inr _, w3) \<Rightarrow> (Returned, w3))
          else if get_platform h = ''windows'' then
            (case configure_windows_service h agent_jar_path cfg w2 of
               (Inl e, w3) \<Rightarrow> (Raised e, w3)
             | (Inr _, w3) \<Rightarrow> (Returned, w3))
          else
            (Returned, logging ERROR ''Unsupported platform. Only Windows and Linux are supported.'' w2))"

section \<open>Reading the effect trace\<close>

text \<open>A mutation is any recorded effect other than a log record and a sleep.\<close>

fun is_mutation :: "event \<Rightarrow> bool" where
  "is_mutation (Log l m) = False"
| "is_mutation (Sleep d) = False"
| "is_mutation e = True"

definition mutations :: "world \<Rightarrow> event list" where
  "mutations w = filter is_mutation (events w)"

fun is_Log :: "event \<Rightarrow> bool" where
  "is_Log (Log l m) = True"
| "is_Log e = False"

definition logs :: "world \<Rightarrow> event list" where
  "logs w = filter is_Log (events w)"

fun is_Run :: "event \<Rightarrow> bool" where
  "is_Run (Run c) = True"
| "is_Run e = False"

fun is_Sleep :: "event \<Rightarrow> bool" where
  "is_Sleep (Sleep d) = True"
| "is_Sleep e = False"

text \<open>An alert is one call of \<open>send_alert_email\<close>: one attempt to open the SMTP
  connection.\<close>

definition alerts :: "world \<Rightarrow> nat" where
  "alerts w = length (filter (\<lambda>e. e = Smtp Connect) (events w))"

definition world0 :: world where
  "world0 = \<lparr>events = [], nrun = 0, nsend = 0\<rparr>"

text \<open>The effects added between two worlds of one run.\<close>

definition new_events :: "world \<Rightarrow> world \<Rightarrow> event list" where
  "new_events w w' = drop (length (events w)) (events w')"

subsection \<open>Failing commands\<close>

fun nonzero_exit :: "proc \<Rightarrow> bool" where
  "nonzero_exit (Exited rc out err) = (rc \<noteq> 0)"
| "nonzero_exit (NotStarted m) = False"

text \<open>\<open>fails_from h k n\<close>: the \<open>n\<close> calls of \<open>subprocess.run\<close> from the \<open>k\<close>-th on all exit with a
  non-zero status.\<close>

definition fails_from :: "host \<Rightarrow> nat \<Rightarrow> nat \<Rightarrow> bool" where
  "fails_from h k n = list_all (\<lambda>i. nonzero_exit (procs h i)) [k..<k + n]"

text \<open>What one failed attempt of the retry-protected runner leaves in the trace: the
  command, the error record with the attempt number, the sleep.\<close>

definition failed_attempt ::
  "host \<Rightarrow> string list \<Rightarrow> string \<Rightarrow> int \<Rightarrow> nat \<Rightarrow> nat \<Rightarrow> int \<Rightarrow> event list" where
  "failed_attempt h command error_message retries delay n attempt =
     (case procs h n of
        Exited rc out err \<Rightarrow>
          [Run command,
           Log ERROR (error_message @ '': '' @ str_exn (CalledProcessError rc command out err)
                      @ ''. Attempt '' @ str_int (attempt + 1) @ ''/'' @ str_int retries),
           Sleep delay]
      | NotStarted m \<Rightarrow> [Run command])"

fun failed_attempts ::
  "host \<Rightarrow> string list \<Rightarrow> string \<Rightarrow> int \<Rightarrow> nat \<Rightarrow> nat \<Rightarrow> int list \<Rightarrow> event list" where
  "failed_attempts h command error_message retries delay n [] = []"
| "failed_attempts h command error_message retries delay n (attempt # rest) =
     failed_attempt h command error_message retries delay n attempt
     @ failed_attempts h command error_message retries delay (Suc n) rest"

subsection \<open>Concrete hosts and configurations\<close>

definition posix_dirname :: "string \<Rightarrow> string" where
  "posix_dirname p = rev (tl (dropWhile (\<lambda>c. c \<noteq> CHR ''/'') (rev p)))"

text \<open>A Linux host on which every command exits with status 0 and prints nothing, SMTP works
  and both secrets are set.\<close>

definition linux_host :: host where
  "linux_host =
     \<lparr>system = ''Linux'',
      environ = map_of [(''SMTP_PASSWORD'', ''pw''), (''LINUX_AGENT_SECRET'', ''tok123''),
                        (''WINDOWS_AGENT_SECRET'', ''tok123''), (''JAVA_HOME'', ''C:/Java'')],
      procs = (\<lambda>n. Exited 0 [] []),
      smtp = (\<lambda>n op. None),
      fs_fault = (\<lambda>p. None),
      path_exists = (\<lambda>p. False),
      path_join = join ''/'',
      dirname = posix_dirname,
      home = ''/home/jenkins'',
      getcwd = ''/opt/agent'',
      getlogin = ''jenkins''\<rparr>"

definition example_config :: config where
  "example_config =
     \<lparr>JENKINS_SERVER_URL = ''http://ci:8080'',
      AGENT_DETAILS =
        [(''Linux'', \<lparr>AGENT_NAME = ''agent-1'', AGENT_WORKDIR = ''/var/jenkins''\<rparr>),
         (''LINUX'', \<lparr>AGENT_NAME = ''agent-1'', AGENT_WORKDIR = ''/var/jenkins''\<rparr>),
         (''Windows'', \<lparr>AGENT_NAME = ''agent-1'', AGENT_WORKDIR = ''C:/jenkins''\<rparr>),
         (''WINDOWS'', \<lparr>AGENT_NAME = ''agent-1'', AGENT_WORKDIR = ''C:/jenkins''\<rparr>)],
      ALERT_SETTINGS =
        \<lparr>EMAIL = ''ops@example.org'', SMTP_SERVER = ''smtp.example.org'', SMTP_PORT = 587,
         SMTP_USERNAME = ''monitor''\<rparr>,
      MONITORING_INTERVAL = 30,
      DEBUG_MODE = False\<rparr>"

text \<open>A host on which every command exits with status 1.\<close>

definition failing_host :: host where
  "failing_host = linux_host\<lparr>procs := (\<lambda>n. Exited 1 [] [])\<rparr>"

text \<open>A host whose SMTP transport refuses every operation.\<close>

definition smtp_down_host :: host where
  "smtp_down_host = linux_host\<lparr>smtp := (\<lambda>n op. Some ''connection refused'')\<rparr>"

text \<open>A service action is the writing of a file or a command given to the service manager
  (\<open>systemctl\<close>, \<open>sc.exe\<close>, or anything run through \<open>sudo\<close>); the download by \<open>curl\<close> and the
  preparation of the download directory are not.\<close>

fun is_service_action :: "event \<Rightarrow> bool" where
  "is_service_action (WriteFile p c) = True"
| "is_service_action (Run []) = False"
| "is_service_action (Run (x # xs)) = (x = ''systemctl'' \<or> x = ''sc.exe'' \<or> x = ''sudo'')"
| "is_service_action e = False"

definition service_actions :: "world \<Rightarrow> event list" where
  "service_actions w = filter is_service_action (events w)"

text \<open>A Linux host whose environment file holds no agent secret.\<close>

definition no_secret_host :: host where
  "no_secret_host = linux_host\<lparr>environ := map_of [(''SMTP_PASSWORD'', ''pw'')]\<rparr>"

text \<open>\<open>adds Q w w'\<close>: the trace of \<open>w'\<close> extends that of \<open>w\<close>, and every added effect
  satisfies \<open>Q\<close>.\<close>

definition adds :: "(event \<Rightarrow> bool) \<Rightarrow> world \<Rightarrow> world \<Rightarrow> bool" where
  "adds Q w w' =
     (take (length (events w)) (events w') = events w \<and> list_all Q (new_events w w'))"

subsection \<open>Succeeding commands\<close>

fun zero_exit :: "proc \<Rightarrow> bool" where
  "zero_exit (Exited rc out err) = (rc = 0)"
| "zero_exit (NotStarted m) = False"

text \<open>\<open>succeeds_from h k n\<close>: the \<open>n\<close> calls of \<open>subprocess.run\<close> from the \<open>k\<close>-th on all exit
  with status 0.\<close>

definition succeeds_from :: "host \<Rightarrow> nat \<Rightarrow> nat \<Rightarrow> bool" where
  "succeeds_from h k n = list_all (\<lambda>i. zero_exit (procs h i)) [k..<k + n]"

subsection \<open>The service identity of the installer on Linux\<close>

text \<open>The five commands \<open>configure_linux_service\<close> can issue.\<close>

definition linux_service_commands :: "string list list" where
  "linux_service_commands =
     [[''sudo'', ''chmod'', ''o+w'', ''/etc/systemd/system/''],
      [''sudo'', ''chmod'', ''o-w'', ''/etc/systemd/system/''],
      [''sudo'', ''systemctl'', ''daemon-reload''],
      [''sudo'', ''systemctl'', ''enable'', ''jenkins-agent''],
      [''sudo'', ''systemctl'', ''start'', ''jenkins-agent'']]"

text \<open>What an effect of \<open>configure_linux_service\<close> may be: a log record, one of the five
  commands, or the writing of the unit file at its fixed path with the \<open>User=gopal\<close> line.\<close>

fun fixed_identity :: "event \<Rightarrow> bool" where
  "fixed_identity (Log l m) = True"
| "fixed_identity (Run c) = (c \<in> set linux_service_commands)"
| "fixed_identity (WriteFile p c) =
     (p = ''/etc/systemd/system/jenkins-agent.service''
      \<and> contains (NL @ ''    User=gopal'' @ NL) c)"
| "fixed_identity e = False"

text \<open>A host that is neither Linux nor Windows.\<close>

definition darwin_host :: host where
  "darwin_host = linux_host\<lparr>system := ''Darwin''\<rparr>"

subsection \<open>Observed statuses\<close>

fun proc_stdout :: "proc \<Rightarrow> string" where
  "proc_stdout (Exited rc out err) = out"
| "proc_stdout (NotStarted m) = []"

text \<open>The ticks among the calls \<open>k, ..., k + n - 1\<close> whose query output maps to Inactive.\<close>

definition inactive_ticks :: "host \<Rightarrow> nat \<Rightarrow> nat \<Rightarrow> nat list" where
  "inactive_ticks h k n =
     filter (\<lambda>i. \<not> is_active_of (system h) (proc_stdout (procs h i))) [k..<k + n]"

text \<open>A Linux host whose status query answers, tick by tick, active, inactive, inactive,
  inactive, active, inactive (and active from then on), always with exit status 0.\<close>

definition outage_host :: host where
  "outage_host =
     linux_host\<lparr>procs := (\<lambda>n. if n < 6
                                then Exited 0 ([''active'', ''inactive'', ''inactive'', ''inactive'',
                                                ''active'', ''inactive''] ! n) []
                                else Exited 0 ''active'' [])\<rparr>"


text \<open>The status query of the monitor and its error context, by platform.\<close>

definition status_query :: "host \<Rightarrow> string \<Rightarrow> string list" where
  "status_query h agent_name =
     (if system h = ''Linux'' then [''systemctl'', ''is-active'', agent_name]
      else [''sc.exe'', ''query'', agent_name])"


subsection \<open>Comparing two runs\<close>

text \<open>Two worlds with the same log output and the same counters.\<close>

definition same_logs :: "world \<Rightarrow> world \<Rightarrow> bool" where
  "same_logs w w' = (logs w = logs w' \<and> nrun w = nrun w' \<and> nsend w = nsend w')"

text \<open>Two results of a step: the same value or exception, and worlds with the same logs.\<close>

definition sim :: "'a \<times> world \<Rightarrow> 'a \<times> world \<Rightarrow> bool" where
  "sim p q = (fst p = fst q \<and> same_logs (snd p) (snd q))"

text \<open>The host \<open>h\<close> with the environment variable \<open>k\<close> set to \<open>s\<close>.\<close>

definition with_env :: "host \<Rightarrow> string \<Rightarrow> string \<Rightarrow> host" where
  "with_env h k s = h\<lparr>environ := (environ h)(k \<mapsto> s)\<rparr>"

text \<open>Some log record of the world contains the string \<open>s\<close>.\<close>

fun log_contains :: "string \<Rightarrow> event \<Rightarrow> bool" where
  "log_contains s (Log l m) = contains s m"
| "log_contains s e = False"

definition leaks :: "string \<Rightarrow> world \<Rightarrow> bool" where
  "leaks s w = list_ex (log_contains s) (events w)"

text \<open>Characters that \<open>repr\<close> leaves as they are, whichever quote it chooses.\<close>

definition plain :: "char \<Rightarrow> bool" where
  "plain c =
     (32 \<le> (of_char c :: nat) \<and> (of_char c :: nat) < 127
      \<and> c \<noteq> CHR 0x27 \<and> c \<noteq> CHR 0x22 \<and> c \<noteq> CHR 0x5C)"

text \<open>A Windows host on which every command exits with status 1.\<close>

definition failing_windows_host :: host where
  "failing_windows_host = linux_host\<lparr>system := ''Windows'', procs := (\<lambda>n. Exited 1 [] [])\<rparr>"

section \<open>Properties\<close>

subsection \<open>Basic facts about the trace\<close>

lemma emit_events: "events (emit e w) = events w @ [e]"
  by (simp add: emit_def)

lemma fails_from_Suc:
  "fails_from h k (Suc n) = (nonzero_exit (procs h k) \<and> fails_from h (Suc k) n)"
proof -
  have "[k..<k + Suc n] = k # [Suc k..<Suc k + n]"
    by (simp add: upt_conv_Cons del: upt_Suc)
  then show ?thesis by (simp add: fails_from_def del: upt_Suc)
qed

lemma failing_host_fails: "fails_from failing_host k n"
  by (simp add: fails_from_def failing_host_def list_all_iff)

subsection \<open>The retry-protected runner when every attempt fails\<close>

lemma retry_loop_all_fail:
  "fails_from h (nrun w) (length as) \<Longrightarrow>
   retry_loop h c m r d as w =
     (None, w\<lparr>events := events w @ failed_attempts h c m r d (nrun w) as,
              nrun := nrun w + length as\<rparr>)"
proof (induction as arbitrary: w)
  case Nil
  show ?case by simp
next
  case (Cons a as)
  from Cons.prems have nz: "nonzero_exit (procs h (nrun w))"
    and rest: "fails_from h (Suc (nrun w)) (length as)"
    by (simp_all add: fails_from_Suc)
  from nz obtain rc out err where p: "procs h (nrun w) = Exited rc out err" and rc: "rc \<noteq> 0"
    by (cases "procs h (nrun w)") auto
  let ?w1 = "time_sleep d (logging ERROR (m @ '': '' @ str_exn (CalledProcessError rc c out err)
                  @ ''. Attempt '' @ str_int (a + 1) @ ''/'' @ str_int r)
               ((emit (Run c) w)\<lparr>nrun := Suc (nrun w)\<rparr>))"
  have step: "retry_loop h c m r d (a # as) w = retry_loop h c m r d as ?w1"
    using p rc by (simp add: subprocess_run_def)
  have n1: "nrun ?w1 = Suc (nrun w)"
    by (simp add: time_sleep_def logging_def emit_def)
  from rest n1 have "fails_from h (nrun ?w1) (length as)" by simp
  from Cons.IH[OF this] step p show ?case
    by (simp add: time_sleep_def logging_def emit_def failed_attempt_def)
qed

lemma failed_attempts_runs:
  "fails_from h n (length as) \<Longrightarrow>
   filter is_Run (failed_attempts h c m r d n as) = replicate (length as) (Run c)"
proof (induction as arbitrary: n)
  case Nil
  show ?case by simp
next
  case (Cons a as)
  from Cons.prems have nz: "nonzero_exit (procs h n)" and rest: "fails_from h (Suc n) (length as)"
    by (simp_all add: fails_from_Suc)
  from nz have "filter is_Run (failed_attempt h c m r d n a) = [Run c]"
    by (cases "procs h n") (simp_all add: failed_attempt_def)
  with Cons.IH[OF rest] show ?case by simp
qed

lemma failed_attempts_sleeps:
  "fails_from h n (length as) \<Longrightarrow>
   filter is_Sleep (failed_attempts h c m r d n as) = replicate (length as) (Sleep d)"
proof (induction as arbitrary: n)
  case Nil
  show ?case by simp
next
  case (Cons a as)
  from Cons.prems have nz: "nonzero_exit (procs h n)" and rest: "fails_from h (Suc n) (length as)"
    by (simp_all add: fails_from_Suc)
  from nz have "filter is_Sleep (failed_attempt h c m r d n a) = [Sleep d]"
    by (cases "procs h n") (simp_all add: failed_attempt_def)
  with Cons.IH[OF rest] show ?case by simp
qed

lemma run_command_with_retry_exhausted:
  assumes "fails_from h (nrun w) (nat retries)"
  shows "run_command_with_retry h command error_message retries delay w =
     (Inl (RuntimeError error_message),
      w\<lparr>events := events w
           @ failed_attempts h command error_message retries delay (nrun w) [0..retries - 1]
           @ [Log CRITICAL (''Command failed after '' @ str_int retries @ '' attempts: ''
                            @ str_list command)],
        nrun := nrun w + nat retries\<rparr>)"
proof -
  from assms have "fails_from h (nrun w) (length [0..retries - 1])" by simp
  from retry_loop_all_fail[OF this] show ?thesis
    by (simp add: run_command_with_retry_def logging_def emit_def)
qed

text \<open>
  C2 (as the code has it). When every attempt exits with a non-zero status, the runner
  makes exactly \<open>retries\<close> attempts, raises one \<open>RuntimeError\<close> whose message is the supplied
  error context, and sleeps \<open>delay\<close> after every failed attempt, the last one included:
  \<open>retries\<close> sleeps, not \<open>retries - 1\<close>. Both numbers are parameters; the call sites use
  the defaults 3 and 5.
\<close>

theorem retry_exhausted_sleeps_after_every_attempt:
  assumes "fails_from h (nrun w) (nat retries)"
  shows "fst (run_command_with_retry h command error_message retries delay w)
           = Inl (RuntimeError error_message)
       \<and> str_exn (RuntimeError error_message) = error_message
       \<and> new_events w (snd (run_command_with_retry h command error_message retries delay w))
           = failed_attempts h command error_message retries delay (nrun w) [0..retries - 1]
             @ [Log CRITICAL (''Command failed after '' @ str_int retries @ '' attempts: ''
                              @ str_list command)]
       \<and> filter is_Run
            (new_events w (snd (run_command_with_retry h command error_message retries delay w)))
           = replicate (nat retries) (Run command)
       \<and> filter is_Sleep
            (new_events w (snd (run_command_with_retry h command error_message retries delay w)))
           = replicate (nat retries) (Sleep delay)
       \<and> run_retry h command error_message w = run_command_with_retry h command error_message 3 5 w"
proof -
  from assms have f: "fails_from h (nrun w) (length [0..retries - 1])" by simp
  show ?thesis
    unfolding run_command_with_retry_exhausted[OF assms]
    using failed_attempts_runs[OF f] failed_attempts_sleeps[OF f]
    by (simp add: new_events_def run_retry_def)
qed

theorem retry_exhausted_witness:
  "fails_from failing_host (nrun world0) (nat 3)
   \<and> fst (run_command_with_retry failing_host [''systemctl'', ''start'', ''agent-1'']
            ''Failed to start service'' 3 5 world0)
       = Inl (RuntimeError ''Failed to start service'')
   \<and> filter is_Sleep
        (new_events world0
          (snd (run_command_with_retry failing_host [''systemctl'', ''start'', ''agent-1'']
                 ''Failed to start service'' 3 5 world0)))
       = [Sleep 5, Sleep 5, Sleep 5]"
proof -
  have h: "fails_from failing_host (nrun world0) (nat 3)"
    by (rule failing_host_fails)
  have r: "replicate (nat 3) (Sleep 5) = [Sleep 5, Sleep 5, Sleep 5]"
    by (simp add: numeral_3_eq_3)
  note t = retry_exhausted_sleeps_after_every_attempt[OF h,
         of "[''systemctl'', ''start'', ''agent-1'']" "''Failed to start service''" 5]
  from t have a: "fst (run_command_with_retry failing_host [''systemctl'', ''start'', ''agent-1'']
            ''Failed to start service'' 3 5 world0) = Inl (RuntimeError ''Failed to start service'')"
    by (rule conjunct1)
  from t have b: "filter is_Sleep
        (new_events world0
          (snd (run_command_with_retry failing_host [''systemctl'', ''start'', ''agent-1'']
                 ''Failed to start service'' 3 5 world0)))
       = replicate (nat 3) (Sleep 5)"
    by blast
  from h a b r show ?thesis by simp
qed

text \<open>
  C2 as stated fails: with three failing attempts the runner sleeps three times, not twice,
  and the sleep of the last attempt comes right before the final critical record.
\<close>

theorem retry_no_sleep_after_last_counterexample:
  "length (filter is_Sleep
      (new_events world0
        (snd (run_command_with_retry failing_host [''systemctl'', ''start'', ''agent-1'']
               ''Failed to start service'' 3 5 world0)))) \<noteq> nat 3 - 1
   \<and> last (butlast
        (new_events world0
          (snd (run_command_with_retry failing_host [''systemctl'', ''start'', ''agent-1'']
                 ''Failed to start service'' 3 5 world0)))) = Sleep 5"
proof -
  have h: "fails_from failing_host (nrun world0) (nat 3)"
    by (rule failing_host_fails)
  have f: "fails_from failing_host (nrun world0) (length [0..(3::int) - 1])"
    by (rule failing_host_fails)
  have p: "\<And>n. procs failing_host n = Exited 1 [] []"
    by (simp add: failing_host_def)
  have u: "[0..(2::int)] = [0, 1, 2]"
    by (simp add: upto.simps)
  have s: "filter is_Sleep
             (failed_attempts failing_host [''systemctl'', ''start'', ''agent-1'']
                ''Failed to start service'' 3 5 (nrun world0) [0..(3::int) - 1])
           = replicate (length [0..(3::int) - 1]) (Sleep 5)"
    by (rule failed_attempts_sleeps[OF f])
  show ?thesis
    unfolding run_command_with_retry_exhausted[OF h]
    using s by (simp add: new_events_def u failed_attempt_def p)
qed

subsection \<open>Strings\<close>

lemma starts_with_iff: "starts_with n hay = (\<exists>post. hay = n @ post)"
  by (induction n hay rule: starts_with.induct) auto

lemma contains_iff: "contains n hay = (\<exists>pre post. hay = pre @ n @ post)"
proof (induction hay)
  case Nil
  show ?case by auto
next
  case (Cons c cs)
  show ?case
  proof
    assume "contains n (c # cs)"
    then consider "starts_with n (c # cs)" | "contains n cs" by auto
    then show "\<exists>pre post. c # cs = pre @ n @ post"
    proof cases
      case 1
      then obtain post where "c # cs = n @ post" by (auto simp: starts_with_iff)
      then have "c # cs = [] @ n @ post" by simp
      then show ?thesis by blast
    next
      case 2
      with Cons.IH obtain pre post where "cs = pre @ n @ post" by auto
      then have "c # cs = (c # pre) @ n @ post" by simp
      then show ?thesis by blast
    qed
  next
    assume "\<exists>pre post. c # cs = pre @ n @ post"
    then obtain pre post where e: "c # cs = pre @ n @ post" by auto
    show "contains n (c # cs)"
    proof (cases pre)
      case Nil
      with e have "starts_with n (c # cs)" by (auto simp: starts_with_iff)
      then show ?thesis by simp
    next
      case (Cons p ps)
      with e have "cs = ps @ n @ post" by simp
      with Cons.IH have "contains n cs" by blast
      then show ?thesis by simp
    qed
  qed
qed

lemma strip_decompose:
  "s = takeWhile isspace s @ strip s @ rev (takeWhile isspace (rev (dropWhile isspace s)))"
proof -
  let ?d = "dropWhile isspace s"
  have "rev (takeWhile isspace (rev ?d) @ dropWhile isspace (rev ?d)) = ?d"
    by (simp only: takeWhile_dropWhile_id rev_rev_ident)
  then have "?d = rev (dropWhile isspace (rev ?d)) @ rev (takeWhile isspace (rev ?d))"
    by (simp only: rev_append)
  then have "?d = strip s @ rev (takeWhile isspace (rev ?d))"
    by (simp only: strip_def)
  moreover have "s = takeWhile isspace s @ ?d" by simp
  ultimately show ?thesis by simp
qed

lemma strip_padded:
  assumes "list_all isspace pre" "list_all isspace post" "t \<noteq> []"
    "\<not> isspace (hd t)" "\<not> isspace (last t)"
  shows "strip (pre @ t @ post) = t"
proof -
  from assms obtain a as where t: "t = a # as" by (cases t) auto
  with assms have a: "\<not> isspace a" by simp
  from assms(1) have "dropWhile isspace (pre @ t @ post) = t @ post"
    using a t by (simp add: dropWhile_append3 list_all_iff)
  moreover
  from assms(3) have r: "rev t \<noteq> []" by simp
  from assms have "hd (rev t) = last t" by (simp add: hd_rev)
  with assms r obtain b bs where rt: "rev t = b # bs" and b: "\<not> isspace b"
    by (cases "rev t") auto
  from assms(2) have "dropWhile isspace (rev post @ rev t) = rev t"
    using rt b by (simp add: dropWhile_append3 list_all_iff)
  ultimately show ?thesis by (simp add: strip_def)
qed

lemma strip_eq_active_iff:
  "(strip out = ''active'') =
   (\<exists>pre post. out = pre @ ''active'' @ post \<and> list_all isspace pre \<and> list_all isspace post)"
proof
  assume s: "strip out = ''active''"
  have "out = takeWhile isspace out @ ''active''
              @ rev (takeWhile isspace (rev (dropWhile isspace out)))"
    using strip_decompose[of out] s by simp
  moreover have "list_all isspace (takeWhile isspace out)"
    by (auto simp: list_all_iff dest: set_takeWhileD)
  moreover have "list_all isspace (rev (takeWhile isspace (rev (dropWhile isspace out))))"
    by (auto simp: list_all_iff dest: set_takeWhileD)
  ultimately show "\<exists>pre post. out = pre @ ''active'' @ post \<and> list_all isspace pre \<and> list_all isspace post"
    by blast
next
  assume "\<exists>pre post. out = pre @ ''active'' @ post \<and> list_all isspace pre \<and> list_all isspace post"
  then obtain pre post where o: "out = pre @ ''active'' @ post"
    and p: "list_all isspace pre" "list_all isspace post" by blast
  have "strip (pre @ ''active'' @ post) = ''active''"
    by (rule strip_padded[OF p]) (simp_all add: isspace_def)
  with o show "strip out = ''active''" by simp
qed

subsection \<open>The first attempt succeeds\<close>

lemma run_retry_first_ok:
  "procs h (nrun w) = Exited 0 out err \<Longrightarrow>
   run_retry h c m w = (Inr (Completed 0 out err), (emit (Run c) w)\<lparr>nrun := Suc (nrun w)\<rparr>)"
  by (simp add: run_retry_def run_command_with_retry_def upto.simps[of 0 2] subprocess_run_def)

lemma query_status_first_ok:
  "procs h (nrun w) = Exited 0 out err \<Longrightarrow>
   fst (query_status h name w) = Inr (is_active_of (system h) out)"
  by (simp add: query_status_def run_retry_first_ok is_active_of_def)

subsection \<open>The status mapping of the monitor\<close>

text \<open>
  C8. The monitor maps the query's standard output to Active exactly when, on Linux, the
  output stripped of surrounding whitespace is \<open>active\<close> (that is: \<open>active\<close> padded with
  whitespace on either side) and, on Windows, the output has \<open>RUNNING\<close> as a substring; on
  any other platform and for any other output the status is Inactive. The loop body uses
  this mapping on the output of a query that completed.
\<close>

theorem status_mapping_active_iff:
  "is_active_of ''Linux'' out = (strip out = ''active'')
   \<and> (strip out = ''active'') =
       (\<exists>pre post. out = pre @ ''active'' @ post \<and> list_all isspace pre \<and> list_all isspace post)
   \<and> is_active_of ''Windows'' out = (\<exists>pre post. out = pre @ ''RUNNING'' @ post)
   \<and> (sys \<noteq> ''Linux'' \<and> sys \<noteq> ''Windows'' \<longrightarrow> \<not> is_active_of sys out)
   \<and> (procs h (nrun w) = Exited 0 out err \<longrightarrow>
        fst (query_status h agent_name w) = Inr (is_active_of (system h) out))"
  using strip_eq_active_iff[of out] contains_iff[of "''RUNNING''" out]
    query_status_first_ok[of h w out err agent_name]
  by (simp add: is_active_of_def)

theorem status_mapping_witness:
  "''Darwin'' \<noteq> ''Linux'' \<and> ''Darwin'' \<noteq> ''Windows'' \<and> \<not> is_active_of ''Darwin'' ''active''
   \<and> procs linux_host (nrun world0) = Exited 0 [] []
   \<and> fst (query_status linux_host ''agent-1'' world0) = Inr (is_active_of (system linux_host) [])
   \<and> is_active_of ''Linux'' (''active'' @ NL)
   \<and> \<not> is_active_of ''Linux'' ''inactive''
   \<and> \<not> is_active_of ''Linux'' ''activex''"
proof -
  have p: "procs linux_host (nrun world0) = Exited 0 [] []"
    by (simp add: linux_host_def)
  have a: "is_active_of ''Linux'' (''active'' @ NL)"
    by (simp add: is_active_of_def strip_def isspace_def)
  have b: "\<not> is_active_of ''Linux'' ''inactive''"
    by (simp add: is_active_of_def strip_def isspace_def)
  have c: "\<not> is_active_of ''Linux'' ''activex''"
    by (simp add: is_active_of_def strip_def isspace_def)
  from status_mapping_active_iff[of "''active''" "''Darwin''" linux_host world0 "[]" "''agent-1''"]
  have d: "\<not> is_active_of ''Darwin'' ''active''" by simp
  from status_mapping_active_iff[of "[]" "''Darwin''" linux_host world0 "[]" "''agent-1''"] p
  have e: "fst (query_status linux_host ''agent-1'' world0) = Inr (is_active_of (system linux_host) [])"
    by blast
  from p a b c d e show ?thesis by simp
qed

subsection \<open>The alert-send operation\<close>

lemma smtp_session_raises:
  "fst (smtp_session h n w) = Inr () \<or> (\<exists>m. fst (smtp_session h n w) = Inl (SMTPException m))"
  by (auto simp: smtp_session_def smtp_body_def smtp_step_def split: option.splits)

lemma smtp_session_fails:
  "smtp h n op = Some m \<Longrightarrow> \<exists>m'. fst (smtp_session h n w) = Inl (SMTPException m')"
  by (cases op) (auto simp: smtp_session_def smtp_body_def smtp_step_def split: option.splits)

lemma smtp_session_ok:
  "(\<forall>op. smtp h n op = None) \<Longrightarrow> fst (smtp_session h n w) = Inr ()"
  by (auto simp: smtp_session_def smtp_body_def smtp_step_def split: option.splits)

lemma send_alert_email_returns: "fst (send_alert_email h subject message w) = Inr ()"
proof -
  let ?w1 = "(logging INFO (''Sending alert email with subject: '' @ subject) w)\<lparr>nsend := Suc (nsend w)\<rparr>"
  obtain r w2 where s: "smtp_session h (nsend w) ?w1 = (r, w2)" by (cases "smtp_session h (nsend w) ?w1")
  from smtp_session_raises[of h "nsend w" ?w1] s
  consider "r = Inr ()" | m where "r = Inl (SMTPException m)" by auto
  then show ?thesis using s by cases (simp_all add: send_alert_email_def)
qed

text \<open>
  C5. \<open>send_alert_email\<close> returns normally whatever the SMTP transport does; when any
  operation of the transport fails, the last record it logs is the error record of the
  failure, and when none fails, the success record.
\<close>

theorem send_alert_email_never_raises:
  "fst (send_alert_email h subject message w) = Inr ()
   \<and> ((\<exists>op. smtp h (nsend w) op \<noteq> None) \<longrightarrow>
       (\<exists>m. last (events (snd (send_alert_email h subject message w)))
              = Log ERROR (''Failed to send alert email: '' @ m)))
   \<and> ((\<forall>op. smtp h (nsend w) op = None) \<longrightarrow>
       last (events (snd (send_alert_email h subject message w)))
         = Log INFO ''Alert email sent successfully.'')"
proof (intro conjI impI)
  let ?w1 = "(logging INFO (''Sending alert email with subject: '' @ subject) w)\<lparr>nsend := Suc (nsend w)\<rparr>"
  obtain r w2 where s: "smtp_session h (nsend w) ?w1 = (r, w2)" by (cases "smtp_session h (nsend w) ?w1")
  from smtp_session_raises[of h "nsend w" ?w1] s
  consider "r = Inr ()" | m where "r = Inl (SMTPException m)" by auto
  then show "fst (send_alert_email h subject message w) = Inr ()"
    using s by cases (simp_all add: send_alert_email_def)
  {
    assume "\<exists>op. smtp h (nsend w) op \<noteq> None"
    then obtain op m where "smtp h (nsend w) op = Some m" by auto
    from smtp_session_fails[OF this, of ?w1] s obtain m' where "r = Inl (SMTPException m')" by auto
    with s show "\<exists>m. last (events (snd (send_alert_email h subject message w)))
              = Log ERROR (''Failed to send alert email: '' @ m)"
      by (simp add: send_alert_email_def logging_def emit_def)
  }
  {
    assume "\<forall>op. smtp h (nsend w) op = None"
    from smtp_session_ok[OF this, of ?w1] s have "r = Inr ()" by simp
    with s show "last (events (snd (send_alert_email h subject message w)))
         = Log INFO ''Alert email sent successfully.''"
      by (simp add: send_alert_email_def logging_def emit_def)
  }
qed

theorem send_alert_email_witness:
  "(\<exists>op. smtp smtp_down_host (nsend world0) op \<noteq> None)
   \<and> fst (send_alert_email smtp_down_host ''Jenkins Agent Alert: agent-1'' ''down'' world0) = Inr ()
   \<and> (\<exists>m. last (events (snd (send_alert_email smtp_down_host ''Jenkins Agent Alert: agent-1''
                                   ''down'' world0)))
            = Log ERROR (''Failed to send alert email: '' @ m))"
proof -
  have h: "\<exists>op. smtp smtp_down_host (nsend world0) op \<noteq> None"
    by (simp add: smtp_down_host_def)
  from send_alert_email_never_raises[of smtp_down_host "''Jenkins Agent Alert: agent-1''" "''down''" world0] h
  show ?thesis by blast
qed

subsection \<open>Effects a step adds to the trace\<close>

lemma adds_iff: "adds Q w w' = (\<exists>es. events w' = events w @ es \<and> list_all Q es)"
proof
  assume "adds Q w w'"
  then have "events w' = events w @ new_events w w'" "list_all Q (new_events w w')"
    unfolding adds_def new_events_def
    by (metis append_take_drop_id, simp)
  then show "\<exists>es. events w' = events w @ es \<and> list_all Q es" by blast
next
  assume "\<exists>es. events w' = events w @ es \<and> list_all Q es"
  then show "adds Q w w'" by (auto simp: adds_def new_events_def)
qed

lemma adds_refl: "adds Q w w"
  by (simp add: adds_iff)

lemma adds_trans: "adds Q w w1 \<Longrightarrow> adds Q w1 w2 \<Longrightarrow> adds Q w w2"
  by (auto simp: adds_iff)

lemma adds_emit: "Q e \<Longrightarrow> adds Q w (emit e w)"
  by (simp add: adds_iff emit_def)

lemma adds_logging: "Q (Log l m) \<Longrightarrow> adds Q w (logging l m w)"
  by (simp add: logging_def adds_emit)

lemma adds_sleep: "Q (Sleep d) \<Longrightarrow> adds Q w (time_sleep d w)"
  by (simp add: time_sleep_def adds_emit)

lemma adds_subprocess_run: "Q (Run c) \<Longrightarrow> adds Q w (snd (subprocess_run h c w))"
  by (auto simp: subprocess_run_def adds_iff emit_def Let_def split: proc.splits)

lemma adds_fs_change: "Q e \<Longrightarrow> adds Q w (snd (fs_change h p e w))"
  by (auto simp: fs_change_def adds_iff emit_def split: option.splits)

lemma adds_seq:
  assumes "adds Q w (snd f)"
    and "\<And>x w1. adds Q w w1 \<Longrightarrow> adds Q w (snd (g x w1))"
  shows "adds Q w (snd (case f of (Inl e, w1) \<Rightarrow> (Inl e, w1) | (Inr x, w1) \<Rightarrow> g x w1))"
proof (cases f)
  case (Pair r w1)
  with assms show ?thesis by (cases r) auto
qed

lemma adds_run_command:
  assumes "Q (Run c)" "\<And>l m. Q (Log l m)"
  shows "adds Q w (snd (run_command h c m w))"
proof -
  obtain r w1 where s: "subprocess_run h c w = (r, w1)" by (cases "subprocess_run h c w")
  from adds_subprocess_run[where Q=Q and c=c and w=w and h=h] assms(1) s
  have a: "adds Q w w1" by simp
  have l: "\<And>l m w'. adds Q w w' \<Longrightarrow> adds Q w (logging l m w')"
    using assms(2) adds_logging adds_trans by blast
  show ?thesis
  proof (cases r)
    case (Inr result)
    with s a l show ?thesis by (simp add: run_command_def Let_def)
  next
    case (Inl e)
    with s a l show ?thesis by (cases e) (simp_all add: run_command_def Let_def)
  qed
qed

lemma adds_download:
  assumes "\<And>l m. Q (Log l m)" "\<And>p. Q (MakeDirs p)" "\<And>p m. Q (Chmod p m)"
    "Q (Run [''curl'', ''-o'', agent_jar_location h, JENKINS_SERVER_URL cfg @ ''/jnlpJars/agent.jar''])"
  shows "adds Q w (snd (download_jenkins_agent h cfg w))"
proof -
  have l: "\<And>l m w'. adds Q w w' \<Longrightarrow> adds Q w (logging l m w')"
    using assms(1) adds_logging adds_trans by blast
  have f: "\<And>p e w'. adds Q w w' \<Longrightarrow> Q e \<Longrightarrow> adds Q w (snd (fs_change h p e w'))"
    using adds_fs_change adds_trans by blast
  have r: "\<And>m w'. adds Q w w' \<Longrightarrow>
     adds Q w (snd (run_command h [''curl'', ''-o'', agent_jar_location h,
                       JENKINS_SERVER_URL cfg @ ''/jnlpJars/agent.jar''] m w'))"
    using adds_run_command[where Q=Q and h=h and c="[''curl'', ''-o'', agent_jar_location h,
                       JENKINS_SERVER_URL cfg @ ''/jnlpJars/agent.jar'']"] assms(1) assms(4) adds_trans
    by blast
  show ?thesis
    unfolding download_jenkins_agent_def Let_def
    apply (rule adds_seq)
     apply (simp add: l f assms adds_refl)
    apply (rule adds_seq)
     apply (simp add: l f assms adds_refl)
    apply (rule adds_seq)
     apply (simp add: r)
    apply (simp add: l)
    done
qed

lemma adds_service_actions:
  "adds (\<lambda>e. \<not> is_service_action e) w w' \<Longrightarrow> service_actions w' = service_actions w"
  by (auto simp: adds_iff service_actions_def list_all_iff filter_empty_conv)

lemma download_service_actions:
  "service_actions (snd (download_jenkins_agent h cfg w)) = service_actions w"
  by (rule adds_service_actions, rule adds_download) simp_all

subsection \<open>Installation without the agent secret\<close>

lemma logging_service_actions: "service_actions (logging l m w) = service_actions w"
  by (simp add: service_actions_def logging_def emit_def)

lemma logging_mutations: "mutations (logging l m w) = mutations w"
  by (simp add: mutations_def logging_def emit_def)

lemma configure_linux_no_secret:
  "falsy (environ h ''LINUX_AGENT_SECRET'') \<Longrightarrow>
   configure_linux_service h jar cfg w =
     (Inl (ValueError ''LINUX_AGENT_SECRET is required in the .env file''),
      logging ERROR ''LINUX_AGENT_SECRET is not set in the .env file.'' w)"
  by (simp add: configure_linux_service_def)

lemma configure_windows_no_secret:
  "falsy (environ h ''WINDOWS_AGENT_SECRET'') \<Longrightarrow>
   configure_windows_service h jar cfg w =
     (Inl (ValueError ''WINDOWS_AGENT_SECRET is required in the .env file''),
      logging ERROR ''WINDOWS_AGENT_SECRET is not set in the .env file.'' w)"
  by (simp add: configure_windows_service_def)

lemma validate_configuration_world:
  "snd (validate_configuration cfg w) = w
   \<or> snd (validate_configuration cfg w) = logging INFO ''Configuration validated successfully.'' w"
  by (simp add: validate_configuration_def)

lemma main_no_secret:
  assumes "(get_platform h = ''linux'' \<and> falsy (environ h ''LINUX_AGENT_SECRET''))
         \<or> (get_platform h = ''windows'' \<and> falsy (environ h ''WINDOWS_AGENT_SECRET''))"
  shows "(\<exists>e. fst (main h cfg w) = Raised e)
       \<and> service_actions (snd (main h cfg w)) = service_actions w"
proof -
  obtain r1 w1 where v: "validate_configuration cfg w = (r1, w1)"
    by (cases "validate_configuration cfg w")
  with validate_configuration_world[of cfg w] have s1: "service_actions w1 = service_actions w"
    by (auto simp: logging_service_actions)
  show ?thesis
  proof (cases r1)
    case (Inl e)
    with v s1 show ?thesis by (simp add: main_def)
  next
    case (Inr u)
    obtain r2 w2 where d: "download_jenkins_agent h cfg w1 = (r2, w2)"
      by (cases "download_jenkins_agent h cfg w1")
    with download_service_actions[of h cfg w1] s1 have s2: "service_actions w2 = service_actions w"
      by simp
    show ?thesis
    proof (cases r2)
      case (Inl e)
      with v d Inr s2 show ?thesis by (simp add: main_def)
    next
      case (Inr jar)
      from assms show ?thesis
      proof
        assume "get_platform h = ''linux'' \<and> falsy (environ h ''LINUX_AGENT_SECRET'')"
        with v d \<open>r1 = Inr u\<close> Inr s2 show ?thesis
          by (simp add: main_def configure_linux_no_secret logging_service_actions)
      next
        assume "get_platform h = ''windows'' \<and> falsy (environ h ''WINDOWS_AGENT_SECRET'')"
        with v d \<open>r1 = Inr u\<close> Inr s2 show ?thesis
          by (simp add: main_def configure_windows_no_secret logging_service_actions)
      qed
    qed
  qed
qed

lemma get_agent_details_no_secret:
  assumes "(system h = ''Linux'' \<and> falsy (environ h ''LINUX_AGENT_SECRET''))
         \<or> (system h = ''Windows'' \<and> falsy (environ h ''WINDOWS_AGENT_SECRET''))"
  shows "get_agent_details h cfg =
           (case map_of (AGENT_DETAILS cfg) (system h) of
              None \<Rightarrow> Inl (TypeError (SQ @ ''NoneType'' @ SQ @ '' object is not subscriptable''))
            | Some a \<Rightarrow> Inl (ValueError (''Agent secret for '' @ system h @ '' not found in .env'')))"
  using assms by (auto simp: get_agent_details_def Let_def split: option.splits)

lemma test_main_no_secret:
  assumes "(system h = ''Linux'' \<and> falsy (environ h ''LINUX_AGENT_SECRET''))
         \<or> (system h = ''Windows'' \<and> falsy (environ h ''WINDOWS_AGENT_SECRET''))"
  shows "(\<exists>e. fst (test_main h cfg sigs w) = Raised e)
       \<and> mutations (snd (test_main h cfg sigs w)) = mutations w"
  using get_agent_details_no_secret[OF assms, of cfg]
  by (auto simp: test_main_def test_validate_configuration_def logging_mutations
           split: option.splits)

subsection \<open>The installer on Linux: what it writes and runs\<close>

lemma service_file_content_user:
  "contains (NL @ ''    User=gopal'' @ NL) (service_file_content jar url secret name workdir)"
proof -
  have "service_file_content jar url secret name workdir =
          (NL @ ''    [Unit]'' @ NL
           @ ''    Description=Jenkins Agent'' @ NL
           @ ''    After=network.target'' @ NL
           @ NL
           @ ''    [Service]'' @ NL
           @ ''    ExecStart=/usr/bin/java -jar '' @ jar @ '' -url '' @ url
             @ '' -secret '' @ secret @ '' -name '' @ DQ @ name @ DQ
             @ '' -workDir '' @ DQ @ workdir @ DQ)
          @ (NL @ ''    User=gopal'' @ NL)
          @ (''    Restart=always'' @ NL
             @ NL
             @ ''    [Install]'' @ NL
             @ ''    WantedBy=multi-user.target'' @ NL
             @ ''    '')"
    by (simp add: service_file_content_def)
  then show ?thesis unfolding contains_iff by blast
qed

lemma adds_configure_linux_try:
  assumes "fixed_identity (WriteFile service_file_path content)"
  shows "adds fixed_identity w (snd (configure_linux_try h content w))"
proof -
  have l: "\<And>l m w'. adds fixed_identity w w' \<Longrightarrow> adds fixed_identity w (logging l m w')"
    using adds_logging[of fixed_identity] adds_trans by (metis fixed_identity.simps(1))
  have s: "\<And>c w'. adds fixed_identity w w' \<Longrightarrow> c \<in> set linux_service_commands \<Longrightarrow>
             adds fixed_identity w (snd (subprocess_run h c w'))"
    using adds_subprocess_run[of fixed_identity] adds_trans by (metis fixed_identity.simps(2))
  have r: "\<And>c m w'. adds fixed_identity w w' \<Longrightarrow> c \<in> set linux_service_commands \<Longrightarrow>
             adds fixed_identity w (snd (run_command h c m w'))"
    using adds_run_command[of fixed_identity] adds_trans
    by (metis fixed_identity.simps(1) fixed_identity.simps(2))
  have f: "\<And>w'. adds fixed_identity w w' \<Longrightarrow>
             adds fixed_identity w
               (snd (fs_change h service_file_path (WriteFile service_file_path content) w'))"
    using adds_fs_change[of fixed_identity] adds_trans assms by metis
  have c: "[''sudo'', ''chmod'', ''o+w'', ''/etc/systemd/system/''] \<in> set linux_service_commands"
    "[''sudo'', ''chmod'', ''o-w'', ''/etc/systemd/system/''] \<in> set linux_service_commands"
    "[''sudo'', ''systemctl'', ''daemon-reload''] \<in> set linux_service_commands"
    "[''sudo'', ''systemctl'', ''enable'', ''jenkins-agent''] \<in> set linux_service_commands"
    "[''sudo'', ''systemctl'', ''start'', ''jenkins-agent''] \<in> set linux_service_commands"
    by (simp_all add: linux_service_commands_def)
  show ?thesis
    unfolding configure_linux_try_def Let_def
    apply (rule adds_seq)
     apply (rule s[OF l[OF adds_refl] c(1)])
    apply (rule adds_seq)
     apply (erule f[OF l])
    apply (rule adds_seq)
     apply (erule s[OF l[OF l] c(2)])
    apply (rule adds_seq)
     apply (erule r[OF _ c(3)])
    apply (rule adds_seq)
     apply (erule r[OF _ c(4)])
    apply (erule r[OF _ c(5)])
    done
qed

lemma adds_configure_linux_service:
  "adds fixed_identity w (snd (configure_linux_service h jar cfg w))"
proof -
  have l: "\<And>l m w'. adds fixed_identity w w' \<Longrightarrow> adds fixed_identity w (logging l m w')"
    using adds_logging[of fixed_identity] adds_trans by (metis fixed_identity.simps(1))
  show ?thesis
  proof (cases "falsy (environ h ''LINUX_AGENT_SECRET'')")
    case True
    then show ?thesis by (simp add: configure_linux_service_def l adds_refl)
  next
    case False
    show ?thesis
    proof (cases "map_of (AGENT_DETAILS cfg) ''LINUX''")
      case None
      with False show ?thesis by (simp add: configure_linux_service_def adds_refl)
    next
      case (Some a)
      let ?c = "service_file_content jar (JENKINS_SERVER_URL cfg)
                  (the (environ h ''LINUX_AGENT_SECRET'')) (AGENT_NAME a) (AGENT_WORKDIR a)"
      have "fixed_identity (WriteFile service_file_path ?c)"
        using service_file_content_user[of jar "JENKINS_SERVER_URL cfg"
                "the (environ h ''LINUX_AGENT_SECRET'')" "AGENT_NAME a" "AGENT_WORKDIR a"]
        by (simp add: service_file_path_def)
      from adds_configure_linux_try[OF this, of w h]
      have t: "adds fixed_identity w (snd (configure_linux_try h ?c w))" .
      obtain r w1 where e: "configure_linux_try h ?c w = (r, w1)"
        by (cases "configure_linux_try h ?c w")
      with t have "adds fixed_identity w w1" by simp
      with e False Some show ?thesis
        by (cases r; cases "projl r") (simp_all add: configure_linux_service_def l)
    qed
  qed
qed

lemma succeeds_from_Suc:
  "succeeds_from h k (Suc n) = (zero_exit (procs h k) \<and> succeeds_from h (Suc k) n)"
proof -
  have "[k..<k + Suc n] = k # [Suc k..<Suc k + n]"
    by (simp add: upt_conv_Cons del: upt_Suc)
  then show ?thesis by (simp add: succeeds_from_def del: upt_Suc)
qed

lemma succeeds_from_nth: "succeeds_from h k n \<Longrightarrow> i < n \<Longrightarrow> zero_exit (procs h (k + i))"
  by (simp add: succeeds_from_def list_all_iff)

lemma logging_nrun: "nrun (logging l m w) = nrun w"
  by (simp add: logging_def emit_def)

lemma subprocess_run_ok:
  assumes "zero_exit (procs h (nrun w))"
  obtains res w1 where "subprocess_run h c w = (Inr res, w1)"
    "mutations w1 = mutations w @ [Run c]" "nrun w1 = Suc (nrun w)"
proof -
  from assms obtain out err where "procs h (nrun w) = Exited 0 out err"
    by (cases "procs h (nrun w)") auto
  then have "subprocess_run h c w
               = (Inr (Completed 0 out err), (emit (Run c) w)\<lparr>nrun := Suc (nrun w)\<rparr>)"
    by (simp add: subprocess_run_def)
  moreover have "mutations ((emit (Run c) w)\<lparr>nrun := Suc (nrun w)\<rparr>) = mutations w @ [Run c]"
    by (simp add: mutations_def emit_def)
  ultimately show ?thesis using that by simp
qed

lemma run_command_ok:
  assumes "zero_exit (procs h (nrun w))"
  obtains w1 where "run_command h c m w = (Inr (), w1)"
    "mutations w1 = mutations w @ [Run c]" "nrun w1 = Suc (nrun w)"
proof -
  from assms obtain out err where "procs h (nrun w) = Exited 0 out err"
    by (cases "procs h (nrun w)") auto
  then have "subprocess_run h c w
               = (Inr (Completed 0 out err), (emit (Run c) w)\<lparr>nrun := Suc (nrun w)\<rparr>)"
    by (simp add: subprocess_run_def)
  then have "fst (run_command h c m w) = Inr ()
             \<and> mutations (snd (run_command h c m w)) = mutations w @ [Run c]
             \<and> nrun (snd (run_command h c m w)) = Suc (nrun w)"
    by (simp add: run_command_def logging_mutations logging_nrun)
       (simp add: mutations_def emit_def)
  then show ?thesis using that by (cases "run_command h c m w") auto
qed

lemma fs_change_ok:
  assumes "fs_fault h p = None" "is_mutation e"
  obtains w1 where "fs_change h p e w = (Inr (), w1)"
    "mutations w1 = mutations w @ [e]" "nrun w1 = nrun w"
  using assms that by (simp add: fs_change_def mutations_def emit_def)

lemma configure_linux_try_ok:
  assumes s: "succeeds_from h (nrun w) 5"
    and f: "fs_fault h service_file_path = None"
  shows "fst (configure_linux_try h content w) = Inr ()
       \<and> mutations (snd (configure_linux_try h content w))
           = mutations w
             @ [Run [''sudo'', ''chmod'', ''o+w'', ''/etc/systemd/system/''],
                WriteFile service_file_path content,
                Run [''sudo'', ''chmod'', ''o-w'', ''/etc/systemd/system/''],
                Run [''sudo'', ''systemctl'', ''daemon-reload''],
                Run [''sudo'', ''systemctl'', ''enable'', ''jenkins-agent''],
                Run [''sudo'', ''systemctl'', ''start'', ''jenkins-agent'']]"
proof -
  from succeeds_from_nth[OF s, of 0] succeeds_from_nth[OF s, of 1] succeeds_from_nth[OF s, of 2]
    succeeds_from_nth[OF s, of 3] succeeds_from_nth[OF s, of 4]
  have z: "zero_exit (procs h (nrun w))" "zero_exit (procs h (Suc (nrun w)))"
    "zero_exit (procs h (Suc (Suc (nrun w))))" "zero_exit (procs h (Suc (Suc (Suc (nrun w)))))"
    "zero_exit (procs h (Suc (Suc (Suc (Suc (nrun w))))))"
    by (simp_all add: numeral_eq_Suc)
  let ?a = "logging INFO ''Granting write permission to /etc/systemd/system/'' w"
  from z(1) have "zero_exit (procs h (nrun ?a))" by (simp add: logging_nrun)
  from subprocess_run_ok[OF this, of "[''sudo'', ''chmod'', ''o+w'', ''/etc/systemd/system/'']"]
  obtain res1 w1 where
    1: "subprocess_run h [''sudo'', ''chmod'', ''o+w'', ''/etc/systemd/system/''] ?a = (Inr res1, w1)"
    and m1: "mutations w1 = mutations w @ [Run [''sudo'', ''chmod'', ''o+w'', ''/etc/systemd/system/'']]"
    and n1: "nrun w1 = Suc (nrun w)"
    by (auto simp: logging_mutations logging_nrun)
  let ?b = "logging INFO ''Writing the service file.'' w1"
  from fs_change_ok[OF f, of "WriteFile service_file_path content" ?b]
  obtain w2 where
    2: "fs_change h service_file_path (WriteFile service_file_path content) ?b = (Inr (), w2)"
    and m2: "mutations w2 = mutations w1 @ [WriteFile service_file_path content]"
    and n2: "nrun w2 = Suc (nrun w)"
    using n1 by (auto simp: logging_mutations logging_nrun)
  let ?c = "logging INFO ''Reverting write permission for /etc/systemd/system/''
               (logging INFO ''Service file written successfully.'' w2)"
  from z(2) n2 have "zero_exit (procs h (nrun ?c))" by (simp add: logging_nrun)
  from subprocess_run_ok[OF this, of "[''sudo'', ''chmod'', ''o-w'', ''/etc/systemd/system/'']"]
  obtain res3 w3 where
    3: "subprocess_run h [''sudo'', ''chmod'', ''o-w'', ''/etc/systemd/system/''] ?c = (Inr res3, w3)"
    and m3: "mutations w3 = mutations w2 @ [Run [''sudo'', ''chmod'', ''o-w'', ''/etc/systemd/system/'']]"
    and n3: "nrun w3 = Suc (Suc (nrun w))"
    using n2 by (auto simp: logging_mutations logging_nrun)
  from z(3) n3 have "zero_exit (procs h (nrun w3))" by simp
  from run_command_ok[OF this, of "[''sudo'', ''systemctl'', ''daemon-reload'']"
         "''Failed to reload systemd daemon''"]
  obtain w4 where
    4: "run_command h [''sudo'', ''systemctl'', ''daemon-reload'']
          ''Failed to reload systemd daemon'' w3 = (Inr (), w4)"
    and m4: "mutations w4 = mutations w3 @ [Run [''sudo'', ''systemctl'', ''daemon-reload'']]"
    and n4: "nrun w4 = Suc (Suc (Suc (nrun w)))"
    using n3 by auto
  from z(4) n4 have "zero_exit (procs h (nrun w4))" by simp
  from run_command_ok[OF this, of "[''sudo'', ''systemctl'', ''enable'', ''jenkins-agent'']"
         "''Failed to enable Jenkins agent service''"]
  obtain w5 where
    5: "run_command h [''sudo'', ''systemctl'', ''enable'', ''jenkins-agent'']
          ''Failed to enable Jenkins agent service'' w4 = (Inr (), w5)"
    and m5: "mutations w5 = mutations w4 @ [Run [''sudo'', ''systemctl'', ''enable'', ''jenkins-agent'']]"
    and n5: "nrun w5 = Suc (Suc (Suc (Suc (nrun w))))"
    using n4 by auto
  from z(5) n5 have "zero_exit (procs h (nrun w5))" by simp
  from run_command_ok[OF this, of "[''sudo'', ''systemctl'', ''start'', ''jenkins-agent'']"
         "''Failed to start Jenkins agent service''"]
  obtain w6 where
    6: "run_command h [''sudo'', ''systemctl'', ''start'', ''jenkins-agent'']
          ''Failed to start Jenkins agent service'' w5 = (Inr (), w6)"
    and m6: "mutations w6 = mutations w5 @ [Run [''sudo'', ''systemctl'', ''start'', ''jenkins-agent'']]"
    by auto
  have "configure_linux_try h content w = (Inr (), w6)"
    unfolding configure_linux_try_def Let_def by (simp only: 1 2 3 4 5 6 prod.case sum.case)
  with m1 m2 m3 m4 m5 m6 show ?thesis by simp
qed

lemma configure_linux_service_ok:
  assumes "\<not> falsy (environ h ''LINUX_AGENT_SECRET'')"
    and "map_of (AGENT_DETAILS cfg) ''LINUX'' = Some a"
    and "succeeds_from h (nrun w) 5"
    and "fs_fault h service_file_path = None"
  shows "fst (configure_linux_service h jar cfg w) = Inr ()
       \<and> mutations (snd (configure_linux_service h jar cfg w))
           = mutations w
             @ [Run [''sudo'', ''chmod'', ''o+w'', ''/etc/systemd/system/''],
                WriteFile ''/etc/systemd/system/jenkins-agent.service''
                  (service_file_content jar (JENKINS_SERVER_URL cfg)
                     (the (environ h ''LINUX_AGENT_SECRET'')) (AGENT_NAME a) (AGENT_WORKDIR a)),
                Run [''sudo'', ''chmod'', ''o-w'', ''/etc/systemd/system/''],
                Run [''sudo'', ''systemctl'', ''daemon-reload''],
                Run [''sudo'', ''systemctl'', ''enable'', ''jenkins-agent''],
                Run [''sudo'', ''systemctl'', ''start'', ''jenkins-agent'']]"
proof -
  let ?c = "service_file_content jar (JENKINS_SERVER_URL cfg)
              (the (environ h ''LINUX_AGENT_SECRET'')) (AGENT_NAME a) (AGENT_WORKDIR a)"
  obtain r w1 where e: "configure_linux_try h ?c w = (r, w1)"
    by (cases "configure_linux_try h ?c w")
  with configure_linux_try_ok[OF assms(3) assms(4), of ?c]
  have "r = Inr ()" and "mutations w1 = mutations w
             @ [Run [''sudo'', ''chmod'', ''o+w'', ''/etc/systemd/system/''],
                WriteFile service_file_path ?c,
                Run [''sudo'', ''chmod'', ''o-w'', ''/etc/systemd/system/''],
                Run [''sudo'', ''systemctl'', ''daemon-reload''],
                Run [''sudo'', ''systemctl'', ''enable'', ''jenkins-agent''],
                Run [''sudo'', ''systemctl'', ''start'', ''jenkins-agent'']]"
    by simp_all
  with e assms(1) assms(2) show ?thesis
    by (simp add: configure_linux_service_def service_file_path_def)
qed

lemma query_status_linux_ok:
  assumes "system h = ''Linux''" "zero_exit (procs h (nrun w))"
  shows "mutations (snd (query_status h agent_name w))
           = mutations w @ [Run [''systemctl'', ''is-active'', agent_name]]"
proof -
  from assms(2) obtain out err where "procs h (nrun w) = Exited 0 out err"
    by (cases "procs h (nrun w)") auto
  from run_retry_first_ok[OF this] assms(1) show ?thesis
    by (simp add: query_status_def mutations_def emit_def)
qed

text \<open>
  C10. In the installer the Linux service identity does not depend on the configuration.
  Whatever the host, the jar path and the configuration, every effect of
  \<open>configure_linux_service\<close> is a log record, one of five fixed commands (among them
  \<open>systemctl enable jenkins-agent\<close> and \<open>systemctl start jenkins-agent\<close>) or the writing of
  \<^verbatim>\<open>/etc/systemd/system/jenkins-agent.service\<close> with the line \<open>User=gopal\<close>. The configured
  \<open>AGENT_NAME\<close> is spliced into the unit file at one place, the \<open>-name\<close> argument of
  \<open>ExecStart\<close>. When all steps succeed these are exactly the six mutations made. The monitor
  of test.py queries \<open>systemctl is-active\<close> with the configured agent name instead.
\<close>

theorem linux_service_identity_fixed:
  "adds fixed_identity w (snd (configure_linux_service h jar cfg w))
   \<and> service_file_content jar url secret name workdir
       = (NL @ ''    [Unit]'' @ NL
          @ ''    Description=Jenkins Agent'' @ NL
          @ ''    After=network.target'' @ NL
          @ NL
          @ ''    [Service]'' @ NL
          @ ''    ExecStart=/usr/bin/java -jar '' @ jar @ '' -url '' @ url
          @ '' -secret '' @ secret @ '' -name '' @ DQ)
         @ name
         @ (DQ @ '' -workDir '' @ DQ @ workdir @ DQ @ NL
            @ ''    User=gopal'' @ NL
            @ ''    Restart=always'' @ NL
            @ NL
            @ ''    [Install]'' @ NL
            @ ''    WantedBy=multi-user.target'' @ NL
            @ ''    '')
   \<and> (\<not> falsy (environ h ''LINUX_AGENT_SECRET'')
        \<and> map_of (AGENT_DETAILS cfg) ''LINUX'' = Some a
        \<and> succeeds_from h (nrun w) 5
        \<and> fs_fault h service_file_path = None \<longrightarrow>
       fst (configure_linux_service h jar cfg w) = Inr ()
       \<and> mutations (snd (configure_linux_service h jar cfg w))
           = mutations w
             @ [Run [''sudo'', ''chmod'', ''o+w'', ''/etc/systemd/system/''],
                WriteFile ''/etc/systemd/system/jenkins-agent.service''
                  (service_file_content jar (JENKINS_SERVER_URL cfg)
                     (the (environ h ''LINUX_AGENT_SECRET'')) (AGENT_NAME a) (AGENT_WORKDIR a)),
                Run [''sudo'', ''chmod'', ''o-w'', ''/etc/systemd/system/''],
                Run [''sudo'', ''systemctl'', ''daemon-reload''],
                Run [''sudo'', ''systemctl'', ''enable'', ''jenkins-agent''],
                Run [''sudo'', ''systemctl'', ''start'', ''jenkins-agent'']])
   \<and> (system h = ''Linux'' \<and> zero_exit (procs h (nrun w)) \<longrightarrow>
       mutations (snd (query_status h agent_name w))
         = mutations w @ [Run [''systemctl'', ''is-active'', agent_name]])"
proof (intro conjI impI)
  show "adds fixed_identity w (snd (configure_linux_service h jar cfg w))"
    by (rule adds_configure_linux_service)
  show "service_file_content jar url secret name workdir
       = (NL @ ''    [Unit]'' @ NL
          @ ''    Description=Jenkins Agent'' @ NL
          @ ''    After=network.target'' @ NL
          @ NL
          @ ''    [Service]'' @ NL
          @ ''    ExecStart=/usr/bin/java -jar '' @ jar @ '' -url '' @ url
          @ '' -secret '' @ secret @ '' -name '' @ DQ)
         @ name
         @ (DQ @ '' -workDir '' @ DQ @ workdir @ DQ @ NL
            @ ''    User=gopal'' @ NL
            @ ''    Restart=always'' @ NL
            @ NL
            @ ''    [Install]'' @ NL
            @ ''    WantedBy=multi-user.target'' @ NL
            @ ''    '')"
    by (simp add: service_file_content_def)
next
  assume a: "\<not> falsy (environ h ''LINUX_AGENT_SECRET'')
        \<and> map_of (AGENT_DETAILS cfg) ''LINUX'' = Some a
        \<and> succeeds_from h (nrun w) 5
        \<and> fs_fault h service_file_path = None"
  then have ok: "fst (configure_linux_service h jar cfg w) = Inr ()
       \<and> mutations (snd (configure_linux_service h jar cfg w))
           = mutations w
             @ [Run [''sudo'', ''chmod'', ''o+w'', ''/etc/systemd/system/''],
                WriteFile ''/etc/systemd/system/jenkins-agent.service''
                  (service_file_content jar (JENKINS_SERVER_URL cfg)
                     (the (environ h ''LINUX_AGENT_SECRET'')) (AGENT_NAME a) (AGENT_WORKDIR a)),
                Run [''sudo'', ''chmod'', ''o-w'', ''/etc/systemd/system/''],
                Run [''sudo'', ''systemctl'', ''daemon-reload''],
                Run [''sudo'', ''systemctl'', ''enable'', ''jenkins-agent''],
                Run [''sudo'', ''systemctl'', ''start'', ''jenkins-agent'']]"
    using configure_linux_service_ok[of h cfg a w jar] by blast
  from ok show "fst (configure_linux_service h jar cfg w) = Inr ()" by (rule conjunct1)
  from ok show "mutations (snd (configure_linux_service h jar cfg w))
           = mutations w
             @ [Run [''sudo'', ''chmod'', ''o+w'', ''/etc/systemd/system/''],
                WriteFile ''/etc/systemd/system/jenkins-agent.service''
                  (service_file_content jar (JENKINS_SERVER_URL cfg)
                     (the (environ h ''LINUX_AGENT_SECRET'')) (AGENT_NAME a) (AGENT_WORKDIR a)),
                Run [''sudo'', ''chmod'', ''o-w'', ''/etc/systemd/system/''],
                Run [''sudo'', ''systemctl'', ''daemon-reload''],
                Run [''sudo'', ''systemctl'', ''enable'', ''jenkins-agent''],
                Run [''sudo'', ''systemctl'', ''start'', ''jenkins-agent'']]"
    by (rule conjunct2)
next
  assume "system h = ''Linux'' \<and> zero_exit (procs h (nrun w))"
  then show "mutations (snd (query_status h agent_name w))
         = mutations w @ [Run [''systemctl'', ''is-active'', agent_name]]"
    using query_status_linux_ok[of h w agent_name] by blast
qed

theorem linux_service_identity_witness:
  "\<not> falsy (environ linux_host ''LINUX_AGENT_SECRET'')
   \<and> map_of (AGENT_DETAILS example_config) ''LINUX''
       = Some \<lparr>AGENT_NAME = ''agent-1'', AGENT_WORKDIR = ''/var/jenkins''\<rparr>
   \<and> succeeds_from linux_host (nrun world0) 5
   \<and> fs_fault linux_host service_file_path = None
   \<and> system linux_host = ''Linux''
   \<and> zero_exit (procs linux_host (nrun world0))
   \<and> mutations (snd (configure_linux_service linux_host ''agent.jar'' example_config world0))
       = [Run [''sudo'', ''chmod'', ''o+w'', ''/etc/systemd/system/''],
          WriteFile ''/etc/systemd/system/jenkins-agent.service''
            (service_file_content ''agent.jar'' ''http://ci:8080'' ''tok123'' ''agent-1'' ''/var/jenkins''),
          Run [''sudo'', ''chmod'', ''o-w'', ''/etc/systemd/system/''],
          Run [''sudo'', ''systemctl'', ''daemon-reload''],
          Run [''sudo'', ''systemctl'', ''enable'', ''jenkins-agent''],
          Run [''sudo'', ''systemctl'', ''start'', ''jenkins-agent'']]
   \<and> mutations (snd (query_status linux_host ''agent-1'' world0))
       = [Run [''systemctl'', ''is-active'', ''agent-1'']]"
proof -
  have h1: "\<not> falsy (environ linux_host ''LINUX_AGENT_SECRET'')"
    by (simp add: linux_host_def falsy_def)
  have h2: "map_of (AGENT_DETAILS example_config) ''LINUX''
       = Some \<lparr>AGENT_NAME = ''agent-1'', AGENT_WORKDIR = ''/var/jenkins''\<rparr>"
    by (simp add: example_config_def)
  have h3: "succeeds_from linux_host (nrun world0) 5"
    by (simp add: succeeds_from_def linux_host_def list_all_iff)
  have h4: "fs_fault linux_host service_file_path = None"
    by (simp add: linux_host_def)
  have h5: "system linux_host = ''Linux''"
    by (simp add: linux_host_def)
  have h6: "zero_exit (procs linux_host (nrun world0))"
    by (simp add: linux_host_def)
  have m0: "mutations world0 = []"
    by (simp add: mutations_def world0_def)
  have e: "the (environ linux_host ''LINUX_AGENT_SECRET'') = ''tok123''"
    "JENKINS_SERVER_URL example_config = ''http://ci:8080''"
    by (simp_all add: linux_host_def example_config_def)
  note t = linux_service_identity_fixed[where w=world0 and h=linux_host and jar="''agent.jar''"
             and cfg=example_config and url="[]" and secret="[]" and name="[]" and workdir="[]"
             and a="\<lparr>AGENT_NAME = ''agent-1'', AGENT_WORKDIR = ''/var/jenkins''\<rparr>"
             and agent_name="''agent-1''"]
  from t h1 h2 h3 h4 have a: "mutations (snd (configure_linux_service linux_host ''agent.jar'' example_config world0))
       = mutations world0
             @ [Run [''sudo'', ''chmod'', ''o+w'', ''/etc/systemd/system/''],
                WriteFile ''/etc/systemd/system/jenkins-agent.service''
                  (service_file_content ''agent.jar'' (JENKINS_SERVER_URL example_config)
                     (the (environ linux_host ''LINUX_AGENT_SECRET''))
                     (AGENT_NAME \<lparr>AGENT_NAME = ''agent-1'', AGENT_WORKDIR = ''/var/jenkins''\<rparr>)
                     (AGENT_WORKDIR \<lparr>AGENT_NAME = ''agent-1'', AGENT_WORKDIR = ''/var/jenkins''\<rparr>)),
                Run [''sudo'', ''chmod'', ''o-w'', ''/etc/systemd/system/''],
                Run [''sudo'', ''systemctl'', ''daemon-reload''],
                Run [''sudo'', ''systemctl'', ''enable'', ''jenkins-agent''],
                Run [''sudo'', ''systemctl'', ''start'', ''jenkins-agent'']]"
    by blast
  from t h5 h6 have b: "mutations (snd (query_status linux_host ''agent-1'' world0))
       = mutations world0 @ [Run [''systemctl'', ''is-active'', ''agent-1'']]"
    by blast
  from h1 h2 h3 h4 h5 h6 a b show ?thesis
    by (simp add: m0 e)
qed

subsection \<open>Unsupported platforms\<close>

lemma download_ok:
  assumes "get_platform h \<noteq> ''windows''"
    and "\<not> path_exists h (dirname h (agent_jar_location h))"
    and "fs_fault h (dirname h (agent_jar_location h)) = None"
    and "zero_exit (procs h (nrun w))"
  shows "fst (download_jenkins_agent h cfg w) = Inr (agent_jar_location h)
       \<and> mutations (snd (download_jenkins_agent h cfg w))
           = mutations w
             @ [MakeDirs (dirname h (agent_jar_location h)),
                Chmod (dirname h (agent_jar_location h)) 493,
                Run [''curl'', ''-o'', agent_jar_location h,
                     JENKINS_SERVER_URL cfg @ ''/jnlpJars/agent.jar'']]"
proof -
  let ?d = "dirname h (agent_jar_location h)"
  let ?a = "logging INFO ''Downloading Agent jar...'' w"
  from fs_change_ok[OF assms(3), of "MakeDirs ?d" ?a]
  obtain w1 where 1: "fs_change h ?d (MakeDirs ?d) ?a = (Inr (), w1)"
    and m1: "mutations w1 = mutations w @ [MakeDirs ?d]" and n1: "nrun w1 = nrun w"
    by (auto simp: logging_mutations logging_nrun)
  from fs_change_ok[OF assms(3), of "Chmod ?d 493" w1]
  obtain w2 where 2: "fs_change h ?d (Chmod ?d 493) w1 = (Inr (), w2)"
    and m2: "mutations w2 = mutations w1 @ [Chmod ?d 493]" and n2: "nrun w2 = nrun w"
    using n1 by auto
  from assms(4) n2 have "zero_exit (procs h (nrun w2))" by simp
  from run_command_ok[OF this, of "[''curl'', ''-o'', agent_jar_location h,
                     JENKINS_SERVER_URL cfg @ ''/jnlpJars/agent.jar'']"
         "''Failed to download Jenkins agent jar''"]
  obtain w3 where 3: "run_command h [''curl'', ''-o'', agent_jar_location h,
                     JENKINS_SERVER_URL cfg @ ''/jnlpJars/agent.jar'']
         ''Failed to download Jenkins agent jar'' w2 = (Inr (), w3)"
    and m3: "mutations w3 = mutations w2 @ [Run [''curl'', ''-o'', agent_jar_location h,
                     JENKINS_SERVER_URL cfg @ ''/jnlpJars/agent.jar'']]"
    by auto
  have "download_jenkins_agent h cfg w
          = (Inr (agent_jar_location h),
             logging INFO (''Jenkins agent jar downloaded to: '' @ agent_jar_location h) w3)"
    unfolding download_jenkins_agent_def Let_def using assms(1) assms(2)
    by (simp only: 1 2 3 prod.case sum.case if_True if_False not_False_eq_True simp_thms)
  with m1 m2 m3 show ?thesis by (simp add: logging_mutations)
qed

lemma main_unsupported_service_actions:
  assumes "get_platform h \<noteq> ''linux''" "get_platform h \<noteq> ''windows''"
  shows "service_actions (snd (main h cfg w)) = service_actions w"
proof -
  obtain r1 w1 where v: "validate_configuration cfg w = (r1, w1)"
    by (cases "validate_configuration cfg w")
  with validate_configuration_world[of cfg w] have s1: "service_actions w1 = service_actions w"
    by (auto simp: logging_service_actions)
  obtain r2 w2 where d: "download_jenkins_agent h cfg w1 = (r2, w2)"
    by (cases "download_jenkins_agent h cfg w1")
  with download_service_actions[of h cfg w1] s1 have s2: "service_actions w2 = service_actions w"
    by simp
  from v d s1 s2 assms show ?thesis
    by (cases r1; cases r2) (simp_all add: main_def logging_service_actions)
qed

lemma main_unsupported_returns:
  assumes "get_platform h \<noteq> ''linux''" "get_platform h \<noteq> ''windows''"
    and "fst (validate_configuration cfg w) = Inr ()"
    and "\<not> path_exists h (dirname h (agent_jar_location h))"
    and "fs_fault h (dirname h (agent_jar_location h)) = None"
    and "zero_exit (procs h (nrun w))"
  shows "fst (main h cfg w) = Returned
       \<and> mutations (snd (main h cfg w))
           = mutations w
             @ [MakeDirs (dirname h (agent_jar_location h)),
                Chmod (dirname h (agent_jar_location h)) 493,
                Run [''curl'', ''-o'', agent_jar_location h,
                     JENKINS_SERVER_URL cfg @ ''/jnlpJars/agent.jar'']]
       \<and> last (events (snd (main h cfg w)))
           = Log ERROR ''Unsupported platform. Only Windows and Linux are supported.''"
proof -
  let ?w1 = "logging INFO ''Configuration validated successfully.'' w"
  from assms(3) have v: "validate_configuration cfg w = (Inr (), ?w1)"
    by (simp add: validate_configuration_def split: if_splits)
  from assms(6) have "zero_exit (procs h (nrun ?w1))" by (simp add: logging_nrun)
  from download_ok[OF assms(2) assms(4) assms(5) this, of cfg]
  obtain w2 where d: "download_jenkins_agent h cfg ?w1 = (Inr (agent_jar_location h), w2)"
    and m2: "mutations w2 = mutations w
             @ [MakeDirs (dirname h (agent_jar_location h)),
                Chmod (dirname h (agent_jar_location h)) 493,
                Run [''curl'', ''-o'', agent_jar_location h,
                     JENKINS_SERVER_URL cfg @ ''/jnlpJars/agent.jar'']]"
    by (cases "download_jenkins_agent h cfg ?w1") (auto simp: logging_mutations)
  from v d assms(1) assms(2) have
    "main h cfg w
       = (Returned, logging ERROR ''Unsupported platform. Only Windows and Linux are supported.'' w2)"
    by (simp add: main_def)
  with m2 show ?thesis by (simp add: logging_mutations) (simp add: logging_def emit_def)
qed

lemma get_agent_details_unsupported:
  "system h \<noteq> ''Linux'' \<Longrightarrow> system h \<noteq> ''Windows'' \<Longrightarrow>
   get_agent_details h cfg
     = Inl (PyException ''Unsupported platform. Only Windows and Linux are supported.'')"
  by (simp add: get_agent_details_def)

lemma test_main_unsupported:
  assumes "system h \<noteq> ''Linux''" "system h \<noteq> ''Windows''"
  shows "fst (test_main h cfg sigs w)
           = Raised (if falsy (environ h ''SMTP_PASSWORD'')
                     then ValueError ''Missing SMTP_PASSWORD in .env''
                     else PyException ''Unsupported platform. Only Windows and Linux are supported.'')
       \<and> mutations (snd (test_main h cfg sigs w)) = mutations w"
  using get_agent_details_unsupported[OF assms, of cfg]
  by (simp add: test_main_def test_validate_configuration_def logging_mutations)

lemma darwin_host_facts:
  "system darwin_host \<noteq> ''Linux''" "system darwin_host \<noteq> ''Windows''"
  "get_platform darwin_host \<noteq> ''linux''" "get_platform darwin_host \<noteq> ''windows''"
  "agent_jar_location darwin_host = ''/home/jenkins/jenkins/agent.jar''"
  "dirname darwin_host ''/home/jenkins/jenkins/agent.jar'' = ''/home/jenkins/jenkins''"
  "\<not> path_exists darwin_host ''/home/jenkins/jenkins''"
  "fs_fault darwin_host ''/home/jenkins/jenkins'' = None"
  "zero_exit (procs darwin_host (nrun world0))"
  "\<not> falsy (environ darwin_host ''SMTP_PASSWORD'')"
  by code_simp+

lemma example_config_validates: "fst (validate_configuration example_config w) = Inr ()"
  by (simp add: validate_configuration_def example_config_def)

text \<open>
  C6 (as the code has it). On a platform other than Linux and Windows, \<open>main\<close> of test.py
  raises the unsupported-platform exception from \<open>get_agent_details\<close> before any mutation.
  The installer never writes a service file nor issues a service command there, but it
  tests the platform last: when its download succeeds it has created the download
  directory and fetched the jar with \<open>curl\<close>, and it then logs the unsupported-platform
  error and returns normally.
\<close>

theorem unsupported_platform_behaviour:
  "(system h \<noteq> ''Linux'' \<and> system h \<noteq> ''Windows'' \<longrightarrow>
      get_agent_details h cfg
        = Inl (PyException ''Unsupported platform. Only Windows and Linux are supported.'')
      \<and> fst (test_main h cfg sigs w)
          = Raised (if falsy (environ h ''SMTP_PASSWORD'')
                    then ValueError ''Missing SMTP_PASSWORD in .env''
                    else PyException ''Unsupported platform. Only Windows and Linux are supported.'')
      \<and> mutations (snd (test_main h cfg sigs w)) = mutations w)
   \<and> (get_platform h \<noteq> ''linux'' \<and> get_platform h \<noteq> ''windows'' \<longrightarrow>
      service_actions (snd (main h cfg w)) = service_actions w
      \<and> (fst (validate_configuration cfg w) = Inr ()
           \<and> \<not> path_exists h (dirname h (agent_jar_location h))
           \<and> fs_fault h (dirname h (agent_jar_location h)) = None
           \<and> zero_exit (procs h (nrun w)) \<longrightarrow>
          fst (main h cfg w) = Returned
          \<and> mutations (snd (main h cfg w))
              = mutations w
                @ [MakeDirs (dirname h (agent_jar_location h)),
                   Chmod (dirname h (agent_jar_location h)) 493,
                   Run [''curl'', ''-o'', agent_jar_location h,
                        JENKINS_SERVER_URL cfg @ ''/jnlpJars/agent.jar'']]
          \<and> last (events (snd (main h cfg w)))
              = Log ERROR ''Unsupported platform. Only Windows and Linux are supported.''))"
  using get_agent_details_unsupported[of h cfg] test_main_unsupported[of h cfg sigs w]
    main_unsupported_service_actions[of h cfg w] main_unsupported_returns[of h cfg w]
  by blast

theorem unsupported_platform_witness:
  "system darwin_host \<noteq> ''Linux'' \<and> system darwin_host \<noteq> ''Windows''
   \<and> get_platform darwin_host \<noteq> ''linux'' \<and> get_platform darwin_host \<noteq> ''windows''
   \<and> fst (test_main darwin_host example_config [] world0)
       = Raised (PyException ''Unsupported platform. Only Windows and Linux are supported.'')
   \<and> mutations (snd (test_main darwin_host example_config [] world0)) = mutations world0
   \<and> service_actions (snd (main darwin_host example_config world0)) = service_actions world0
   \<and> fst (main darwin_host example_config world0) = Returned"
proof -
  note t = unsupported_platform_behaviour[of darwin_host example_config "[]" world0]
  from t darwin_host_facts(1,2,10)
  have a: "fst (test_main darwin_host example_config [] world0)
       = Raised (PyException ''Unsupported platform. Only Windows and Linux are supported.'')"
    by simp
  from t darwin_host_facts(1,2)
  have b: "mutations (snd (test_main darwin_host example_config [] world0)) = mutations world0"
    by blast
  from t darwin_host_facts(3,4)
  have c: "service_actions (snd (main darwin_host example_config world0)) = service_actions world0"
    by blast
  have "fst (validate_configuration example_config world0) = Inr ()
           \<and> \<not> path_exists darwin_host (dirname darwin_host (agent_jar_location darwin_host))
           \<and> fs_fault darwin_host (dirname darwin_host (agent_jar_location darwin_host)) = None
           \<and> zero_exit (procs darwin_host (nrun world0))"
    using darwin_host_facts example_config_validates by simp
  with t darwin_host_facts(3,4)
  have d: "fst (main darwin_host example_config world0) = Returned"
    by blast
  from darwin_host_facts(1,2,3,4) a b c d show ?thesis by blast
qed

text \<open>
  C6 as stated fails for the installer: on a Darwin host its \<open>main\<close> creates the download
  directory, changes its mode and downloads the jar, and then returns normally (exit
  status 0) instead of failing.
\<close>

theorem unsupported_platform_downloads_counterexample:
  "fst (main darwin_host example_config world0) = Returned
   \<and> exit_code (fst (main darwin_host example_config world0)) = Some 0
   \<and> mutations (snd (main darwin_host example_config world0))
       = [MakeDirs ''/home/jenkins/jenkins'',
          Chmod ''/home/jenkins/jenkins'' 493,
          Run [''curl'', ''-o'', ''/home/jenkins/jenkins/agent.jar'',
               ''http://ci:8080/jnlpJars/agent.jar'']]"
proof -
  have m0: "mutations world0 = []"
    by (simp add: mutations_def world0_def)
  have u: "JENKINS_SERVER_URL example_config = ''http://ci:8080''"
    by (simp add: example_config_def)
  have "fst (main darwin_host example_config world0) = Returned
       \<and> mutations (snd (main darwin_host example_config world0))
           = mutations world0
             @ [MakeDirs (dirname darwin_host (agent_jar_location darwin_host)),
                Chmod (dirname darwin_host (agent_jar_location darwin_host)) 493,
                Run [''curl'', ''-o'', agent_jar_location darwin_host,
                     JENKINS_SERVER_URL example_config @ ''/jnlpJars/agent.jar'']]
       \<and> last (events (snd (main darwin_host example_config world0)))
           = Log ERROR ''Unsupported platform. Only Windows and Linux are supported.''"
    by (rule main_unsupported_returns)
       (simp_all add: darwin_host_facts example_config_validates)
  then show ?thesis by (simp add: m0 u darwin_host_facts)
qed

subsection \<open>The monitor loop: alerts, exceptions and signals\<close>

lemma logging_alerts: "alerts (logging l m w) = alerts w"
  by (simp add: alerts_def logging_def emit_def)

lemma logging_nsend: "nsend (logging l m w) = nsend w"
  by (simp add: logging_def emit_def)

lemma time_sleep_alerts: "alerts (time_sleep d w) = alerts w"
  by (simp add: alerts_def time_sleep_def emit_def)

lemma time_sleep_nrun: "nrun (time_sleep d w) = nrun w"
  by (simp add: time_sleep_def emit_def)

lemma smtp_step_alerts:
  "alerts (snd (smtp_step h n op w)) = alerts w + (if op = Connect then 1 else 0)"
  "nrun (snd (smtp_step h n op w)) = nrun w"
  by (simp_all add: smtp_step_def alerts_def emit_def split: option.splits)

lemma smtp_body_alerts:
  "alerts (snd (smtp_body h n w)) = alerts w \<and> nrun (snd (smtp_body h n w)) = nrun w"
proof -
  obtain r1 w1 where 1: "smtp_step h n StartTLS w = (r1, w1)" by (cases "smtp_step h n StartTLS w")
  obtain r2 w2 where 2: "smtp_step h n Login w1 = (r2, w2)" by (cases "smtp_step h n Login w1")
  obtain r3 w3 where 3: "smtp_step h n SendMail w2 = (r3, w3)" by (cases "smtp_step h n SendMail w2")
  from smtp_step_alerts[of h n StartTLS w] 1 have a1: "alerts w1 = alerts w" "nrun w1 = nrun w" by simp_all
  from smtp_step_alerts[of h n Login w1] 2 a1 have a2: "alerts w2 = alerts w" "nrun w2 = nrun w" by simp_all
  from smtp_step_alerts[of h n SendMail w2] 3 a2 have a3: "alerts w3 = alerts w" "nrun w3 = nrun w" by simp_all
  from 1 2 3 a1 a2 a3 show ?thesis
    by (cases r1; cases r2) (simp_all add: smtp_body_def)
qed

lemma smtp_session_alerts:
  "alerts (snd (smtp_session h n w)) = Suc (alerts w) \<and> nrun (snd (smtp_session h n w)) = nrun w"
proof -
  obtain r1 w1 where 1: "smtp_step h n Connect w = (r1, w1)" by (cases "smtp_step h n Connect w")
  obtain r2 w2 where 2: "smtp_body h n w1 = (r2, w2)" by (cases "smtp_body h n w1")
  obtain r3 w3 where 3: "smtp_step h n Quit w2 = (r3, w3)" by (cases "smtp_step h n Quit w2")
  from smtp_step_alerts[of h n Connect w] 1 have a1: "alerts w1 = Suc (alerts w)" "nrun w1 = nrun w" by simp_all
  from smtp_body_alerts[of h n w1] 2 a1 have a2: "alerts w2 = Suc (alerts w)" "nrun w2 = nrun w" by simp_all
  from smtp_step_alerts[of h n Quit w2] 3 a2 have a3: "alerts w3 = Suc (alerts w)" "nrun w3 = nrun w" by simp_all
  from 1 2 3 a1 a2 a3 show ?thesis
    by (cases r1; cases r3) (simp_all add: smtp_session_def)
qed

lemma send_alert_email_alerts:
  "alerts (snd (send_alert_email h subject message w)) = Suc (alerts w)
   \<and> nrun (snd (send_alert_email h subject message w)) = nrun w"
proof -
  let ?w1 = "(logging INFO (''Sending alert email with subject: '' @ subject) w)\<lparr>nsend := Suc (nsend w)\<rparr>"
  have w1: "alerts ?w1 = alerts w" "nrun ?w1 = nrun w"
    by (simp_all add: alerts_def logging_def emit_def)
  obtain r w2 where s: "smtp_session h (nsend w) ?w1 = (r, w2)" by (cases "smtp_session h (nsend w) ?w1")
  with smtp_session_alerts[of h "nsend w" ?w1] w1
  have w2: "alerts w2 = Suc (alerts w)" "nrun w2 = nrun w" by simp_all
  from smtp_session_raises[of h "nsend w" ?w1] s
  consider "r = Inr ()" | m where "r = Inl (SMTPException m)" by auto
  then show ?thesis using s w2
    by cases (simp_all add: send_alert_email_def logging_alerts logging_nrun)
qed

lemma retry_loop_Exception:
  "retry_loop h c m r d as w = (Some (Inl e), w') \<Longrightarrow> is_Exception e"
proof (induction as arbitrary: w)
  case Nil
  then show ?case by simp
next
  case (Cons a as)
  show ?case
  proof (cases "procs h (nrun w)")
    case (Exited rc out err)
    with Cons show ?thesis
      by (cases "rc = 0") (auto simp: subprocess_run_def)
  next
    case (NotStarted msg)
    with Cons.prems show ?thesis by (auto simp: subprocess_run_def)
  qed
qed

lemma run_retry_Exception: "fst (run_retry h c m w) = Inl e \<Longrightarrow> is_Exception e"
proof -
  assume a: "fst (run_retry h c m w) = Inl e"
  obtain r w1 where l: "retry_loop h c m 3 5 [0..3 - 1] w = (r, w1)"
    by (cases "retry_loop h c m 3 5 [0..3 - 1] w")
  show ?thesis
  proof (cases r)
    case None
    with l a show ?thesis by (auto simp: run_retry_def run_command_with_retry_def)
  next
    case (Some x)
    with l a have "x = Inl e" by (simp add: run_retry_def run_command_with_retry_def)
    with l Some retry_loop_Exception[of h c m 3 5 "[0..3 - 1]" w e w1] show ?thesis by simp
  qed
qed

lemma query_status_Exception:
  assumes "fst (query_status h name w) = Inl e"
  shows "is_Exception e"
proof -
  let ?cl = "[''systemctl'', ''is-active'', name]"
  let ?ml = "''Failed to check status for Linux service '' @ SQ @ name @ SQ"
  let ?cw = "[''sc.exe'', ''query'', name]"
  let ?mw = "''Failed to check status for Windows service '' @ SQ @ name @ SQ"
  consider "system h = ''Linux''" | "system h \<noteq> ''Linux''" "system h = ''Windows''"
    | "system h \<noteq> ''Linux''" "system h \<noteq> ''Windows''" by blast
  then show ?thesis
  proof cases
    case 1
    obtain r w1 where q: "run_retry h ?cl ?ml w = (r, w1)" by (cases "run_retry h ?cl ?ml w")
    with 1 assms have "r = Inl e" by (cases r) (simp_all add: query_status_def)
    with q run_retry_Exception[of h ?cl ?ml w e] show ?thesis by simp
  next
    case 2
    obtain r w1 where q: "run_retry h ?cw ?mw w = (r, w1)" by (cases "run_retry h ?cw ?mw w")
    with 2 assms have "r = Inl e" by (cases r) (simp_all add: query_status_def)
    with q run_retry_Exception[of h ?cw ?mw w e] show ?thesis by simp
  next
    case 3
    with assms show ?thesis by (simp add: query_status_def)
  qed
qed

lemma monitor_try_Exception:
  assumes "fst (monitor_try h name w) = Inl e"
  shows "is_Exception e"
proof -
  obtain r w1 where q: "query_status h name w = (r, w1)" by (cases "query_status h name w")
  show ?thesis
  proof (cases r)
    case (Inl e')
    with q assms have "e' = e" by (simp add: monitor_try_def)
    with q Inl query_status_Exception[of h name w e] show ?thesis by simp
  next
    case (Inr b)
    with q assms send_alert_email_returns show ?thesis
      by (cases b) (simp_all add: monitor_try_def Let_def)
  qed
qed


lemma signal_handler_raises:
  "signal_handler w
     = (NameError ''sys'', logging INFO ''Received shutdown signal, cleaning up...'' w)"
  by (simp add: signal_handler_def module_names_def)

lemma monitor_iteration_signal_in_sleep:
  "fst (monitor_iteration h cfg name (Some InSleep) w) = Raised (NameError ''sys'')"
proof -
  obtain r w1 where t: "monitor_try h name w = (r, w1)" by (cases "monitor_try h name w")
  show ?thesis
  proof (cases r)
    case (Inl e)
    with t monitor_try_Exception[of h name w e] show ?thesis
      by (simp add: monitor_iteration_def monitor_sleep_def signal_handler_raises)
  next
    case (Inr u)
    with t show ?thesis
      by (simp add: monitor_iteration_def monitor_sleep_def signal_handler_raises)
  qed
qed

lemma monitor_iteration_signal_in_try:
  "monitor_iteration h cfg name (Some InTry) w
     = (Running,
        time_sleep (MONITORING_INTERVAL cfg)
          (logging ERROR (''Unexpected error while monitoring '' @ SQ @ name @ SQ @ '': ''
                          @ ''name '' @ SQ @ ''sys'' @ SQ @ '' is not defined'')
            (logging INFO ''Received shutdown signal, cleaning up...'' w)))"
  by (simp add: monitor_iteration_def monitor_sleep_def signal_handler_raises)

lemma monitor_try_observed:
  assumes "system h = ''Linux'' \<or> system h = ''Windows''"
    and "zero_exit (procs h (nrun w))"
  shows "fst (monitor_try h name w) = Inr ()
       \<and> nrun (snd (monitor_try h name w)) = Suc (nrun w)
       \<and> alerts (snd (monitor_try h name w))
           = alerts w + (if is_active_of (system h) (proc_stdout (procs h (nrun w))) then 0 else 1)"
proof -
  from assms(2) obtain out err where p: "procs h (nrun w) = Exited 0 out err"
    by (cases "procs h (nrun w)") auto
  let ?w1 = "(emit (Run (status_query h name)) w)\<lparr>nrun := Suc (nrun w)\<rparr>"
  have w1: "alerts ?w1 = alerts w" "nrun ?w1 = Suc (nrun w)"
    by (simp_all add: alerts_def emit_def)
  from assms(1) run_retry_first_ok[OF p]
  have q: "query_status h name w = (Inr (is_active_of (system h) out), ?w1)"
    by (auto simp: query_status_def status_query_def)
  show ?thesis
  proof (cases "is_active_of (system h) out")
    case True
    with q p w1 show ?thesis by (simp add: monitor_try_def)
  next
    case False
    let ?m = "''ALERT: Jenkins agent service '' @ SQ @ name @ SQ @ '' is down!''"
    let ?w2 = "logging WARNING ?m ?w1"
    from w1 have w2: "alerts ?w2 = alerts w" "nrun ?w2 = Suc (nrun w)"
      by (simp_all add: logging_alerts logging_nrun)
    from False q have "monitor_try h name w
        = send_alert_email h (''Jenkins Agent Alert: '' @ name) ?m ?w2"
      by (simp add: monitor_try_def Let_def)
    with send_alert_email_returns[of h "''Jenkins Agent Alert: '' @ name" ?m ?w2]
      send_alert_email_alerts[of h "''Jenkins Agent Alert: '' @ name" ?m ?w2] w2 False p
    show ?thesis by simp
  qed
qed

lemma monitor_iteration_observed:
  assumes "system h = ''Linux'' \<or> system h = ''Windows''"
    and "zero_exit (procs h (nrun w))"
  shows "fst (monitor_iteration h cfg name None w) = Running
       \<and> nrun (snd (monitor_iteration h cfg name None w)) = Suc (nrun w)
       \<and> alerts (snd (monitor_iteration h cfg name None w))
           = alerts w + (if is_active_of (system h) (proc_stdout (procs h (nrun w))) then 0 else 1)"
proof -
  obtain r w1 where t: "monitor_try h name w = (r, w1)" by (cases "monitor_try h name w")
  with monitor_try_observed[OF assms, of name]
  have "r = Inr ()" "nrun w1 = Suc (nrun w)"
    "alerts w1 = alerts w + (if is_active_of (system h) (proc_stdout (procs h (nrun w))) then 0 else 1)"
    by simp_all
  with t show ?thesis
    by (simp add: monitor_iteration_def monitor_sleep_def time_sleep_alerts time_sleep_nrun)
qed

lemma inactive_ticks_Suc:
  "inactive_ticks h k (Suc n)
     = (if is_active_of (system h) (proc_stdout (procs h k)) then [] else [k])
       @ inactive_ticks h (Suc k) n"
proof -
  have "[k..<k + Suc n] = k # [Suc k..<Suc k + n]"
    by (simp add: upt_conv_Cons del: upt_Suc)
  then show ?thesis by (simp add: inactive_ticks_def del: upt_Suc)
qed

lemma monitor_loop_alerts:
  assumes "system h = ''Linux'' \<or> system h = ''Windows''"
  shows "succeeds_from h (nrun w) n \<Longrightarrow>
         fst (monitor_loop h cfg name (replicate n None) w) = Running
       \<and> nrun (snd (monitor_loop h cfg name (replicate n None) w)) = nrun w + n
       \<and> alerts (snd (monitor_loop h cfg name (replicate n None) w))
           = alerts w + length (inactive_ticks h (nrun w) n)"
proof (induction n arbitrary: w)
  case 0
  show ?case by (simp add: inactive_ticks_def)
next
  case (Suc n)
  from Suc.prems have z: "zero_exit (procs h (nrun w))"
    and rest: "succeeds_from h (Suc (nrun w)) n"
    by (simp_all add: succeeds_from_Suc)
  obtain r w1 where i: "monitor_iteration h cfg name None w = (r, w1)"
    by (cases "monitor_iteration h cfg name None w")
  with monitor_iteration_observed[OF assms z, of cfg name]
  have r: "r = Running" and n1: "nrun w1 = Suc (nrun w)"
    and a1: "alerts w1 = alerts w
               + (if is_active_of (system h) (proc_stdout (procs h (nrun w))) then 0 else 1)"
    by simp_all
  from rest n1 have "succeeds_from h (nrun w1) n" by simp
  from Suc.IH[OF this] i r n1 a1 show ?case
    by (simp add: inactive_ticks_Suc)
qed




lemma monitor_service_alerts:
  assumes "system h = ''Linux'' \<or> system h = ''Windows''"
    and "succeeds_from h (nrun w) n"
  shows "fst (monitor_service h cfg name (replicate n None) w) = Running
       \<and> alerts (snd (monitor_service h cfg name (replicate n None) w))
           = alerts w + length (inactive_ticks h (nrun w) n)"
proof -
  let ?w0 = "logging INFO (''Starting monitoring for service '' @ SQ @ name @ SQ) w"
  from assms(2) have "succeeds_from h (nrun ?w0) n" by (simp add: logging_nrun)
  from monitor_loop_alerts[OF assms(1) this, of cfg name] show ?thesis
    by (simp add: monitor_service_def logging_nrun logging_alerts)
qed

lemma outage_host_facts:
  "system outage_host = ''Linux''"
  "succeeds_from outage_host (nrun world0) 6"
  "inactive_ticks outage_host (nrun world0) 6 = [1, 2, 3, 5]"
  "alerts world0 = 0"
  by code_simp+

text \<open>
  C1 (as the code has it). The monitor keeps no alert state: while the status queries
  complete, it sends one alert at every tick whose output maps to Inactive, so the number
  of alerts after \<open>n\<close> ticks is the number of Inactive observations among them, and the
  loop is still running.
\<close>

theorem monitor_alerts_at_every_inactive_tick:
  assumes "system h = ''Linux'' \<or> system h = ''Windows''"
    and "succeeds_from h (nrun w) n"
  shows "fst (monitor_service h cfg agent_name (replicate n None) w) = Running
       \<and> alerts (snd (monitor_service h cfg agent_name (replicate n None) w))
           = alerts w + length (inactive_ticks h (nrun w) n)"
  using assms by (rule monitor_service_alerts)

theorem monitor_alerts_witness:
  "(system outage_host = ''Linux'' \<or> system outage_host = ''Windows'')
   \<and> succeeds_from outage_host (nrun world0) 6
   \<and> fst (monitor_service outage_host example_config ''agent-1'' (replicate 6 None) world0) = Running
   \<and> alerts (snd (monitor_service outage_host example_config ''agent-1'' (replicate 6 None) world0))
       = length [1, 2, 3, 5 :: nat]"
proof -
  have s: "system outage_host = ''Linux'' \<or> system outage_host = ''Windows''"
    by (simp add: outage_host_facts)
  from monitor_alerts_at_every_inactive_tick[OF s outage_host_facts(2), of example_config "''agent-1''"]
    s outage_host_facts(2)
  show ?thesis by (simp add: outage_host_facts)
qed

text \<open>
  C1 as stated fails: for the observations active, inactive, inactive, inactive, active,
  inactive the monitor sends four alerts (at the second, third, fourth and sixth tick),
  not two.
\<close>

theorem monitor_alerts_twice_counterexample:
  "alerts (snd (monitor_service outage_host example_config ''agent-1'' (replicate 6 None) world0)) = 4
   \<and> alerts (snd (monitor_service outage_host example_config ''agent-1'' (replicate 6 None) world0)) \<noteq> 2
   \<and> inactive_ticks outage_host (nrun world0) 6 = [1, 2, 3, 5]"
proof -
  have s: "system outage_host = ''Linux'' \<or> system outage_host = ''Windows''"
    by (simp add: outage_host_facts)
  from monitor_service_alerts[OF s outage_host_facts(2), of example_config "''agent-1''"]
  show ?thesis by (simp add: outage_host_facts)
qed






text \<open>
  C7 (the code at the failing input). The signal handler logs and then evaluates
  \<open>sys.exit(0)\<close>, but test.py never imports \<open>sys\<close>: the handler raises \<open>NameError\<close>. Delivered
  during the sleep between two ticks, the signal ends the loop with that uncaught
  exception, and the exit status is 1, not 0. Delivered inside the \<open>try\<close> block, the
  \<open>NameError\<close> is caught by \<open>except Exception\<close>, and the loop keeps running.
\<close>

theorem shutdown_signal_raises_name_error:
  "''sys'' \<notin> set module_names
   \<and> fst (signal_handler w) = NameError ''sys''
   \<and> fst (monitor_iteration h cfg agent_name (Some InSleep) w) = Raised (NameError ''sys'')
   \<and> fst (monitor_loop h cfg agent_name (Some InSleep # sigs) w) = Raised (NameError ''sys'')
   \<and> exit_code (fst (monitor_loop h cfg agent_name (Some InSleep # sigs) w)) = Some 1
   \<and> fst (monitor_iteration h cfg agent_name (Some InTry) w) = Running
   \<and> monitor_loop h cfg agent_name (Some InTry # sigs) w
       = monitor_loop h cfg agent_name sigs (snd (monitor_iteration h cfg agent_name (Some InTry) w))"
proof -
  have 1: "''sys'' \<notin> set module_names"
    by (simp add: module_names_def)
  have 2: "fst (signal_handler w) = NameError ''sys''"
    by (simp add: signal_handler_raises)
  have 3: "fst (monitor_iteration h cfg agent_name (Some InSleep) w) = Raised (NameError ''sys'')"
    by (rule monitor_iteration_signal_in_sleep)
  then have 4: "fst (monitor_loop h cfg agent_name (Some InSleep # sigs) w) = Raised (NameError ''sys'')"
    by (cases "monitor_iteration h cfg agent_name (Some InSleep) w") simp
  have 5: "fst (monitor_iteration h cfg agent_name (Some InTry) w) = Running"
    by (simp add: monitor_iteration_signal_in_try)
  then have 6: "monitor_loop h cfg agent_name (Some InTry # sigs) w
       = monitor_loop h cfg agent_name sigs (snd (monitor_iteration h cfg agent_name (Some InTry) w))"
    by (cases "monitor_iteration h cfg agent_name (Some InTry) w") simp
  from 1 2 3 4 5 6 show ?thesis by simp
qed

subsection \<open>Two runs that differ in the secret\<close>

lemma same_logs_refl: "same_logs w w"
  by (simp add: same_logs_def)

lemma same_logs_logging: "same_logs w w' \<Longrightarrow> same_logs (logging l m w) (logging l m w')"
  by (simp add: same_logs_def logs_def logging_def emit_def)

lemma same_logs_sleep: "same_logs w w' \<Longrightarrow> same_logs (time_sleep d w) (time_sleep d w')"
  by (simp add: same_logs_def logs_def time_sleep_def emit_def)

lemma sim_subprocess_run:
  assumes "procs h = procs h'" "same_logs w w'"
  shows "fst (subprocess_run h c w) = fst (subprocess_run h' c w')
       \<and> same_logs (snd (subprocess_run h c w)) (snd (subprocess_run h' c w'))"
  using assms
  by (auto simp: subprocess_run_def same_logs_def logs_def emit_def Let_def split: proc.splits)

lemma sim_fs_change:
  assumes "fs_fault h = fs_fault h'" "same_logs w w'" "\<not> is_Log e" "\<not> is_Log e'"
  shows "sim (fs_change h p e w) (fs_change h' p e' w')"
  using assms
  by (auto simp: sim_def fs_change_def same_logs_def logs_def emit_def split: option.splits)

lemma sim_seq:
  assumes "sim f f'"
    and "\<And>x w1 w1'. same_logs w1 w1' \<Longrightarrow> sim (g x w1) (g' x w1')"
  shows "sim (case f of (Inl e, w1) \<Rightarrow> (Inl e, w1) | (Inr x, w1) \<Rightarrow> g x w1)
             (case f' of (Inl e, w1) \<Rightarrow> (Inl e, w1) | (Inr x, w1) \<Rightarrow> g' x w1)"
proof -
  obtain r w1 where f: "f = (r, w1)" by (cases f)
  obtain r' w1' where f': "f' = (r', w1')" by (cases f')
  from assms(1) f f' have r: "r' = r" and s: "same_logs w1 w1'" by (simp_all add: sim_def)
  show ?thesis
  proof (cases r)
    case (Inl e)
    with f f' r s show ?thesis by (simp add: sim_def)
  next
    case (Inr x)
    with f f' r assms(2)[OF s, of x] show ?thesis by simp
  qed
qed

lemma sim_retry_loop:
  assumes "procs h = procs h'"
  shows "same_logs w w' \<Longrightarrow>
         sim (retry_loop h c m r d as w) (retry_loop h' c m r d as w')"
proof (induction as arbitrary: w w')
  case Nil
  then show ?case by (simp add: sim_def)
next
  case (Cons a as)
  obtain x w1 where 1: "subprocess_run h c w = (x, w1)" by (cases "subprocess_run h c w")
  obtain x' w1' where 2: "subprocess_run h' c w' = (x', w1')" by (cases "subprocess_run h' c w'")
  from sim_subprocess_run[OF assms Cons.prems, of c] 1 2
  have x: "x' = x" and s: "same_logs w1 w1'" by simp_all
  show ?case
  proof (cases x)
    case (Inr res)
    with 1 2 x s show ?thesis by (simp add: sim_def)
  next
    case (Inl e)
    show ?thesis
    proof (cases e)
      case (CalledProcessError rc cmd out err)
      let ?msg = "m @ '': '' @ str_exn (CalledProcessError rc cmd out err)
                  @ ''. Attempt '' @ str_int (a + 1) @ ''/'' @ str_int r"
      from s have "same_logs (time_sleep d (logging ERROR ?msg w1))
                             (time_sleep d (logging ERROR ?msg w1'))"
        by (simp add: same_logs_sleep same_logs_logging)
      from Cons.IH[OF this] 1 2 x Inl CalledProcessError show ?thesis by simp
    qed (use 1 2 x s Inl in \<open>simp_all add: sim_def\<close>)
  qed
qed

lemma sim_run_retry:
  assumes "procs h = procs h'" "same_logs w w'"
  shows "sim (run_retry h c m w) (run_retry h' c m w')"
proof -
  obtain x w1 where 1: "retry_loop h c m 3 5 [0..3 - 1] w = (x, w1)"
    by (cases "retry_loop h c m 3 5 [0..3 - 1] w")
  obtain x' w1' where 2: "retry_loop h' c m 3 5 [0..3 - 1] w' = (x', w1')"
    by (cases "retry_loop h' c m 3 5 [0..3 - 1] w'")
  from sim_retry_loop[OF assms, of c m 3 5 "[0..3 - 1]"] 1 2
  have x: "x' = x" and s: "same_logs w1 w1'" by (simp_all add: sim_def)
  from 1 2 x s show ?thesis
    by (cases x) (simp_all add: run_retry_def run_command_with_retry_def sim_def same_logs_logging)
qed

lemma sim_run_command:
  assumes "procs h = procs h'" "same_logs w w'"
  shows "sim (run_command h c m w) (run_command h' c m w')"
proof -
  obtain x w1 where 1: "subprocess_run h c w = (x, w1)" by (cases "subprocess_run h c w")
  obtain x' w1' where 2: "subprocess_run h' c w' = (x', w1')" by (cases "subprocess_run h' c w'")
  from sim_subprocess_run[OF assms, of c] 1 2
  have x: "x' = x" and s: "same_logs w1 w1'" by simp_all
  show ?thesis
  proof (cases x)
    case (Inr res)
    with 1 2 x s show ?thesis
      by (simp add: run_command_def sim_def same_logs_logging Let_def)
  next
    case (Inl e)
    with 1 2 x s show ?thesis
      by (cases e) (simp_all add: run_command_def sim_def same_logs_logging Let_def)
  qed
qed

lemma install_service_linux_sim:
  "sim (install_service_linux h cfg name s1 wd jar w) (install_service_linux h cfg name s2 wd jar w)"
  unfolding install_service_linux_def Let_def
  apply (rule sim_seq)
   apply (rule sim_fs_change)
      apply (simp_all add: same_logs_logging same_logs_refl)[4]
  apply (rule sim_seq)
   apply (erule sim_run_retry[OF refl])
  apply (rule sim_seq)
   apply (erule sim_run_retry[OF refl])
  apply (rule sim_seq)
   apply (erule sim_run_retry[OF refl])
  apply (simp add: sim_def same_logs_logging)
  done

lemma configure_linux_try_sim:
  assumes "procs h = procs h'" "fs_fault h = fs_fault h'"
  shows "sim (configure_linux_try h c1 w) (configure_linux_try h' c2 w)"
  unfolding configure_linux_try_def Let_def
  apply (rule sim_seq)
   apply (simp add: sim_def sim_subprocess_run[OF assms(1)] same_logs_logging same_logs_refl)
  apply (rule sim_seq)
   apply (rule sim_fs_change[OF assms(2)])
     apply (simp_all add: same_logs_logging)[3]
  apply (rule sim_seq)
   apply (simp add: sim_def sim_subprocess_run[OF assms(1)] same_logs_logging)
  apply (rule sim_seq)
   apply (erule sim_run_command[OF assms(1)])
  apply (rule sim_seq)
   apply (erule sim_run_command[OF assms(1)])
  apply (erule sim_run_command[OF assms(1)])
  done

lemma with_env_facts:
  "procs (with_env h k s) = procs h" "fs_fault (with_env h k s) = fs_fault h"
  "environ (with_env h k s) k = Some s" "system (with_env h k s) = system h"
  "path_join (with_env h k s) = path_join h"
  "k' \<noteq> k \<Longrightarrow> environ (with_env h k s) k' = environ h k'"
  by (simp_all add: with_env_def)

lemma configure_linux_service_sim:
  assumes "s1 \<noteq> []" "s2 \<noteq> []"
  shows "sim (configure_linux_service (with_env h ''LINUX_AGENT_SECRET'' s1) jar cfg w)
             (configure_linux_service (with_env h ''LINUX_AGENT_SECRET'' s2) jar cfg w)"
proof (cases "map_of (AGENT_DETAILS cfg) ''LINUX''")
  case None
  with assms show ?thesis
    by (simp add: configure_linux_service_def with_env_facts falsy_def sim_def same_logs_refl)
next
  case (Some a)
  let ?h1 = "with_env h ''LINUX_AGENT_SECRET'' s1" and ?h2 = "with_env h ''LINUX_AGENT_SECRET'' s2"
  let ?c1 = "service_file_content jar (JENKINS_SERVER_URL cfg) s1 (AGENT_NAME a) (AGENT_WORKDIR a)"
  let ?c2 = "service_file_content jar (JENKINS_SERVER_URL cfg) s2 (AGENT_NAME a) (AGENT_WORKDIR a)"
  obtain r w1 where 1: "configure_linux_try ?h1 ?c1 w = (r, w1)" by (cases "configure_linux_try ?h1 ?c1 w")
  obtain r' w1' where 2: "configure_linux_try ?h2 ?c2 w = (r', w1')" by (cases "configure_linux_try ?h2 ?c2 w")
  have "sim (configure_linux_try ?h1 ?c1 w) (configure_linux_try ?h2 ?c2 w)"
    by (rule configure_linux_try_sim) (simp_all add: with_env_facts)
  with 1 2 have r: "r' = r" and s: "same_logs w1 w1'" by (simp_all add: sim_def)
  show ?thesis
  proof (cases r)
    case (Inr u)
    with 1 2 r s Some assms show ?thesis
      by (simp add: configure_linux_service_def with_env_facts falsy_def sim_def)
  next
    case (Inl e)
    with 1 2 r s Some assms show ?thesis
      by (cases e)
         (simp_all add: configure_linux_service_def with_env_facts falsy_def sim_def same_logs_logging)
  qed
qed

lemma run_command_first_ok:
  "procs h (nrun w) = Exited 0 out err \<Longrightarrow>
   run_command h c m w =
     (Inr (),
      logging INFO ''Command completed successfully.''
        (logging INFO (''Command error output (if any): '' @ err)
          (logging INFO (''Command output: '' @ out) ((emit (Run c) w)\<lparr>nrun := Suc (nrun w)\<rparr>))))"
  by (simp add: run_command_def subprocess_run_def)

lemma same_logs_run: "same_logs w w' \<Longrightarrow>
  same_logs ((emit (Run c) w)\<lparr>nrun := Suc (nrun w)\<rparr>) ((emit (Run c') w')\<lparr>nrun := Suc (nrun w')\<rparr>)"
  by (simp add: same_logs_def logs_def emit_def)

lemma install_service_windows_sim:
  assumes "zero_exit (procs h (nrun w))"
  shows "sim (install_service_windows h cfg name s1 wd jar w)
             (install_service_windows h cfg name s2 wd jar w)"
proof -
  from assms obtain out err where p: "procs h (nrun w) = Exited 0 out err"
    by (cases "procs h (nrun w)") auto
  let ?w1 = "logging INFO ''Configuring Jenkins agent as a Windows service...'' w"
  from p have p1: "procs h (nrun ?w1) = Exited 0 out err" by (simp add: logging_nrun)
  have s: "same_logs ((emit (Run (create_service_cmd h cfg name s1 wd jar)) ?w1)\<lparr>nrun := Suc (nrun ?w1)\<rparr>)
                     ((emit (Run (create_service_cmd h cfg name s2 wd jar)) ?w1)\<lparr>nrun := Suc (nrun ?w1)\<rparr>)"
    by (rule same_logs_run[OF same_logs_refl])
  let ?c = "[''sc.exe'', ''start'', name]"
  let ?m = "''Failed to start Windows service '' @ SQ @ name @ SQ"
  let ?d = "''Jenkins agent service '' @ SQ @ name @ SQ @ '' installed and started on Windows.''"
  let ?v1 = "(emit (Run (create_service_cmd h cfg name s1 wd jar)) ?w1)\<lparr>nrun := Suc (nrun ?w1)\<rparr>"
  let ?v2 = "(emit (Run (create_service_cmd h cfg name s2 wd jar)) ?w1)\<lparr>nrun := Suc (nrun ?w1)\<rparr>"
  have f1: "install_service_windows h cfg name s1 wd jar w
      = (case run_retry h ?c ?m ?v1 of
           (Inl e, w3) \<Rightarrow> (Inl e, w3)
         | (Inr x, w3) \<Rightarrow> (Inr (), logging INFO ?d w3))"
    by (simp add: install_service_windows_def Let_def run_retry_first_ok[OF p1])
  have f2: "install_service_windows h cfg name s2 wd jar w
      = (case run_retry h ?c ?m ?v2 of
           (Inl e, w3) \<Rightarrow> (Inl e, w3)
         | (Inr x, w3) \<Rightarrow> (Inr (), logging INFO ?d w3))"
    by (simp add: install_service_windows_def Let_def run_retry_first_ok[OF p1])
  show ?thesis
    unfolding f1 f2
    apply (rule sim_seq)
     apply (rule sim_run_retry[OF refl s])
    apply (simp add: sim_def same_logs_logging)
    done
qed

lemma configure_windows_service_sim:
  assumes "s1 \<noteq> []" "s2 \<noteq> []" "zero_exit (procs h (nrun w))"
  shows "sim (configure_windows_service (with_env h ''WINDOWS_AGENT_SECRET'' s1) jar cfg w)
             (configure_windows_service (with_env h ''WINDOWS_AGENT_SECRET'' s2) jar cfg w)"
proof -
  let ?h1 = "with_env h ''WINDOWS_AGENT_SECRET'' s1" and ?h2 = "with_env h ''WINDOWS_AGENT_SECRET'' s2"
  from assms(3) obtain out err where p: "procs h (nrun w) = Exited 0 out err"
    by (cases "procs h (nrun w)") auto
  have j: "environ ?h1 ''JAVA_HOME'' = environ h ''JAVA_HOME''"
    "environ ?h2 ''JAVA_HOME'' = environ h ''JAVA_HOME''"
    by (simp_all add: with_env_facts)
  show ?thesis
  proof (cases "map_of (AGENT_DETAILS cfg) ''WINDOWS''")
    case None
    with assms show ?thesis
      by (simp add: configure_windows_service_def with_env_facts falsy_def sim_def same_logs_refl)
  next
    case (Some a)
    show ?thesis
    proof (cases "environ h ''JAVA_HOME''")
      case None
      with Some j assms show ?thesis
        by (simp add: configure_windows_service_def with_env_facts falsy_def sim_def same_logs_refl)
    next
      case (Some java_home)
      let ?w1 = "logging INFO (''Registering Jenkins agent as a Windows service with name ''
                              @ SQ @ AGENT_NAME a @ SQ) w"
      from p have p1: "procs ?h1 (nrun ?w1) = Exited 0 out err" "procs ?h2 (nrun ?w1) = Exited 0 out err"
        by (simp_all add: logging_nrun with_env_facts)
      let ?c = "[''sc.exe'', ''start'', AGENT_NAME a]"
      let ?m = "''Failed to start Windows service '' @ SQ @ AGENT_NAME a @ SQ"
      have pp: "procs ?h1 = procs ?h2" by (simp add: with_env_facts)
      let ?k1 = "sc_create_command (path_join h [java_home, ''bin'', ''java.exe'']) jar
                   (JENKINS_SERVER_URL cfg) s1 (AGENT_NAME a) (AGENT_WORKDIR a)"
      let ?k2 = "sc_create_command (path_join h [java_home, ''bin'', ''java.exe'']) jar
                   (JENKINS_SERVER_URL cfg) s2 (AGENT_NAME a) (AGENT_WORKDIR a)"
      let ?e = "''Failed to create Windows service '' @ SQ @ AGENT_NAME a @ SQ"
      let ?v1 = "logging INFO ''Command completed successfully.''
             (logging INFO (''Command error output (if any): '' @ err)
               (logging INFO (''Command output: '' @ out) ((emit (Run ?k1) ?w1)\<lparr>nrun := Suc (nrun ?w1)\<rparr>)))"
      let ?v2 = "logging INFO ''Command completed successfully.''
             (logging INFO (''Command error output (if any): '' @ err)
               (logging INFO (''Command output: '' @ out) ((emit (Run ?k2) ?w1)\<lparr>nrun := Suc (nrun ?w1)\<rparr>)))"
      have s: "same_logs ?v1 ?v2"
        by (intro same_logs_logging same_logs_run same_logs_refl)
      have c1: "run_command ?h1 ?k1 ?e ?w1 = (Inr (), ?v1)"
        by (rule run_command_first_ok[OF p1(1)])
      have c2: "run_command ?h2 ?k2 ?e ?w1 = (Inr (), ?v2)"
        by (rule run_command_first_ok[OF p1(2)])
      have f1: "configure_windows_service ?h1 jar cfg w = run_command ?h1 ?c ?m ?v1"
        using Some \<open>map_of (AGENT_DETAILS cfg) ''WINDOWS'' = Some a\<close> j assms c1
        by (simp add: configure_windows_service_def Let_def with_env_facts falsy_def)
      have f2: "configure_windows_service ?h2 jar cfg w = run_command ?h2 ?c ?m ?v2"
        using Some \<open>map_of (AGENT_DETAILS cfg) ''WINDOWS'' = Some a\<close> j assms c2
        by (simp add: configure_windows_service_def Let_def with_env_facts falsy_def)
      from sim_run_command[OF pp s, of ?c ?m] show ?thesis
        by (simp only: f1 f2)
    qed
  qed
qed

subsection \<open>Where the secret reaches the log\<close>

lemma contains_appendI: "contains s a \<or> contains s b \<Longrightarrow> contains s (a @ b)"
proof (erule disjE)
  assume "contains s a"
  then obtain pre post where "a = pre @ s @ post" by (auto simp: contains_iff)
  then have "a @ b = pre @ s @ (post @ b)" by simp
  then show ?thesis unfolding contains_iff by blast
next
  assume "contains s b"
  then obtain pre post where "b = pre @ s @ post" by (auto simp: contains_iff)
  then have "a @ b = (a @ pre) @ s @ post" by simp
  then show ?thesis unfolding contains_iff by blast
qed

lemma contains_middle: "contains s (a @ s @ b)"
  unfolding contains_iff by blast

lemma repr_char_plain:
  "plain c \<Longrightarrow> q = CHR 0x27 \<or> q = CHR 0x22 \<Longrightarrow> repr_char q c = [c]"
  by (auto simp: repr_char_def plain_def Let_def)

lemma concat_repr_plain:
  "list_all plain s \<Longrightarrow> q = CHR 0x27 \<or> q = CHR 0x22 \<Longrightarrow> concat (map (repr_char q) s) = s"
  by (induction s) (simp_all add: repr_char_plain)

lemma contains_repr_str:
  assumes "list_all plain s"
  shows "contains s (repr_str (a @ s @ b))"
proof -
  let ?x = "a @ s @ b"
  let ?q = "if CHR 0x27 \<in> set ?x \<and> CHR 0x22 \<notin> set ?x then CHR 0x22 else CHR 0x27"
  have q: "?q = CHR 0x27 \<or> ?q = CHR 0x22" by simp
  have "repr_str ?x = ([?q] @ concat (map (repr_char ?q) a)) @ concat (map (repr_char ?q) s)
                      @ (concat (map (repr_char ?q) b) @ [?q])"
    by (simp add: repr_str_def Let_def)
  also have "concat (map (repr_char ?q) s) = s"
    by (rule concat_repr_plain[OF assms q])
  finally show ?thesis by (simp only: contains_middle)
qed

lemma contains_join:
  "x \<in> set xs \<Longrightarrow> contains s x \<Longrightarrow> contains s (join sep xs)"
proof (induction sep xs rule: join.induct)
  case (1 sep)
  then show ?case by simp
next
  case (2 sep y)
  then show ?case by simp
next
  case (3 sep y z zs)
  show ?case
  proof (cases "x = y")
    case True
    with 3 show ?thesis by (simp add: contains_appendI)
  next
    case False
    with 3 have "contains s (join sep (z # zs))" by simp
    then have "contains s (sep @ join sep (z # zs))" by (simp add: contains_appendI)
    then show ?thesis by (simp add: contains_appendI)
  qed
qed

lemma contains_str_list:
  assumes "x \<in> set xs" "contains s (repr_str x)"
  shows "contains s (str_list xs)"
proof -
  from assms have "contains s (join '', '' (map repr_str xs))"
    by (intro contains_join[of "repr_str x"]) simp_all
  then have "contains s (join '', '' (map repr_str xs) @ '']'')" by (simp add: contains_appendI)
  then have "contains s (''['' @ join '', '' (map repr_str xs) @ '']'')"
    by (intro contains_appendI) simp
  then show ?thesis by (simp only: str_list_def)
qed

lemma contains_str_exn:
  assumes "contains s (str_list cmd)"
  shows "contains s (m @ '': '' @ str_exn (CalledProcessError rc cmd out err) @ t)"
proof -
  have "m @ '': '' @ str_exn (CalledProcessError rc cmd out err) @ t
        = (m @ '': '' @ ''Command '' @ SQ) @ str_list cmd
          @ (SQ @ '' returned non-zero exit status '' @ str_nat rc @ ''.'' @ t)"
    by simp
  moreover from assms have "contains s ((m @ '': '' @ ''Command '' @ SQ) @ str_list cmd
          @ (SQ @ '' returned non-zero exit status '' @ str_nat rc @ ''.'' @ t))"
    by (intro contains_appendI disjI2 disjI1)
  ultimately show ?thesis by simp
qed

lemma leaks_logging: "contains s m \<Longrightarrow> leaks s (logging l m w)"
  by (simp add: leaks_def logging_def emit_def)

lemma leaks_adds: "leaks s w \<Longrightarrow> adds Q w w' \<Longrightarrow> leaks s w'"
  by (auto simp: leaks_def adds_iff)

lemma adds_retry_loop:
  assumes "\<And>e. Q e"
  shows "adds Q w (snd (retry_loop h c m r d as w))"
proof (induction as arbitrary: w)
  case Nil
  show ?case by (simp add: adds_refl)
next
  case (Cons a as)
  obtain x w1 where 1: "subprocess_run h c w = (x, w1)" by (cases "subprocess_run h c w")
  from adds_subprocess_run[where Q=Q and c=c and w=w and h=h] assms 1
  have a1: "adds Q w w1" by simp
  show ?case
  proof (cases x)
    case (Inr res)
    with 1 a1 show ?thesis by simp
  next
    case (Inl e)
    show ?thesis
    proof (cases e)
      case (CalledProcessError rc cmd out err)
      let ?msg = "m @ '': '' @ str_exn (CalledProcessError rc cmd out err)
                  @ ''. Attempt '' @ str_int (a + 1) @ ''/'' @ str_int r"
      let ?w2 = "time_sleep d (logging ERROR ?msg w1)"
      have "adds Q w1 ?w2"
        using assms adds_logging[where Q=Q] adds_sleep[where Q=Q] adds_trans by blast
      with a1 have "adds Q w ?w2" by (rule adds_trans)
      from this Cons.IH[of ?w2] have "adds Q w (snd (retry_loop h c m r d as ?w2))"
        by (rule adds_trans)
      with 1 Inl CalledProcessError show ?thesis by simp
    qed (use 1 a1 Inl in simp_all)
  qed
qed

lemma adds_run_command_with_retry:
  assumes "\<And>e. Q e"
  shows "adds Q w (snd (run_command_with_retry h c m r d w))"
proof -
  obtain x w1 where 1: "retry_loop h c m r d [0..r - 1] w = (x, w1)"
    by (cases "retry_loop h c m r d [0..r - 1] w")
  with adds_retry_loop[where Q=Q, OF assms, of w h c m r d "[0..r - 1]"]
  have a: "adds Q w w1" by simp
  have l: "\<And>l m. adds Q w1 (logging l m w1)"
    using assms adds_logging[where Q=Q] by blast
  from 1 a l adds_trans show ?thesis
    by (cases x) (auto simp: run_command_with_retry_def)
qed

lemma leaks_logging_keep: "leaks s w \<Longrightarrow> leaks s (logging l m w)"
  by (simp add: leaks_def logging_def emit_def)

lemma leaks_sleep_keep: "leaks s w \<Longrightarrow> leaks s (time_sleep d w)"
  by (simp add: leaks_def time_sleep_def emit_def)

lemma adds_logging_trans: "adds Q w w1 \<Longrightarrow> Q (Log l m) \<Longrightarrow> adds Q w (logging l m w1)"
  using adds_logging adds_trans by blast

lemma adds_run_retry: "adds (\<lambda>e. True) w (snd (run_retry h c m w))"
  unfolding run_retry_def by (rule adds_run_command_with_retry) simp

lemma run_retry_first_fails:
  assumes "procs h (nrun w) = Exited rc out err" "rc \<noteq> 0"
  shows "adds (\<lambda>e. True)
           (logging ERROR (m @ '': '' @ str_exn (CalledProcessError rc c out err)
                           @ ''. Attempt '' @ str_int (0 + 1) @ ''/'' @ str_int 3)
              ((emit (Run c) w)\<lparr>nrun := Suc (nrun w)\<rparr>))
           (snd (run_retry h c m w))"
proof -
  let ?L = "logging ERROR (m @ '': '' @ str_exn (CalledProcessError rc c out err)
                           @ ''. Attempt '' @ str_int (0 + 1) @ ''/'' @ str_int 3)
              ((emit (Run c) w)\<lparr>nrun := Suc (nrun w)\<rparr>)"
  let ?w2 = "time_sleep 5 ?L"
  have u: "[0..(3::int) - 1] = 0 # [1..2]"
    by (simp add: upto.simps)
  from assms have step: "retry_loop h c m 3 5 [0..3 - 1] w = retry_loop h c m 3 5 [1..2] ?w2"
    unfolding u by (simp add: subprocess_run_def)
  obtain x w3 where 1: "retry_loop h c m 3 5 [1..2] ?w2 = (x, w3)"
    by (cases "retry_loop h c m 3 5 [1..2] ?w2")
  have "adds (\<lambda>e. True) ?L ?w2" by (simp add: adds_sleep)
  moreover from adds_retry_loop[where Q="\<lambda>e. True", of ?w2 h c m 3 5 "[1..2]"] 1
  have "adds (\<lambda>e. True) ?w2 w3" by simp
  ultimately have a: "adds (\<lambda>e. True) ?L w3" by (rule adds_trans)
  have l: "\<And>l m. adds (\<lambda>e. True) w3 (logging l m w3)" by (simp add: adds_logging)
  from step 1 a l adds_trans show ?thesis
    by (cases x) (auto simp: run_retry_def run_command_with_retry_def)
qed

lemma create_service_cmd_leaks:
  "list_all plain s \<Longrightarrow> contains s (str_list (create_service_cmd h cfg name s wd jar))"
proof -
  assume p: "list_all plain s"
  let ?a = "DQ @ ''java -jar '' @ path_join h [getcwd h, jar]
        @ '' -jnlpUrl '' @ JENKINS_SERVER_URL cfg @ ''/computer/'' @ name @ ''/slave-agent.jnlp''
        @ '' -secret ''"
  let ?b = "'' -workDir '' @ wd @ DQ"
  have "?a @ s @ ?b \<in> set (create_service_cmd h cfg name s wd jar)"
    by (simp add: create_service_cmd_def)
  moreover have "contains s (repr_str (?a @ s @ ?b))"
    by (rule contains_repr_str[OF p])
  ultimately show ?thesis by (rule contains_str_list)
qed

lemma sc_create_command_leaks:
  "list_all plain s \<Longrightarrow> contains s (str_list (sc_create_command java jar url s name wd))"
proof -
  assume p: "list_all plain s"
  let ?a = "''binPath= '' @ DQ @ java @ '' -jar '' @ jar @ '' -url '' @ url @ '' -secret ''"
  let ?b = "'' -name '' @ name @ '' -workDir '' @ wd @ DQ"
  have "?a @ s @ ?b \<in> set (sc_create_command java jar url s name wd)"
    by (simp add: sc_create_command_def)
  moreover have "contains s (repr_str (?a @ s @ ?b))"
    by (rule contains_repr_str[OF p])
  ultimately show ?thesis by (rule contains_str_list)
qed

lemma install_service_windows_leaks:
  assumes "nonzero_exit (procs h (nrun w))" "list_all plain s"
  shows "leaks s (snd (install_service_windows h cfg name s wd jar w))"
proof -
  from assms(1) obtain rc out err where p: "procs h (nrun w) = Exited rc out err" and rc: "rc \<noteq> 0"
    by (cases "procs h (nrun w)") auto
  let ?w1 = "logging INFO ''Configuring Jenkins agent as a Windows service...'' w"
  let ?c = "create_service_cmd h cfg name s wd jar"
  let ?m = "''Failed to create Windows service '' @ SQ @ name @ SQ"
  let ?L = "logging ERROR (?m @ '': '' @ str_exn (CalledProcessError rc ?c out err)
                           @ ''. Attempt '' @ str_int (0 + 1) @ ''/'' @ str_int 3)
              ((emit (Run ?c) ?w1)\<lparr>nrun := Suc (nrun ?w1)\<rparr>)"
  from p have p1: "procs h (nrun ?w1) = Exited rc out err" by (simp add: logging_nrun)
  have leak: "leaks s ?L"
    by (intro leaks_logging contains_str_exn create_service_cmd_leaks assms(2))
  have "adds (\<lambda>e. True) ?L (snd (install_service_windows h cfg name s wd jar w))"
    unfolding install_service_windows_def Let_def
    apply (rule adds_seq)
     apply (rule run_retry_first_fails[OF p1 rc])
    apply (rule adds_seq)
     apply (erule adds_trans, rule adds_run_retry)
    apply (simp add: adds_logging_trans)
    done
  with leak show ?thesis by (rule leaks_adds)
qed

lemma configure_windows_service_leaks:
  assumes "nonzero_exit (procs h (nrun w))" "list_all plain s" "s \<noteq> []"
    and "map_of (AGENT_DETAILS cfg) ''WINDOWS'' = Some a"
    and "environ h ''JAVA_HOME'' = Some j"
  shows "leaks s (snd (configure_windows_service (with_env h ''WINDOWS_AGENT_SECRET'' s) jar cfg w))"
proof -
  let ?h = "with_env h ''WINDOWS_AGENT_SECRET'' s"
  from assms(1) obtain rc out err where p: "procs h (nrun w) = Exited rc out err" and rc: "rc \<noteq> 0"
    by (cases "procs h (nrun w)") auto
  let ?w1 = "logging INFO (''Registering Jenkins agent as a Windows service with name ''
                          @ SQ @ AGENT_NAME a @ SQ) w"
  let ?c = "sc_create_command (path_join h [j, ''bin'', ''java.exe'']) jar
              (JENKINS_SERVER_URL cfg) s (AGENT_NAME a) (AGENT_WORKDIR a)"
  let ?m = "''Failed to create Windows service '' @ SQ @ AGENT_NAME a @ SQ"
  let ?L = "logging ERROR (?m @ '': '' @ str_exn (CalledProcessError rc ?c out err) @ [])
              ((emit (Run ?c) ?w1)\<lparr>nrun := Suc (nrun ?w1)\<rparr>)"
  from p have p1: "procs ?h (nrun ?w1) = Exited rc out err"
    by (simp add: logging_nrun with_env_facts)
  have leak: "leaks s ?L"
    by (intro leaks_logging contains_str_exn sc_create_command_leaks assms(2))
  from p1 rc have "run_command ?h ?c ?m ?w1
      = (Inl (RuntimeError ?m),
         logging ERROR (''Command error output: '' @ err)
           (logging ERROR (''Command output: '' @ out) ?L))"
    by (simp add: run_command_def subprocess_run_def)
  with assms(3,4,5) have "snd (configure_windows_service ?h jar cfg w)
      = logging ERROR (''Command error output: '' @ err)
           (logging ERROR (''Command output: '' @ out) ?L)"
    by (simp add: configure_windows_service_def Let_def with_env_facts falsy_def)
  with leak show ?thesis by (simp add: leaks_logging_keep)
qed

lemma sim_logs: "sim p q \<Longrightarrow> fst p = fst q \<and> logs (snd p) = logs (snd q)"
  by (simp add: sim_def same_logs_def)

lemma failing_windows_host_facts:
  "nonzero_exit (procs failing_windows_host (nrun world0))"
  "list_all plain ''tok123''"
  "map_of (AGENT_DETAILS example_config) ''WINDOWS''
     = Some \<lparr>AGENT_NAME = ''agent-1'', AGENT_WORKDIR = ''C:/jenkins''\<rparr>"
  "environ failing_windows_host ''JAVA_HOME'' = Some ''C:/Java''"
  "environ failing_windows_host ''WINDOWS_AGENT_SECRET'' = Some ''tok123''"
  by code_simp+

lemma with_env_same: "environ h k = Some s \<Longrightarrow> with_env h k s = h"
  by (simp add: with_env_def map_upd_triv)

text \<open>
  C9 (as the code has it). On the Linux install paths of both scripts the log output does
  not depend on the secret: two runs that differ only in the (non-empty) secret end the
  same way and log the same records. The same holds on the Windows install paths when the
  first attempt of the service-create command exits with status 0. When that attempt exits
  with a non-zero status, the failed command vector is logged, and with it the secret (for
  a secret of plain printable characters, which \<open>repr\<close> leaves as they are).
\<close>

theorem secret_logged_only_by_failed_windows_create:
  "fst (install_service_linux h cfg name s1 wd jar w) = fst (install_service_linux h cfg name s2 wd jar w)
   \<and> logs (snd (install_service_linux h cfg name s1 wd jar w))
       = logs (snd (install_service_linux h cfg name s2 wd jar w))
   \<and> (s1 \<noteq> [] \<and> s2 \<noteq> [] \<longrightarrow>
        fst (configure_linux_service (with_env h ''LINUX_AGENT_SECRET'' s1) jar cfg w)
          = fst (configure_linux_service (with_env h ''LINUX_AGENT_SECRET'' s2) jar cfg w)
        \<and> logs (snd (configure_linux_service (with_env h ''LINUX_AGENT_SECRET'' s1) jar cfg w))
          = logs (snd (configure_linux_service (with_env h ''LINUX_AGENT_SECRET'' s2) jar cfg w)))
   \<and> (zero_exit (procs h (nrun w)) \<longrightarrow>
        fst (install_service_windows h cfg name s1 wd jar w)
          = fst (install_service_windows h cfg name s2 wd jar w)
        \<and> logs (snd (install_service_windows h cfg name s1 wd jar w))
          = logs (snd (install_service_windows h cfg name s2 wd jar w)))
   \<and> (s1 \<noteq> [] \<and> s2 \<noteq> [] \<and> zero_exit (procs h (nrun w)) \<longrightarrow>
        fst (configure_windows_service (with_env h ''WINDOWS_AGENT_SECRET'' s1) jar cfg w)
          = fst (configure_windows_service (with_env h ''WINDOWS_AGENT_SECRET'' s2) jar cfg w)
        \<and> logs (snd (configure_windows_service (with_env h ''WINDOWS_AGENT_SECRET'' s1) jar cfg w))
          = logs (snd (configure_windows_service (with_env h ''WINDOWS_AGENT_SECRET'' s2) jar cfg w)))
   \<and> (nonzero_exit (procs h (nrun w)) \<and> list_all plain s1 \<longrightarrow>
        leaks s1 (snd (install_service_windows h cfg name s1 wd jar w)))
   \<and> (nonzero_exit (procs h (nrun w)) \<and> list_all plain s1 \<and> s1 \<noteq> []
        \<and> map_of (AGENT_DETAILS cfg) ''WINDOWS'' = Some a
        \<and> environ h ''JAVA_HOME'' = Some j \<longrightarrow>
        leaks s1 (snd (configure_windows_service (with_env h ''WINDOWS_AGENT_SECRET'' s1) jar cfg w)))"
  using sim_logs[OF install_service_linux_sim[of h cfg name s1 wd jar w s2]]
    sim_logs[OF configure_linux_service_sim[of s1 s2 h jar cfg w]]
    sim_logs[OF install_service_windows_sim[of h w cfg name s1 wd jar s2]]
    sim_logs[OF configure_windows_service_sim[of s1 s2 h w jar cfg]]
    install_service_windows_leaks[of h w s1 cfg name wd jar]
    configure_windows_service_leaks[of h w s1 cfg a j jar]
  by blast

theorem secret_logged_witness:
  "''tok123'' \<noteq> [] \<and> ''tok456'' \<noteq> [] \<and> zero_exit (procs linux_host (nrun world0))
   \<and> logs (snd (configure_linux_service (with_env linux_host ''LINUX_AGENT_SECRET'' ''tok123'')
                   ''agent.jar'' example_config world0))
       = logs (snd (configure_linux_service (with_env linux_host ''LINUX_AGENT_SECRET'' ''tok456'')
                      ''agent.jar'' example_config world0))
   \<and> logs (snd (install_service_windows linux_host example_config ''agent-1'' ''tok123''
                   ''C:/jenkins'' ''agent.jar'' world0))
       = logs (snd (install_service_windows linux_host example_config ''agent-1'' ''tok456''
                      ''C:/jenkins'' ''agent.jar'' world0))
   \<and> nonzero_exit (procs failing_windows_host (nrun world0))
   \<and> list_all plain ''tok123''
   \<and> leaks ''tok123'' (snd (install_service_windows failing_windows_host example_config ''agent-1''
                               ''tok123'' ''C:/jenkins'' ''agent.jar'' world0))"
proof -
  have z: "zero_exit (procs linux_host (nrun world0))"
    by (simp add: linux_host_def)
  have n: "''tok123'' \<noteq> []" "''tok456'' \<noteq> []"
    by simp_all
  note t1 = secret_logged_only_by_failed_windows_create[where h=linux_host and cfg=example_config
      and name="''agent-1''" and ?s1.0="''tok123''" and ?s2.0="''tok456''" and wd="''C:/jenkins''"
      and jar="''agent.jar''" and w=world0]
  note t2 = secret_logged_only_by_failed_windows_create[where h=failing_windows_host
      and cfg=example_config and name="''agent-1''" and ?s1.0="''tok123''" and ?s2.0="''tok456''"
      and wd="''C:/jenkins''" and jar="''agent.jar''" and w=world0]
  from t1 n have a: "logs (snd (configure_linux_service (with_env linux_host ''LINUX_AGENT_SECRET'' ''tok123'')
                   ''agent.jar'' example_config world0))
       = logs (snd (configure_linux_service (with_env linux_host ''LINUX_AGENT_SECRET'' ''tok456'')
                      ''agent.jar'' example_config world0))"
    by blast
  from t1 z have b: "logs (snd (install_service_windows linux_host example_config ''agent-1'' ''tok123''
                   ''C:/jenkins'' ''agent.jar'' world0))
       = logs (snd (install_service_windows linux_host example_config ''agent-1'' ''tok456''
                      ''C:/jenkins'' ''agent.jar'' world0))"
    by blast
  from t2 failing_windows_host_facts(1,2)
  have c: "leaks ''tok123'' (snd (install_service_windows failing_windows_host example_config ''agent-1''
                               ''tok123'' ''C:/jenkins'' ''agent.jar'' world0))"
    by blast
  from n z a b c failing_windows_host_facts(1,2) show ?thesis by blast
qed

text \<open>
  C9 as stated fails: on a Windows host whose service-create command exits with status 1,
  both scripts write the secret \<open>tok123\<close> into a log record.
\<close>

theorem secret_logged_counterexample:
  "leaks ''tok123'' (snd (install_service_windows failing_windows_host example_config ''agent-1''
                            ''tok123'' ''C:/jenkins'' ''agent.jar'' world0))
   \<and> leaks ''tok123'' (snd (configure_windows_service failing_windows_host ''agent.jar''
                               example_config world0))"
proof -
  have 1: "leaks ''tok123'' (snd (install_service_windows failing_windows_host example_config
             ''agent-1'' ''tok123'' ''C:/jenkins'' ''agent.jar'' world0))"
    by (rule install_service_windows_leaks[OF failing_windows_host_facts(1,2)])
  have "leaks ''tok123''
          (snd (configure_windows_service
                  (with_env failing_windows_host ''WINDOWS_AGENT_SECRET'' ''tok123'')
                  ''agent.jar'' example_config world0))"
    by (rule configure_windows_service_leaks[OF failing_windows_host_facts(1,2) _
               failing_windows_host_facts(3,4)]) simp
  then have 2: "leaks ''tok123'' (snd (configure_windows_service failing_windows_host ''agent.jar''
                               example_config world0))"
    by (simp add: with_env_same[OF failing_windows_host_facts(5)])
  from 1 2 show ?thesis by simp
qed

subsection \<open>The installer reads the secret after its download\<close>

lemma download_ok_windows:
  assumes "get_platform h = ''windows''"
    and "\<not> path_exists h (dirname h (agent_jar_location h))"
    and "fs_fault h (dirname h (agent_jar_location h)) = None"
    and "zero_exit (procs h (nrun w))"
  shows "fst (download_jenkins_agent h cfg w) = Inr (agent_jar_location h)
       \<and> mutations (snd (download_jenkins_agent h cfg w))
           = mutations w
             @ [MakeDirs (dirname h (agent_jar_location h)),
                Run [''curl'', ''-o'', agent_jar_location h,
                     JENKINS_SERVER_URL cfg @ ''/jnlpJars/agent.jar'']]"
proof -
  let ?d = "dirname h (agent_jar_location h)"
  let ?a = "logging INFO ''Downloading Agent jar...'' w"
  from fs_change_ok[OF assms(3), of "MakeDirs ?d" ?a]
  obtain w1 where 1: "fs_change h ?d (MakeDirs ?d) ?a = (Inr (), w1)"
    and m1: "mutations w1 = mutations w @ [MakeDirs ?d]" and n1: "nrun w1 = nrun w"
    by (auto simp: logging_mutations logging_nrun)
  from assms(4) n1 have "zero_exit (procs h (nrun w1))" by simp
  from run_command_ok[OF this, of "[''curl'', ''-o'', agent_jar_location h,
                     JENKINS_SERVER_URL cfg @ ''/jnlpJars/agent.jar'']"
         "''Failed to download Jenkins agent jar''"]
  obtain w3 where 3: "run_command h [''curl'', ''-o'', agent_jar_location h,
                     JENKINS_SERVER_URL cfg @ ''/jnlpJars/agent.jar'']
         ''Failed to download Jenkins agent jar'' w1 = (Inr (), w3)"
    and m3: "mutations w3 = mutations w1 @ [Run [''curl'', ''-o'', agent_jar_location h,
                     JENKINS_SERVER_URL cfg @ ''/jnlpJars/agent.jar'']]"
    by auto
  have "download_jenkins_agent h cfg w
          = (Inr (agent_jar_location h),
             logging INFO (''Jenkins agent jar downloaded to: '' @ agent_jar_location h) w3)"
    unfolding download_jenkins_agent_def Let_def using assms(1) assms(2)
    by (simp only: 1 3 prod.case sum.case if_True if_False not_False_eq_True not_True_eq_False simp_thms)
  with m1 m3 show ?thesis by (simp add: logging_mutations)
qed

lemma main_linux_no_secret_downloads:
  assumes "get_platform h = ''linux''"
    and "falsy (environ h ''LINUX_AGENT_SECRET'')"
    and "fst (validate_configuration cfg w) = Inr ()"
    and "\<not> path_exists h (dirname h (agent_jar_location h))"
    and "fs_fault h (dirname h (agent_jar_location h)) = None"
    and "zero_exit (procs h (nrun w))"
  shows "fst (main h cfg w) = Raised (ValueError ''LINUX_AGENT_SECRET is required in the .env file'')
       \<and> mutations (snd (main h cfg w))
           = mutations w
             @ [MakeDirs (dirname h (agent_jar_location h)),
                Chmod (dirname h (agent_jar_location h)) 493,
                Run [''curl'', ''-o'', agent_jar_location h,
                     JENKINS_SERVER_URL cfg @ ''/jnlpJars/agent.jar'']]"
proof -
  let ?w1 = "logging INFO ''Configuration validated successfully.'' w"
  from assms(3) have v: "validate_configuration cfg w = (Inr (), ?w1)"
    by (simp add: validate_configuration_def split: if_splits)
  from assms(1) have nw: "get_platform h \<noteq> ''windows''" by simp
  from assms(6) have "zero_exit (procs h (nrun ?w1))" by (simp add: logging_nrun)
  from download_ok[OF nw assms(4) assms(5) this, of cfg]
  obtain w2 where d: "download_jenkins_agent h cfg ?w1 = (Inr (agent_jar_location h), w2)"
    and m2: "mutations w2 = mutations w
             @ [MakeDirs (dirname h (agent_jar_location h)),
                Chmod (dirname h (agent_jar_location h)) 493,
                Run [''curl'', ''-o'', agent_jar_location h,
                     JENKINS_SERVER_URL cfg @ ''/jnlpJars/agent.jar'']]"
    by (cases "download_jenkins_agent h cfg ?w1") (auto simp: logging_mutations)
  from v d assms(1) configure_linux_no_secret[OF assms(2), of "agent_jar_location h" cfg w2]
  have "main h cfg w
       = (Raised (ValueError ''LINUX_AGENT_SECRET is required in the .env file''),
          logging ERROR ''LINUX_AGENT_SECRET is not set in the .env file.'' w2)"
    by (simp add: main_def)
  with m2 show ?thesis by (simp add: logging_mutations)
qed

lemma main_windows_no_secret_downloads:
  assumes "get_platform h = ''windows''"
    and "falsy (environ h ''WINDOWS_AGENT_SECRET'')"
    and "fst (validate_configuration cfg w) = Inr ()"
    and "\<not> path_exists h (dirname h (agent_jar_location h))"
    and "fs_fault h (dirname h (agent_jar_location h)) = None"
    and "zero_exit (procs h (nrun w))"
  shows "fst (main h cfg w) = Raised (ValueError ''WINDOWS_AGENT_SECRET is required in the .env file'')
       \<and> mutations (snd (main h cfg w))
           = mutations w
             @ [MakeDirs (dirname h (agent_jar_location h)),
                Run [''curl'', ''-o'', agent_jar_location h,
                     JENKINS_SERVER_URL cfg @ ''/jnlpJars/agent.jar'']]"
proof -
  let ?w1 = "logging INFO ''Configuration validated successfully.'' w"
  from assms(3) have v: "validate_configuration cfg w = (Inr (), ?w1)"
    by (simp add: validate_configuration_def split: if_splits)
  from assms(1) have nl: "get_platform h \<noteq> ''linux''" by simp
  from assms(6) have "zero_exit (procs h (nrun ?w1))" by (simp add: logging_nrun)
  from download_ok_windows[OF assms(1) assms(4) assms(5) this, of cfg]
  obtain w2 where d: "download_jenkins_agent h cfg ?w1 = (Inr (agent_jar_location h), w2)"
    and m2: "mutations w2 = mutations w
             @ [MakeDirs (dirname h (agent_jar_location h)),
                Run [''curl'', ''-o'', agent_jar_location h,
                     JENKINS_SERVER_URL cfg @ ''/jnlpJars/agent.jar'']]"
    by (cases "download_jenkins_agent h cfg ?w1") (auto simp: logging_mutations)
  from v d assms(1) nl configure_windows_no_secret[OF assms(2), of "agent_jar_location h" cfg w2]
  have "main h cfg w
       = (Raised (ValueError ''WINDOWS_AGENT_SECRET is required in the .env file''),
          logging ERROR ''WINDOWS_AGENT_SECRET is not set in the .env file.'' w2)"
    by (simp add: main_def)
  with m2 show ?thesis by (simp add: logging_mutations)
qed

lemma no_secret_host_facts:
  "falsy (environ no_secret_host ''LINUX_AGENT_SECRET'')"
  "get_platform no_secret_host = ''linux''"
  "system no_secret_host = ''Linux''"
  "map_of (AGENT_DETAILS example_config) (system no_secret_host) \<noteq> None"
  "agent_jar_location no_secret_host = ''/home/jenkins/jenkins/agent.jar''"
  "dirname no_secret_host ''/home/jenkins/jenkins/agent.jar'' = ''/home/jenkins/jenkins''"
  "\<not> path_exists no_secret_host ''/home/jenkins/jenkins''"
  "fs_fault no_secret_host ''/home/jenkins/jenkins'' = None"
  "zero_exit (procs no_secret_host (nrun world0))"
  by code_simp+

text \<open>
  C3 (as the code has it). When the platform's agent secret is absent (unset or empty),
  both install functions of the installer fail with a \<open>ValueError\<close> before anything but a
  log record is produced, and \<open>main\<close> of test.py, which reads the secret before its
  download, ends with an exception and no mutation at all. The installer's \<open>main\<close> ends with
  an exception and has written no service file and issued no service command, but its
  secret check comes after its download: when the download succeeds, the download
  directory has been created (and, off Windows, its mode set) and the jar fetched with
  \<open>curl\<close> before the \<open>ValueError\<close> is raised.
\<close>

theorem no_service_action_without_secret:
  "(falsy (environ h ''LINUX_AGENT_SECRET'') \<longrightarrow>
      fst (configure_linux_service h jar cfg w)
        = Inl (ValueError ''LINUX_AGENT_SECRET is required in the .env file'')
      \<and> mutations (snd (configure_linux_service h jar cfg w)) = mutations w)
   \<and> (falsy (environ h ''WINDOWS_AGENT_SECRET'') \<longrightarrow>
      fst (configure_windows_service h jar cfg w)
        = Inl (ValueError ''WINDOWS_AGENT_SECRET is required in the .env file'')
      \<and> mutations (snd (configure_windows_service h jar cfg w)) = mutations w)
   \<and> ((get_platform h = ''linux'' \<and> falsy (environ h ''LINUX_AGENT_SECRET''))
       \<or> (get_platform h = ''windows'' \<and> falsy (environ h ''WINDOWS_AGENT_SECRET'')) \<longrightarrow>
      (\<exists>e. fst (main h cfg w) = Raised e)
      \<and> service_actions (snd (main h cfg w)) = service_actions w)
   \<and> (get_platform h = ''linux'' \<and> falsy (environ h ''LINUX_AGENT_SECRET'')
       \<and> fst (validate_configuration cfg w) = Inr ()
       \<and> \<not> path_exists h (dirname h (agent_jar_location h))
       \<and> fs_fault h (dirname h (agent_jar_location h)) = None
       \<and> zero_exit (procs h (nrun w)) \<longrightarrow>
      fst (main h cfg w) = Raised (ValueError ''LINUX_AGENT_SECRET is required in the .env file'')
      \<and> mutations (snd (main h cfg w))
          = mutations w
            @ [MakeDirs (dirname h (agent_jar_location h)),
               Chmod (dirname h (agent_jar_location h)) 493,
               Run [''curl'', ''-o'', agent_jar_location h,
                    JENKINS_SERVER_URL cfg @ ''/jnlpJars/agent.jar'']])
   \<and> (get_platform h = ''windows'' \<and> falsy (environ h ''WINDOWS_AGENT_SECRET'')
       \<and> fst (validate_configuration cfg w) = Inr ()
       \<and> \<not> path_exists h (dirname h (agent_jar_location h))
       \<and> fs_fault h (dirname h (agent_jar_location h)) = None
       \<and> zero_exit (procs h (nrun w)) \<longrightarrow>
      fst (main h cfg w) = Raised (ValueError ''WINDOWS_AGENT_SECRET is required in the .env file'')
      \<and> mutations (snd (main h cfg w))
          = mutations w
            @ [MakeDirs (dirname h (agent_jar_location h)),
               Run [''curl'', ''-o'', agent_jar_location h,
                    JENKINS_SERVER_URL cfg @ ''/jnlpJars/agent.jar'']])
   \<and> ((system h = ''Linux'' \<and> falsy (environ h ''LINUX_AGENT_SECRET''))
       \<or> (system h = ''Windows'' \<and> falsy (environ h ''WINDOWS_AGENT_SECRET'')) \<longrightarrow>
      (\<exists>e. fst (test_main h cfg sigs w) = Raised e)
      \<and> mutations (snd (test_main h cfg sigs w)) = mutations w
      \<and> (map_of (AGENT_DETAILS cfg) (system h) \<noteq> None \<longrightarrow>
           get_agent_details h cfg
             = Inl (ValueError (''Agent secret for '' @ system h @ '' not found in .env''))))"
proof (intro conjI impI)
  assume "falsy (environ h ''LINUX_AGENT_SECRET'')"
  then show "fst (configure_linux_service h jar cfg w)
        = Inl (ValueError ''LINUX_AGENT_SECRET is required in the .env file'')"
    and "mutations (snd (configure_linux_service h jar cfg w)) = mutations w"
    by (simp_all add: configure_linux_no_secret logging_mutations)
next
  assume "falsy (environ h ''WINDOWS_AGENT_SECRET'')"
  then show "fst (configure_windows_service h jar cfg w)
        = Inl (ValueError ''WINDOWS_AGENT_SECRET is required in the .env file'')"
    and "mutations (snd (configure_windows_service h jar cfg w)) = mutations w"
    by (simp_all add: configure_windows_no_secret logging_mutations)
next
  assume a: "(get_platform h = ''linux'' \<and> falsy (environ h ''LINUX_AGENT_SECRET''))
       \<or> (get_platform h = ''windows'' \<and> falsy (environ h ''WINDOWS_AGENT_SECRET''))"
  from main_no_secret[OF a, of cfg w]
  show "\<exists>e. fst (main h cfg w) = Raised e"
    and "service_actions (snd (main h cfg w)) = service_actions w"
    by simp_all
next
  assume a: "get_platform h = ''linux'' \<and> falsy (environ h ''LINUX_AGENT_SECRET'')
       \<and> fst (validate_configuration cfg w) = Inr ()
       \<and> \<not> path_exists h (dirname h (agent_jar_location h))
       \<and> fs_fault h (dirname h (agent_jar_location h)) = None
       \<and> zero_exit (procs h (nrun w))"
  then have m: "fst (main h cfg w) = Raised (ValueError ''LINUX_AGENT_SECRET is required in the .env file'')
       \<and> mutations (snd (main h cfg w))
           = mutations w
             @ [MakeDirs (dirname h (agent_jar_location h)),
                Chmod (dirname h (agent_jar_location h)) 493,
                Run [''curl'', ''-o'', agent_jar_location h,
                     JENKINS_SERVER_URL cfg @ ''/jnlpJars/agent.jar'']]"
    using main_linux_no_secret_downloads[of h cfg w] by blast
  from m show "fst (main h cfg w) = Raised (ValueError ''LINUX_AGENT_SECRET is required in the .env file'')"
    by (rule conjunct1)
  from m show "mutations (snd (main h cfg w))
           = mutations w
             @ [MakeDirs (dirname h (agent_jar_location h)),
                Chmod (dirname h (agent_jar_location h)) 493,
                Run [''curl'', ''-o'', agent_jar_location h,
                     JENKINS_SERVER_URL cfg @ ''/jnlpJars/agent.jar'']]"
    by (rule conjunct2)
next
  assume a: "get_platform h = ''windows'' \<and> falsy (environ h ''WINDOWS_AGENT_SECRET'')
       \<and> fst (validate_configuration cfg w) = Inr ()
       \<and> \<not> path_exists h (dirname h (agent_jar_location h))
       \<and> fs_fault h (dirname h (agent_jar_location h)) = None
       \<and> zero_exit (procs h (nrun w))"
  then have m: "fst (main h cfg w) = Raised (ValueError ''WINDOWS_AGENT_SECRET is required in the .env file'')
       \<and> mutations (snd (main h cfg w))
           = mutations w
             @ [MakeDirs (dirname h (agent_jar_location h)),
                Run [''curl'', ''-o'', agent_jar_location h,
                     JENKINS_SERVER_URL cfg @ ''/jnlpJars/agent.jar'']]"
    using main_windows_no_secret_downloads[of h cfg w] by blast
  from m show "fst (main h cfg w) = Raised (ValueError ''WINDOWS_AGENT_SECRET is required in the .env file'')"
    by (rule conjunct1)
  from m show "mutations (snd (main h cfg w))
           = mutations w
             @ [MakeDirs (dirname h (agent_jar_location h)),
                Run [''curl'', ''-o'', agent_jar_location h,
                     JENKINS_SERVER_URL cfg @ ''/jnlpJars/agent.jar'']]"
    by (rule conjunct2)
next
  assume a: "(system h = ''Linux'' \<and> falsy (environ h ''LINUX_AGENT_SECRET''))
       \<or> (system h = ''Windows'' \<and> falsy (environ h ''WINDOWS_AGENT_SECRET''))"
  from test_main_no_secret[OF a, of cfg sigs w]
  show "\<exists>e. fst (test_main h cfg sigs w) = Raised e"
    and "mutations (snd (test_main h cfg sigs w)) = mutations w"
    by simp_all
  assume "map_of (AGENT_DETAILS cfg) (system h) \<noteq> None"
  with get_agent_details_no_secret[OF a, of cfg]
  show "get_agent_details h cfg
             = Inl (ValueError (''Agent secret for '' @ system h @ '' not found in .env''))"
    by auto
qed

theorem no_service_action_without_secret_witness:
  "falsy (environ no_secret_host ''LINUX_AGENT_SECRET'')
   \<and> get_platform no_secret_host = ''linux''
   \<and> system no_secret_host = ''Linux''
   \<and> fst (validate_configuration example_config world0) = Inr ()
   \<and> \<not> path_exists no_secret_host (dirname no_secret_host (agent_jar_location no_secret_host))
   \<and> fs_fault no_secret_host (dirname no_secret_host (agent_jar_location no_secret_host)) = None
   \<and> zero_exit (procs no_secret_host (nrun world0))
   \<and> fst (configure_linux_service no_secret_host ''agent.jar'' example_config world0)
        = Inl (ValueError ''LINUX_AGENT_SECRET is required in the .env file'')
   \<and> mutations (snd (configure_linux_service no_secret_host ''agent.jar'' example_config world0))
        = mutations world0
   \<and> service_actions (snd (main no_secret_host example_config world0)) = service_actions world0
   \<and> fst (main no_secret_host example_config world0)
        = Raised (ValueError ''LINUX_AGENT_SECRET is required in the .env file'')
   \<and> mutations (snd (test_main no_secret_host example_config [] world0)) = mutations world0
   \<and> get_agent_details no_secret_host example_config
        = Inl (ValueError (''Agent secret for '' @ system no_secret_host @ '' not found in .env''))"
proof -
  have d: "\<not> path_exists no_secret_host (dirname no_secret_host (agent_jar_location no_secret_host))"
    "fs_fault no_secret_host (dirname no_secret_host (agent_jar_location no_secret_host)) = None"
    by (simp_all add: no_secret_host_facts)
  note f = no_secret_host_facts(1,2,3,4,9) example_config_validates[of world0] d
  from no_service_action_without_secret[of no_secret_host "''agent.jar''" example_config world0 "[]"] f
  show ?thesis by blast
qed

text \<open>
  C3 as stated fails for the installer: on a Linux host without the secret its \<open>main\<close>
  raises the \<open>ValueError\<close> only after it has created the download directory, set its mode
  and downloaded the jar, so the secret check does not come before any file-system
  mutation.
\<close>

theorem secret_check_after_download_counterexample:
  "fst (main no_secret_host example_config world0)
     = Raised (ValueError ''LINUX_AGENT_SECRET is required in the .env file'')
   \<and> mutations (snd (main no_secret_host example_config world0))
       = [MakeDirs ''/home/jenkins/jenkins'',
          Chmod ''/home/jenkins/jenkins'' 493,
          Run [''curl'', ''-o'', ''/home/jenkins/jenkins/agent.jar'',
               ''http://ci:8080/jnlpJars/agent.jar'']]
   \<and> mutations (snd (main no_secret_host example_config world0)) \<noteq> mutations world0"
proof -
  have m0: "mutations world0 = []"
    by (simp add: mutations_def world0_def)
  have u: "JENKINS_SERVER_URL example_config = ''http://ci:8080''"
    by (simp add: example_config_def)
  have "fst (main no_secret_host example_config world0)
          = Raised (ValueError ''LINUX_AGENT_SECRET is required in the .env file'')
       \<and> mutations (snd (main no_secret_host example_config world0))
           = mutations world0
             @ [MakeDirs (dirname no_secret_host (agent_jar_location no_secret_host)),
                Chmod (dirname no_secret_host (agent_jar_location no_secret_host)) 493,
                Run [''curl'', ''-o'', agent_jar_location no_secret_host,
                     JENKINS_SERVER_URL example_config @ ''/jnlpJars/agent.jar'']]"
    by (rule main_linux_no_secret_downloads)
       (simp_all add: no_secret_host_facts example_config_validates)
  then show ?thesis by (simp add: m0 u no_secret_host_facts)
qed

end
